theory Spec2Isabelle
  imports Main "HOL-Library.Sublist" "HOL-Library.Product_Lexorder"
begin

section \<open>Python's text\<close>

text \<open>
  A \<open>str\<close> is a sequence of Unicode code points; the model takes a code point as the
  integer that \<open>ord\<close> gives and a string as the list of its code points. The literals of the
  source are ASCII and are written as Isabelle strings under \<open>str\<close>. The character classes
  and the case mappings are those of the interpreter the repository runs on, CPython
  3.11 with the Unicode database 14.0.0: each table below lists what \<open>str\<close> and \<open>re\<close>
  answer there for every code point, in ascending order.
\<close>

type_synonym uchar = int

type_synonym utext = "uchar list"

definition str :: "string \<Rightarrow> utext" where
  "str s = map of_char s"

text \<open>Membership in a table of ranges \<open>(first, last)\<close> in ascending order.\<close>

fun in_ranges :: "(int \<times> int) list \<Rightarrow> int \<Rightarrow> bool" where
  "in_ranges [] c = False"
| "in_ranges (r # rs) c =
     (if c < fst r then False else if c \<le> snd r then True else in_ranges rs c)"

text \<open>\<open>str.isspace\<close> on one character, which is also the class \<open>\s\<close> and what \<open>str.strip\<close>
  removes.\<close>

definition SPACE_RANGES :: "(int \<times> int) list" where
  "SPACE_RANGES =
     [(0x9, 0xD), (0x1C, 0x20), (0x85, 0x85), (0xA0, 0xA0), (0x1680, 0x1680),
      (0x2000, 0x200A), (0x2028, 0x2029), (0x202F, 0x202F), (0x205F, 0x205F),
      (0x3000, 0x3000)]"

definition is_space :: "uchar \<Rightarrow> bool" where
  "is_space c = in_ranges SPACE_RANGES c"

text \<open>The class \<open>\d\<close>: the decimal digits of every script, each range running through the
  digits \<open>0\<close> to \<open>9\<close> once or several times; \<open>int\<close> reads them all.\<close>

definition DECIMAL_RANGES :: "(int \<times> int) list" where
  "DECIMAL_RANGES =
     [(0x30, 0x39), (0x660, 0x669), (0x6F0, 0x6F9), (0x7C0, 0x7C9), (0x966, 0x96F),
      (0x9E6, 0x9EF), (0xA66, 0xA6F), (0xAE6, 0xAEF), (0xB66, 0xB6F), (0xBE6, 0xBEF),
      (0xC66, 0xC6F), (0xCE6, 0xCEF), (0xD66, 0xD6F), (0xDE6, 0xDEF), (0xE50, 0xE59),
      (0xED0, 0xED9), (0xF20, 0xF29), (0x1040, 0x1049), (0x1090, 0x1099), (0x17E0, 0x17E9),
      (0x1810, 0x1819), (0x1946, 0x194F), (0x19D0, 0x19D9), (0x1A80, 0x1A89),
      (0x1A90, 0x1A99), (0x1B50, 0x1B59), (0x1BB0, 0x1BB9), (0x1C40, 0x1C49),
      (0x1C50, 0x1C59), (0xA620, 0xA629), (0xA8D0, 0xA8D9), (0xA900, 0xA909),
      (0xA9D0, 0xA9D9), (0xA9F0, 0xA9F9), (0xAA50, 0xAA59), (0xABF0, 0xABF9),
      (0xFF10, 0xFF19), (0x104A0, 0x104A9), (0x10D30, 0x10D39), (0x11066, 0x1106F),
      (0x110F0, 0x110F9), (0x11136, 0x1113F), (0x111D0, 0x111D9), (0x112F0, 0x112F9),
      (0x11450, 0x11459), (0x114D0, 0x114D9), (0x11650, 0x11659), (0x116C0, 0x116C9),
      (0x11730, 0x11739), (0x118E0, 0x118E9), (0x11950, 0x11959), (0x11C50, 0x11C59),
      (0x11D50, 0x11D59), (0x11DA0, 0x11DA9), (0x16A60, 0x16A69), (0x16AC0, 0x16AC9),
      (0x16B50, 0x16B59), (0x1D7CE, 0x1D7FF), (0x1E140, 0x1E149), (0x1E2F0, 0x1E2F9),
      (0x1E950, 0x1E959), (0x1FBF0, 0x1FBF9)]"


fun digit_value_in :: "(int \<times> int) list \<Rightarrow> uchar \<Rightarrow> int" where
  "digit_value_in [] c = 0"
| "digit_value_in (r # rs) c =
     (if c < fst r then 0 else if c \<le> snd r then (c - fst r) mod 10 else digit_value_in rs c)"

definition digit_value :: "uchar \<Rightarrow> int" where
  "digit_value c = digit_value_in DECIMAL_RANGES c"

text \<open>\<open>str.isalnum\<close> on one character; the class \<open>\w\<close> is these characters and the
  underscore.\<close>

definition ALNUM_RANGES :: "(int \<times> int) list" where
  "ALNUM_RANGES =
     [(0x30, 0x39), (0x41, 0x5A), (0x61, 0x7A), (0xAA, 0xAA), (0xB2, 0xB3), (0xB5, 0xB5),
      (0xB9, 0xBA), (0xBC, 0xBE), (0xC0, 0xD6), (0xD8, 0xF6), (0xF8, 0x2C1),
      (0x2C6, 0x2D1), (0x2E0, 0x2E4), (0x2EC, 0x2EC), (0x2EE, 0x2EE), (0x370, 0x374),
      (0x376, 0x377), (0x37A, 0x37D), (0x37F, 0x37F), (0x386, 0x386), (0x388, 0x38A),
      (0x38C, 0x38C), (0x38E, 0x3A1), (0x3A3, 0x3F5), (0x3F7, 0x481), (0x48A, 0x52F),
      (0x531, 0x556), (0x559, 0x559), (0x560, 0x588), (0x5D0, 0x5EA), (0x5EF, 0x5F2),
      (0x620, 0x64A), (0x660, 0x669), (0x66E, 0x66F), (0x671, 0x6D3), (0x6D5, 0x6D5),
      (0x6E5, 0x6E6), (0x6EE, 0x6FC), (0x6FF, 0x6FF), (0x710, 0x710), (0x712, 0x72F),
      (0x74D, 0x7A5), (0x7B1, 0x7B1), (0x7C0, 0x7EA), (0x7F4, 0x7F5), (0x7FA, 0x7FA),
      (0x800, 0x815), (0x81A, 0x81A), (0x824, 0x824), (0x828, 0x828), (0x840, 0x858),
      (0x860, 0x86A), (0x870, 0x887), (0x889, 0x88E), (0x8A0, 0x8C9), (0x904, 0x939),
      (0x93D, 0x93D), (0x950, 0x950), (0x958, 0x961), (0x966, 0x96F), (0x971, 0x980),
      (0x985, 0x98C), (0x98F, 0x990), (0x993, 0x9A8), (0x9AA, 0x9B0), (0x9B2, 0x9B2),
      (0x9B6, 0x9B9), (0x9BD, 0x9BD), (0x9CE, 0x9CE), (0x9DC, 0x9DD), (0x9DF, 0x9E1),
      (0x9E6, 0x9F1), (0x9F4, 0x9F9), (0x9FC, 0x9FC), (0xA05, 0xA0A), (0xA0F, 0xA10),
      (0xA13, 0xA28), (0xA2A, 0xA30), (0xA32, 0xA33), (0xA35, 0xA36), (0xA38, 0xA39),
      (0xA59, 0xA5C), (0xA5E, 0xA5E), (0xA66, 0xA6F), (0xA72, 0xA74), (0xA85, 0xA8D),
      (0xA8F, 0xA91), (0xA93, 0xAA8), (0xAAA, 0xAB0), (0xAB2, 0xAB3), (0xAB5, 0xAB9),
      (0xABD, 0xABD), (0xAD0, 0xAD0), (0xAE0, 0xAE1), (0xAE6, 0xAEF), (0xAF9, 0xAF9),
      (0xB05, 0xB0C), (0xB0F, 0xB10), (0xB13, 0xB28), (0xB2A, 0xB30), (0xB32, 0xB33),
      (0xB35, 0xB39), (0xB3D, 0xB3D), (0xB5C, 0xB5D), (0xB5F, 0xB61), (0xB66, 0xB6F),
      (0xB71, 0xB77), (0xB83, 0xB83), (0xB85, 0xB8A), (0xB8E, 0xB90), (0xB92, 0xB95),
      (0xB99, 0xB9A), (0xB9C, 0xB9C), (0xB9E, 0xB9F), (0xBA3, 0xBA4), (0xBA8, 0xBAA),
      (0xBAE, 0xBB9), (0xBD0, 0xBD0), (0xBE6, 0xBF2), (0xC05, 0xC0C), (0xC0E, 0xC10),
      (0xC12, 0xC28), (0xC2A, 0xC39), (0xC3D, 0xC3D), (0xC58, 0xC5A), (0xC5D, 0xC5D),
      (0xC60, 0xC61), (0xC66, 0xC6F), (0xC78, 0xC7E), (0xC80, 0xC80), (0xC85, 0xC8C),
      (0xC8E, 0xC90), (0xC92, 0xCA8), (0xCAA, 0xCB3), (0xCB5, 0xCB9), (0xCBD, 0xCBD),
      (0xCDD, 0xCDE), (0xCE0, 0xCE1), (0xCE6, 0xCEF), (0xCF1, 0xCF2), (0xD04, 0xD0C),
      (0xD0E, 0xD10), (0xD12, 0xD3A), (0xD3D, 0xD3D), (0xD4E, 0xD4E), (0xD54, 0xD56),
      (0xD58, 0xD61), (0xD66, 0xD78), (0xD7A, 0xD7F), (0xD85, 0xD96), (0xD9A, 0xDB1),
      (0xDB3, 0xDBB), (0xDBD, 0xDBD), (0xDC0, 0xDC6), (0xDE6, 0xDEF), (0xE01, 0xE30),
      (0xE32, 0xE33), (0xE40, 0xE46), (0xE50, 0xE59), (0xE81, 0xE82), (0xE84, 0xE84),
      (0xE86, 0xE8A), (0xE8C, 0xEA3), (0xEA5, 0xEA5), (0xEA7, 0xEB0), (0xEB2, 0xEB3),
      (0xEBD, 0xEBD), (0xEC0, 0xEC4), (0xEC6, 0xEC6), (0xED0, 0xED9), (0xEDC, 0xEDF),
      (0xF00, 0xF00), (0xF20, 0xF33), (0xF40, 0xF47), (0xF49, 0xF6C), (0xF88, 0xF8C),
      (0x1000, 0x102A), (0x103F, 0x1049), (0x1050, 0x1055), (0x105A, 0x105D),
      (0x1061, 0x1061), (0x1065, 0x1066), (0x106E, 0x1070), (0x1075, 0x1081),
      (0x108E, 0x108E), (0x1090, 0x1099), (0x10A0, 0x10C5), (0x10C7, 0x10C7),
      (0x10CD, 0x10CD), (0x10D0, 0x10FA), (0x10FC, 0x1248), (0x124A, 0x124D),
      (0x1250, 0x1256), (0x1258, 0x1258), (0x125A, 0x125D), (0x1260, 0x1288),
      (0x128A, 0x128D), (0x1290, 0x12B0), (0x12B2, 0x12B5), (0x12B8, 0x12BE),
      (0x12C0, 0x12C0), (0x12C2, 0x12C5), (0x12C8, 0x12D6), (0x12D8, 0x1310),
      (0x1312, 0x1315), (0x1318, 0x135A), (0x1369, 0x137C), (0x1380, 0x138F),
      (0x13A0, 0x13F5), (0x13F8, 0x13FD), (0x1401, 0x166C), (0x166F, 0x167F),
      (0x1681, 0x169A), (0x16A0, 0x16EA), (0x16EE, 0x16F8), (0x1700, 0x1711),
      (0x171F, 0x1731), (0x1740, 0x1751), (0x1760, 0x176C), (0x176E, 0x1770),
      (0x1780, 0x17B3), (0x17D7, 0x17D7), (0x17DC, 0x17DC), (0x17E0, 0x17E9),
      (0x17F0, 0x17F9), (0x1810, 0x1819), (0x1820, 0x1878), (0x1880, 0x1884),
      (0x1887, 0x18A8), (0x18AA, 0x18AA), (0x18B0, 0x18F5), (0x1900, 0x191E),
      (0x1946, 0x196D), (0x1970, 0x1974), (0x1980, 0x19AB), (0x19B0, 0x19C9),
      (0x19D0, 0x19DA), (0x1A00, 0x1A16), (0x1A20, 0x1A54), (0x1A80, 0x1A89),
      (0x1A90, 0x1A99), (0x1AA7, 0x1AA7), (0x1B05, 0x1B33), (0x1B45, 0x1B4C),
      (0x1B50, 0x1B59), (0x1B83, 0x1BA0), (0x1BAE, 0x1BE5), (0x1C00, 0x1C23),
      (0x1C40, 0x1C49), (0x1C4D, 0x1C7D), (0x1C80, 0x1C88), (0x1C90, 0x1CBA),
      (0x1CBD, 0x1CBF), (0x1CE9, 0x1CEC), (0x1CEE, 0x1CF3), (0x1CF5, 0x1CF6),
      (0x1CFA, 0x1CFA), (0x1D00, 0x1DBF), (0x1E00, 0x1F15), (0x1F18, 0x1F1D),
      (0x1F20, 0x1F45), (0x1F48, 0x1F4D), (0x1F50, 0x1F57), (0x1F59, 0x1F59),
      (0x1F5B, 0x1F5B), (0x1F5D, 0x1F5D), (0x1F5F, 0x1F7D), (0x1F80, 0x1FB4),
      (0x1FB6, 0x1FBC), (0x1FBE, 0x1FBE), (0x1FC2, 0x1FC4), (0x1FC6, 0x1FCC),
      (0x1FD0, 0x1FD3), (0x1FD6, 0x1FDB), (0x1FE0, 0x1FEC), (0x1FF2, 0x1FF4),
      (0x1FF6, 0x1FFC), (0x2070, 0x2071), (0x2074, 0x2079), (0x207F, 0x2089),
      (0x2090, 0x209C), (0x2102, 0x2102), (0x2107, 0x2107), (0x210A, 0x2113),
      (0x2115, 0x2115), (0x2119, 0x211D), (0x2124, 0x2124), (0x2126, 0x2126),
      (0x2128, 0x2128), (0x212A, 0x212D), (0x212F, 0x2139), (0x213C, 0x213F),
      (0x2145, 0x2149), (0x214E, 0x214E), (0x2150, 0x2189), (0x2460, 0x249B),
      (0x24EA, 0x24FF), (0x2776, 0x2793), (0x2C00, 0x2CE4), (0x2CEB, 0x2CEE),
      (0x2CF2, 0x2CF3), (0x2CFD, 0x2CFD), (0x2D00, 0x2D25), (0x2D27, 0x2D27),
      (0x2D2D, 0x2D2D), (0x2D30, 0x2D67), (0x2D6F, 0x2D6F), (0x2D80, 0x2D96),
      (0x2DA0, 0x2DA6), (0x2DA8, 0x2DAE), (0x2DB0, 0x2DB6), (0x2DB8, 0x2DBE),
      (0x2DC0, 0x2DC6), (0x2DC8, 0x2DCE), (0x2DD0, 0x2DD6), (0x2DD8, 0x2DDE),
      (0x2E2F, 0x2E2F), (0x3005, 0x3007), (0x3021, 0x3029), (0x3031, 0x3035),
      (0x3038, 0x303C), (0x3041, 0x3096), (0x309D, 0x309F), (0x30A1, 0x30FA),
      (0x30FC, 0x30FF), (0x3105, 0x312F), (0x3131, 0x318E), (0x3192, 0x3195),
      (0x31A0, 0x31BF), (0x31F0, 0x31FF), (0x3220, 0x3229), (0x3248, 0x324F),
      (0x3251, 0x325F), (0x3280, 0x3289), (0x32B1, 0x32BF), (0x3400, 0x4DBF),
      (0x4E00, 0xA48C), (0xA4D0, 0xA4FD), (0xA500, 0xA60C), (0xA610, 0xA62B),
      (0xA640, 0xA66E), (0xA67F, 0xA69D), (0xA6A0, 0xA6EF), (0xA717, 0xA71F),
      (0xA722, 0xA788), (0xA78B, 0xA7CA), (0xA7D0, 0xA7D1), (0xA7D3, 0xA7D3),
      (0xA7D5, 0xA7D9), (0xA7F2, 0xA801), (0xA803, 0xA805), (0xA807, 0xA80A),
      (0xA80C, 0xA822), (0xA830, 0xA835), (0xA840, 0xA873), (0xA882, 0xA8B3),
      (0xA8D0, 0xA8D9), (0xA8F2, 0xA8F7), (0xA8FB, 0xA8FB), (0xA8FD, 0xA8FE),
      (0xA900, 0xA925), (0xA930, 0xA946), (0xA960, 0xA97C), (0xA984, 0xA9B2),
      (0xA9CF, 0xA9D9), (0xA9E0, 0xA9E4), (0xA9E6, 0xA9FE), (0xAA00, 0xAA28),
      (0xAA40, 0xAA42), (0xAA44, 0xAA4B), (0xAA50, 0xAA59), (0xAA60, 0xAA76),
      (0xAA7A, 0xAA7A), (0xAA7E, 0xAAAF), (0xAAB1, 0xAAB1), (0xAAB5, 0xAAB6),
      (0xAAB9, 0xAABD), (0xAAC0, 0xAAC0), (0xAAC2, 0xAAC2), (0xAADB, 0xAADD),
      (0xAAE0, 0xAAEA), (0xAAF2, 0xAAF4), (0xAB01, 0xAB06), (0xAB09, 0xAB0E),
      (0xAB11, 0xAB16), (0xAB20, 0xAB26), (0xAB28, 0xAB2E), (0xAB30, 0xAB5A),
      (0xAB5C, 0xAB69), (0xAB70, 0xABE2), (0xABF0, 0xABF9), (0xAC00, 0xD7A3),
      (0xD7B0, 0xD7C6), (0xD7CB, 0xD7FB), (0xF900, 0xFA6D), (0xFA70, 0xFAD9),
      (0xFB00, 0xFB06), (0xFB13, 0xFB17), (0xFB1D, 0xFB1D), (0xFB1F, 0xFB28),
      (0xFB2A, 0xFB36), (0xFB38, 0xFB3C), (0xFB3E, 0xFB3E), (0xFB40, 0xFB41),
      (0xFB43, 0xFB44), (0xFB46, 0xFBB1), (0xFBD3, 0xFD3D), (0xFD50, 0xFD8F),
      (0xFD92, 0xFDC7), (0xFDF0, 0xFDFB), (0xFE70, 0xFE74), (0xFE76, 0xFEFC),
      (0xFF10, 0xFF19), (0xFF21, 0xFF3A), (0xFF41, 0xFF5A), (0xFF66, 0xFFBE),
      (0xFFC2, 0xFFC7), (0xFFCA, 0xFFCF), (0xFFD2, 0xFFD7), (0xFFDA, 0xFFDC),
      (0x10000, 0x1000B), (0x1000D, 0x10026), (0x10028, 0x1003A), (0x1003C, 0x1003D),
      (0x1003F, 0x1004D), (0x10050, 0x1005D), (0x10080, 0x100FA), (0x10107, 0x10133),
      (0x10140, 0x10178), (0x1018A, 0x1018B), (0x10280, 0x1029C), (0x102A0, 0x102D0),
      (0x102E1, 0x102FB), (0x10300, 0x10323), (0x1032D, 0x1034A), (0x10350, 0x10375),
      (0x10380, 0x1039D), (0x103A0, 0x103C3), (0x103C8, 0x103CF), (0x103D1, 0x103D5),
      (0x10400, 0x1049D), (0x104A0, 0x104A9), (0x104B0, 0x104D3), (0x104D8, 0x104FB),
      (0x10500, 0x10527), (0x10530, 0x10563), (0x10570, 0x1057A), (0x1057C, 0x1058A),
      (0x1058C, 0x10592), (0x10594, 0x10595), (0x10597, 0x105A1), (0x105A3, 0x105B1),
      (0x105B3, 0x105B9), (0x105BB, 0x105BC), (0x10600, 0x10736), (0x10740, 0x10755),
      (0x10760, 0x10767), (0x10780, 0x10785), (0x10787, 0x107B0), (0x107B2, 0x107BA),
      (0x10800, 0x10805), (0x10808, 0x10808), (0x1080A, 0x10835), (0x10837, 0x10838),
      (0x1083C, 0x1083C), (0x1083F, 0x10855), (0x10858, 0x10876), (0x10879, 0x1089E),
      (0x108A7, 0x108AF), (0x108E0, 0x108F2), (0x108F4, 0x108F5), (0x108FB, 0x1091B),
      (0x10920, 0x10939), (0x10980, 0x109B7), (0x109BC, 0x109CF), (0x109D2, 0x10A00),
      (0x10A10, 0x10A13), (0x10A15, 0x10A17), (0x10A19, 0x10A35), (0x10A40, 0x10A48),
      (0x10A60, 0x10A7E), (0x10A80, 0x10A9F), (0x10AC0, 0x10AC7), (0x10AC9, 0x10AE4),
      (0x10AEB, 0x10AEF), (0x10B00, 0x10B35), (0x10B40, 0x10B55), (0x10B58, 0x10B72),
      (0x10B78, 0x10B91), (0x10BA9, 0x10BAF), (0x10C00, 0x10C48), (0x10C80, 0x10CB2),
      (0x10CC0, 0x10CF2), (0x10CFA, 0x10D23), (0x10D30, 0x10D39), (0x10E60, 0x10E7E),
      (0x10E80, 0x10EA9), (0x10EB0, 0x10EB1), (0x10F00, 0x10F27), (0x10F30, 0x10F45),
      (0x10F51, 0x10F54), (0x10F70, 0x10F81), (0x10FB0, 0x10FCB), (0x10FE0, 0x10FF6),
      (0x11003, 0x11037), (0x11052, 0x1106F), (0x11071, 0x11072), (0x11075, 0x11075),
      (0x11083, 0x110AF), (0x110D0, 0x110E8), (0x110F0, 0x110F9), (0x11103, 0x11126),
      (0x11136, 0x1113F), (0x11144, 0x11144), (0x11147, 0x11147), (0x11150, 0x11172),
      (0x11176, 0x11176), (0x11183, 0x111B2), (0x111C1, 0x111C4), (0x111D0, 0x111DA),
      (0x111DC, 0x111DC), (0x111E1, 0x111F4), (0x11200, 0x11211), (0x11213, 0x1122B),
      (0x11280, 0x11286), (0x11288, 0x11288), (0x1128A, 0x1128D), (0x1128F, 0x1129D),
      (0x1129F, 0x112A8), (0x112B0, 0x112DE), (0x112F0, 0x112F9), (0x11305, 0x1130C),
      (0x1130F, 0x11310), (0x11313, 0x11328), (0x1132A, 0x11330), (0x11332, 0x11333),
      (0x11335, 0x11339), (0x1133D, 0x1133D), (0x11350, 0x11350), (0x1135D, 0x11361),
      (0x11400, 0x11434), (0x11447, 0x1144A), (0x11450, 0x11459), (0x1145F, 0x11461),
      (0x11480, 0x114AF), (0x114C4, 0x114C5), (0x114C7, 0x114C7), (0x114D0, 0x114D9),
      (0x11580, 0x115AE), (0x115D8, 0x115DB), (0x11600, 0x1162F), (0x11644, 0x11644),
      (0x11650, 0x11659), (0x11680, 0x116AA), (0x116B8, 0x116B8), (0x116C0, 0x116C9),
      (0x11700, 0x1171A), (0x11730, 0x1173B), (0x11740, 0x11746), (0x11800, 0x1182B),
      (0x118A0, 0x118F2), (0x118FF, 0x11906), (0x11909, 0x11909), (0x1190C, 0x11913),
      (0x11915, 0x11916), (0x11918, 0x1192F), (0x1193F, 0x1193F), (0x11941, 0x11941),
      (0x11950, 0x11959), (0x119A0, 0x119A7), (0x119AA, 0x119D0), (0x119E1, 0x119E1),
      (0x119E3, 0x119E3), (0x11A00, 0x11A00), (0x11A0B, 0x11A32), (0x11A3A, 0x11A3A),
      (0x11A50, 0x11A50), (0x11A5C, 0x11A89), (0x11A9D, 0x11A9D), (0x11AB0, 0x11AF8),
      (0x11C00, 0x11C08), (0x11C0A, 0x11C2E), (0x11C40, 0x11C40), (0x11C50, 0x11C6C),
      (0x11C72, 0x11C8F), (0x11D00, 0x11D06), (0x11D08, 0x11D09), (0x11D0B, 0x11D30),
      (0x11D46, 0x11D46), (0x11D50, 0x11D59), (0x11D60, 0x11D65), (0x11D67, 0x11D68),
      (0x11D6A, 0x11D89), (0x11D98, 0x11D98), (0x11DA0, 0x11DA9), (0x11EE0, 0x11EF2),
      (0x11FB0, 0x11FB0), (0x11FC0, 0x11FD4), (0x12000, 0x12399), (0x12400, 0x1246E),
      (0x12480, 0x12543), (0x12F90, 0x12FF0), (0x13000, 0x1342E), (0x14400, 0x14646),
      (0x16800, 0x16A38), (0x16A40, 0x16A5E), (0x16A60, 0x16A69), (0x16A70, 0x16ABE),
      (0x16AC0, 0x16AC9), (0x16AD0, 0x16AED), (0x16B00, 0x16B2F), (0x16B40, 0x16B43),
      (0x16B50, 0x16B59), (0x16B5B, 0x16B61), (0x16B63, 0x16B77), (0x16B7D, 0x16B8F),
      (0x16E40, 0x16E96), (0x16F00, 0x16F4A), (0x16F50, 0x16F50), (0x16F93, 0x16F9F),
      (0x16FE0, 0x16FE1), (0x16FE3, 0x16FE3), (0x17000, 0x187F7), (0x18800, 0x18CD5),
      (0x18D00, 0x18D08), (0x1AFF0, 0x1AFF3), (0x1AFF5, 0x1AFFB), (0x1AFFD, 0x1AFFE),
      (0x1B000, 0x1B122), (0x1B150, 0x1B152), (0x1B164, 0x1B167), (0x1B170, 0x1B2FB),
      (0x1BC00, 0x1BC6A), (0x1BC70, 0x1BC7C), (0x1BC80, 0x1BC88), (0x1BC90, 0x1BC99),
      (0x1D2E0, 0x1D2F3), (0x1D360, 0x1D378), (0x1D400, 0x1D454), (0x1D456, 0x1D49C),
      (0x1D49E, 0x1D49F), (0x1D4A2, 0x1D4A2), (0x1D4A5, 0x1D4A6), (0x1D4A9, 0x1D4AC),
      (0x1D4AE, 0x1D4B9), (0x1D4BB, 0x1D4BB), (0x1D4BD, 0x1D4C3), (0x1D4C5, 0x1D505),
      (0x1D507, 0x1D50A), (0x1D50D, 0x1D514), (0x1D516, 0x1D51C), (0x1D51E, 0x1D539),
      (0x1D53B, 0x1D53E), (0x1D540, 0x1D544), (0x1D546, 0x1D546), (0x1D54A, 0x1D550),
      (0x1D552, 0x1D6A5), (0x1D6A8, 0x1D6C0), (0x1D6C2, 0x1D6DA), (0x1D6DC, 0x1D6FA),
      (0x1D6FC, 0x1D714), (0x1D716, 0x1D734), (0x1D736, 0x1D74E), (0x1D750, 0x1D76E),
      (0x1D770, 0x1D788), (0x1D78A, 0x1D7A8), (0x1D7AA, 0x1D7C2), (0x1D7C4, 0x1D7CB),
      (0x1D7CE, 0x1D7FF), (0x1DF00, 0x1DF1E), (0x1E100, 0x1E12C), (0x1E137, 0x1E13D),
      (0x1E140, 0x1E149), (0x1E14E, 0x1E14E), (0x1E290, 0x1E2AD), (0x1E2C0, 0x1E2EB),
      (0x1E2F0, 0x1E2F9), (0x1E7E0, 0x1E7E6), (0x1E7E8, 0x1E7EB), (0x1E7ED, 0x1E7EE),
      (0x1E7F0, 0x1E7FE), (0x1E800, 0x1E8C4), (0x1E8C7, 0x1E8CF), (0x1E900, 0x1E943),
      (0x1E94B, 0x1E94B), (0x1E950, 0x1E959), (0x1EC71, 0x1ECAB), (0x1ECAD, 0x1ECAF),
      (0x1ECB1, 0x1ECB4), (0x1ED01, 0x1ED2D), (0x1ED2F, 0x1ED3D), (0x1EE00, 0x1EE03),
      (0x1EE05, 0x1EE1F), (0x1EE21, 0x1EE22), (0x1EE24, 0x1EE24), (0x1EE27, 0x1EE27),
      (0x1EE29, 0x1EE32), (0x1EE34, 0x1EE37), (0x1EE39, 0x1EE39), (0x1EE3B, 0x1EE3B),
      (0x1EE42, 0x1EE42), (0x1EE47, 0x1EE47), (0x1EE49, 0x1EE49), (0x1EE4B, 0x1EE4B),
      (0x1EE4D, 0x1EE4F), (0x1EE51, 0x1EE52), (0x1EE54, 0x1EE54), (0x1EE57, 0x1EE57),
      (0x1EE59, 0x1EE59), (0x1EE5B, 0x1EE5B), (0x1EE5D, 0x1EE5D), (0x1EE5F, 0x1EE5F),
      (0x1EE61, 0x1EE62), (0x1EE64, 0x1EE64), (0x1EE67, 0x1EE6A), (0x1EE6C, 0x1EE72),
      (0x1EE74, 0x1EE77), (0x1EE79, 0x1EE7C), (0x1EE7E, 0x1EE7E), (0x1EE80, 0x1EE89),
      (0x1EE8B, 0x1EE9B), (0x1EEA1, 0x1EEA3), (0x1EEA5, 0x1EEA9), (0x1EEAB, 0x1EEBB),
      (0x1F100, 0x1F10C), (0x1FBF0, 0x1FBF9), (0x20000, 0x2A6DF), (0x2A700, 0x2B738),
      (0x2B740, 0x2B81D), (0x2B820, 0x2CEA1), (0x2CEB0, 0x2EBE0), (0x2F800, 0x2FA1D),
      (0x30000, 0x3134A)]"

definition is_word :: "uchar \<Rightarrow> bool" where
  "is_word c = (c = 0x5F \<or> in_ranges ALNUM_RANGES c)"

text \<open>The classes \<open>[A-Z]\<close>, \<open>[a-z]\<close> and \<open>[0-9]\<close> of a pattern compiled without
  \<open>re.IGNORECASE\<close>.\<close>

definition is_upper :: "uchar \<Rightarrow> bool" where
  "is_upper c = (0x41 \<le> c \<and> c \<le> 0x5A)"

definition is_lower :: "uchar \<Rightarrow> bool" where
  "is_lower c = (0x61 \<le> c \<and> c \<le> 0x7A)"

definition is_ascii_digit :: "uchar \<Rightarrow> bool" where
  "is_ascii_digit c = (0x30 \<le> c \<and> c \<le> 0x39)"

text \<open>
  The case mappings. A run \<open>(first, last, step, delta)\<close> maps every \<open>step\<close>-th code point
  from \<open>first\<close> to \<open>last\<close> to the code point \<open>delta\<close> further on; the runs are in ascending
  order. A character with a mapping to several characters is in the table of special
  mappings. Every other character is mapped to itself.
\<close>

fun run_delta :: "(int \<times> int \<times> int \<times> int) list \<Rightarrow> uchar \<Rightarrow> int" where
  "run_delta [] c = 0"
| "run_delta (r # rs) c =
     (case r of (lo, hi, step, delta) \<Rightarrow>
        if c < lo then 0
        else if c \<le> hi \<and> (c - lo) mod step = 0 then delta
        else run_delta rs c)"

definition case_map ::
  "(int \<times> int list) list \<Rightarrow> (int \<times> int \<times> int \<times> int) list \<Rightarrow> uchar \<Rightarrow> utext" where
  "case_map special rs c =
     (case map_of special c of
        Some cs \<Rightarrow> cs
      | None \<Rightarrow> [c + run_delta rs c])"

text \<open>\<open>str.upper()\<close>, character by character.\<close>

definition UPPER_SPECIAL :: "(int \<times> int list) list" where
  "UPPER_SPECIAL =
     [(0xDF, [0x53, 0x53]), (0x149, [0x2BC, 0x4E]), (0x1F0, [0x4A, 0x30C]),
      (0x390, [0x399, 0x308, 0x301]), (0x3B0, [0x3A5, 0x308, 0x301]),
      (0x587, [0x535, 0x552]), (0x1E96, [0x48, 0x331]), (0x1E97, [0x54, 0x308]),
      (0x1E98, [0x57, 0x30A]), (0x1E99, [0x59, 0x30A]), (0x1E9A, [0x41, 0x2BE]),
      (0x1F50, [0x3A5, 0x313]), (0x1F52, [0x3A5, 0x313, 0x300]),
      (0x1F54, [0x3A5, 0x313, 0x301]), (0x1F56, [0x3A5, 0x313, 0x342]),
      (0x1F80, [0x1F08, 0x399]), (0x1F81, [0x1F09, 0x399]), (0x1F82, [0x1F0A, 0x399]),
      (0x1F83, [0x1F0B, 0x399]), (0x1F84, [0x1F0C, 0x399]), (0x1F85, [0x1F0D, 0x399]),
      (0x1F86, [0x1F0E, 0x399]), (0x1F87, [0x1F0F, 0x399]), (0x1F88, [0x1F08, 0x399]),
      (0x1F89, [0x1F09, 0x399]), (0x1F8A, [0x1F0A, 0x399]), (0x1F8B, [0x1F0B, 0x399]),
      (0x1F8C, [0x1F0C, 0x399]), (0x1F8D, [0x1F0D, 0x399]), (0x1F8E, [0x1F0E, 0x399]),
      (0x1F8F, [0x1F0F, 0x399]), (0x1F90, [0x1F28, 0x399]), (0x1F91, [0x1F29, 0x399]),
      (0x1F92, [0x1F2A, 0x399]), (0x1F93, [0x1F2B, 0x399]), (0x1F94, [0x1F2C, 0x399]),
      (0x1F95, [0x1F2D, 0x399]), (0x1F96, [0x1F2E, 0x399]), (0x1F97, [0x1F2F, 0x399]),
      (0x1F98, [0x1F28, 0x399]), (0x1F99, [0x1F29, 0x399]), (0x1F9A, [0x1F2A, 0x399]),
      (0x1F9B, [0x1F2B, 0x399]), (0x1F9C, [0x1F2C, 0x399]), (0x1F9D, [0x1F2D, 0x399]),
      (0x1F9E, [0x1F2E, 0x399]), (0x1F9F, [0x1F2F, 0x399]), (0x1FA0, [0x1F68, 0x399]),
      (0x1FA1, [0x1F69, 0x399]), (0x1FA2, [0x1F6A, 0x399]), (0x1FA3, [0x1F6B, 0x399]),
      (0x1FA4, [0x1F6C, 0x399]), (0x1FA5, [0x1F6D, 0x399]), (0x1FA6, [0x1F6E, 0x399]),
      (0x1FA7, [0x1F6F, 0x399]), (0x1FA8, [0x1F68, 0x399]), (0x1FA9, [0x1F69, 0x399]),
      (0x1FAA, [0x1F6A, 0x399]), (0x1FAB, [0x1F6B, 0x399]), (0x1FAC, [0x1F6C, 0x399]),
      (0x1FAD, [0x1F6D, 0x399]), (0x1FAE, [0x1F6E, 0x399]), (0x1FAF, [0x1F6F, 0x399]),
      (0x1FB2, [0x1FBA, 0x399]), (0x1FB3, [0x391, 0x399]), (0x1FB4, [0x386, 0x399]),
      (0x1FB6, [0x391, 0x342]), (0x1FB7, [0x391, 0x342, 0x399]), (0x1FBC, [0x391, 0x399]),
      (0x1FC2, [0x1FCA, 0x399]), (0x1FC3, [0x397, 0x399]), (0x1FC4, [0x389, 0x399]),
      (0x1FC6, [0x397, 0x342]), (0x1FC7, [0x397, 0x342, 0x399]), (0x1FCC, [0x397, 0x399]),
      (0x1FD2, [0x399, 0x308, 0x300]), (0x1FD3, [0x399, 0x308, 0x301]),
      (0x1FD6, [0x399, 0x342]), (0x1FD7, [0x399, 0x308, 0x342]),
      (0x1FE2, [0x3A5, 0x308, 0x300]), (0x1FE3, [0x3A5, 0x308, 0x301]),
      (0x1FE4, [0x3A1, 0x313]), (0x1FE6, [0x3A5, 0x342]), (0x1FE7, [0x3A5, 0x308, 0x342]),
      (0x1FF2, [0x1FFA, 0x399]), (0x1FF3, [0x3A9, 0x399]), (0x1FF4, [0x38F, 0x399]),
      (0x1FF6, [0x3A9, 0x342]), (0x1FF7, [0x3A9, 0x342, 0x399]), (0x1FFC, [0x3A9, 0x399]),
      (0xFB00, [0x46, 0x46]), (0xFB01, [0x46, 0x49]), (0xFB02, [0x46, 0x4C]),
      (0xFB03, [0x46, 0x46, 0x49]), (0xFB04, [0x46, 0x46, 0x4C]), (0xFB05, [0x53, 0x54]),
      (0xFB06, [0x53, 0x54]), (0xFB13, [0x544, 0x546]), (0xFB14, [0x544, 0x535]),
      (0xFB15, [0x544, 0x53B]), (0xFB16, [0x54E, 0x546]), (0xFB17, [0x544, 0x53D])]"

definition UPPER_RUNS :: "(int \<times> int \<times> int \<times> int) list" where
  "UPPER_RUNS =
     [(0x61, 0x7A, 1, - 0x20), (0xB5, 0xB5, 1, 0x2E7), (0xE0, 0xF6, 1, - 0x20),
      (0xF8, 0xFE, 1, - 0x20), (0xFF, 0xFF, 1, 0x79), (0x101, 0x12F, 2, - 0x1),
      (0x131, 0x131, 1, - 0xE8), (0x133, 0x137, 2, - 0x1), (0x13A, 0x148, 2, - 0x1),
      (0x14B, 0x177, 2, - 0x1), (0x17A, 0x17E, 2, - 0x1), (0x17F, 0x17F, 1, - 0x12C),
      (0x180, 0x180, 1, 0xC3), (0x183, 0x185, 2, - 0x1), (0x188, 0x188, 1, - 0x1),
      (0x18C, 0x18C, 1, - 0x1), (0x192, 0x192, 1, - 0x1), (0x195, 0x195, 1, 0x61),
      (0x199, 0x199, 1, - 0x1), (0x19A, 0x19A, 1, 0xA3), (0x19E, 0x19E, 1, 0x82),
      (0x1A1, 0x1A5, 2, - 0x1), (0x1A8, 0x1A8, 1, - 0x1), (0x1AD, 0x1AD, 1, - 0x1),
      (0x1B0, 0x1B0, 1, - 0x1), (0x1B4, 0x1B6, 2, - 0x1), (0x1B9, 0x1B9, 1, - 0x1),
      (0x1BD, 0x1BD, 1, - 0x1), (0x1BF, 0x1BF, 1, 0x38), (0x1C5, 0x1C5, 1, - 0x1),
      (0x1C6, 0x1C6, 1, - 0x2), (0x1C8, 0x1C8, 1, - 0x1), (0x1C9, 0x1C9, 1, - 0x2),
      (0x1CB, 0x1CB, 1, - 0x1), (0x1CC, 0x1CC, 1, - 0x2), (0x1CE, 0x1DC, 2, - 0x1),
      (0x1DD, 0x1DD, 1, - 0x4F), (0x1DF, 0x1EF, 2, - 0x1), (0x1F2, 0x1F2, 1, - 0x1),
      (0x1F3, 0x1F3, 1, - 0x2), (0x1F5, 0x1F5, 1, - 0x1), (0x1F9, 0x21F, 2, - 0x1),
      (0x223, 0x233, 2, - 0x1), (0x23C, 0x23C, 1, - 0x1), (0x23F, 0x240, 1, 0x2A3F),
      (0x242, 0x242, 1, - 0x1), (0x247, 0x24F, 2, - 0x1), (0x250, 0x250, 1, 0x2A1F),
      (0x251, 0x251, 1, 0x2A1C), (0x252, 0x252, 1, 0x2A1E), (0x253, 0x253, 1, - 0xD2),
      (0x254, 0x254, 1, - 0xCE), (0x256, 0x257, 1, - 0xCD), (0x259, 0x259, 1, - 0xCA),
      (0x25B, 0x25B, 1, - 0xCB), (0x25C, 0x25C, 1, 0xA54F), (0x260, 0x260, 1, - 0xCD),
      (0x261, 0x261, 1, 0xA54B), (0x263, 0x263, 1, - 0xCF), (0x265, 0x265, 1, 0xA528),
      (0x266, 0x266, 1, 0xA544), (0x268, 0x268, 1, - 0xD1), (0x269, 0x269, 1, - 0xD3),
      (0x26A, 0x26A, 1, 0xA544), (0x26B, 0x26B, 1, 0x29F7), (0x26C, 0x26C, 1, 0xA541),
      (0x26F, 0x26F, 1, - 0xD3), (0x271, 0x271, 1, 0x29FD), (0x272, 0x272, 1, - 0xD5),
      (0x275, 0x275, 1, - 0xD6), (0x27D, 0x27D, 1, 0x29E7), (0x280, 0x280, 1, - 0xDA),
      (0x282, 0x282, 1, 0xA543), (0x283, 0x283, 1, - 0xDA), (0x287, 0x287, 1, 0xA52A),
      (0x288, 0x288, 1, - 0xDA), (0x289, 0x289, 1, - 0x45), (0x28A, 0x28B, 1, - 0xD9),
      (0x28C, 0x28C, 1, - 0x47), (0x292, 0x292, 1, - 0xDB), (0x29D, 0x29D, 1, 0xA515),
      (0x29E, 0x29E, 1, 0xA512), (0x345, 0x345, 1, 0x54), (0x371, 0x373, 2, - 0x1),
      (0x377, 0x377, 1, - 0x1), (0x37B, 0x37D, 1, 0x82), (0x3AC, 0x3AC, 1, - 0x26),
      (0x3AD, 0x3AF, 1, - 0x25), (0x3B1, 0x3C1, 1, - 0x20), (0x3C2, 0x3C2, 1, - 0x1F),
      (0x3C3, 0x3CB, 1, - 0x20), (0x3CC, 0x3CC, 1, - 0x40), (0x3CD, 0x3CE, 1, - 0x3F),
      (0x3D0, 0x3D0, 1, - 0x3E), (0x3D1, 0x3D1, 1, - 0x39), (0x3D5, 0x3D5, 1, - 0x2F),
      (0x3D6, 0x3D6, 1, - 0x36), (0x3D7, 0x3D7, 1, - 0x8), (0x3D9, 0x3EF, 2, - 0x1),
      (0x3F0, 0x3F0, 1, - 0x56), (0x3F1, 0x3F1, 1, - 0x50), (0x3F2, 0x3F2, 1, 0x7),
      (0x3F3, 0x3F3, 1, - 0x74), (0x3F5, 0x3F5, 1, - 0x60), (0x3F8, 0x3F8, 1, - 0x1),
      (0x3FB, 0x3FB, 1, - 0x1), (0x430, 0x44F, 1, - 0x20), (0x450, 0x45F, 1, - 0x50),
      (0x461, 0x481, 2, - 0x1), (0x48B, 0x4BF, 2, - 0x1), (0x4C2, 0x4CE, 2, - 0x1),
      (0x4CF, 0x4CF, 1, - 0xF), (0x4D1, 0x52F, 2, - 0x1), (0x561, 0x586, 1, - 0x30),
      (0x10D0, 0x10FA, 1, 0xBC0), (0x10FD, 0x10FF, 1, 0xBC0), (0x13F8, 0x13FD, 1, - 0x8),
      (0x1C80, 0x1C80, 1, - 0x186E), (0x1C81, 0x1C81, 1, - 0x186D),
      (0x1C82, 0x1C82, 1, - 0x1864), (0x1C83, 0x1C84, 1, - 0x1862),
      (0x1C85, 0x1C85, 1, - 0x1863), (0x1C86, 0x1C86, 1, - 0x185C),
      (0x1C87, 0x1C87, 1, - 0x1825), (0x1C88, 0x1C88, 1, 0x89C2),
      (0x1D79, 0x1D79, 1, 0x8A04), (0x1D7D, 0x1D7D, 1, 0xEE6), (0x1D8E, 0x1D8E, 1, 0x8A38),
      (0x1E01, 0x1E95, 2, - 0x1), (0x1E9B, 0x1E9B, 1, - 0x3B), (0x1EA1, 0x1EFF, 2, - 0x1),
      (0x1F00, 0x1F07, 1, 0x8), (0x1F10, 0x1F15, 1, 0x8), (0x1F20, 0x1F27, 1, 0x8),
      (0x1F30, 0x1F37, 1, 0x8), (0x1F40, 0x1F45, 1, 0x8), (0x1F51, 0x1F57, 2, 0x8),
      (0x1F60, 0x1F67, 1, 0x8), (0x1F70, 0x1F71, 1, 0x4A), (0x1F72, 0x1F75, 1, 0x56),
      (0x1F76, 0x1F77, 1, 0x64), (0x1F78, 0x1F79, 1, 0x80), (0x1F7A, 0x1F7B, 1, 0x70),
      (0x1F7C, 0x1F7D, 1, 0x7E), (0x1FB0, 0x1FB1, 1, 0x8), (0x1FBE, 0x1FBE, 1, - 0x1C25),
      (0x1FD0, 0x1FD1, 1, 0x8), (0x1FE0, 0x1FE1, 1, 0x8), (0x1FE5, 0x1FE5, 1, 0x7),
      (0x214E, 0x214E, 1, - 0x1C), (0x2170, 0x217F, 1, - 0x10), (0x2184, 0x2184, 1, - 0x1),
      (0x24D0, 0x24E9, 1, - 0x1A), (0x2C30, 0x2C5F, 1, - 0x30), (0x2C61, 0x2C61, 1, - 0x1),
      (0x2C65, 0x2C65, 1, - 0x2A2B), (0x2C66, 0x2C66, 1, - 0x2A28),
      (0x2C68, 0x2C6C, 2, - 0x1), (0x2C73, 0x2C73, 1, - 0x1), (0x2C76, 0x2C76, 1, - 0x1),
      (0x2C81, 0x2CE3, 2, - 0x1), (0x2CEC, 0x2CEE, 2, - 0x1), (0x2CF3, 0x2CF3, 1, - 0x1),
      (0x2D00, 0x2D25, 1, - 0x1C60), (0x2D27, 0x2D27, 1, - 0x1C60),
      (0x2D2D, 0x2D2D, 1, - 0x1C60), (0xA641, 0xA66D, 2, - 0x1),
      (0xA681, 0xA69B, 2, - 0x1), (0xA723, 0xA72F, 2, - 0x1), (0xA733, 0xA76F, 2, - 0x1),
      (0xA77A, 0xA77C, 2, - 0x1), (0xA77F, 0xA787, 2, - 0x1), (0xA78C, 0xA78C, 1, - 0x1),
      (0xA791, 0xA793, 2, - 0x1), (0xA794, 0xA794, 1, 0x30), (0xA797, 0xA7A9, 2, - 0x1),
      (0xA7B5, 0xA7C3, 2, - 0x1), (0xA7C8, 0xA7CA, 2, - 0x1), (0xA7D1, 0xA7D1, 1, - 0x1),
      (0xA7D7, 0xA7D9, 2, - 0x1), (0xA7F6, 0xA7F6, 1, - 0x1), (0xAB53, 0xAB53, 1, - 0x3A0),
      (0xAB70, 0xABBF, 1, - 0x97D0), (0xFF41, 0xFF5A, 1, - 0x20),
      (0x10428, 0x1044F, 1, - 0x28), (0x104D8, 0x104FB, 1, - 0x28),
      (0x10597, 0x105A1, 1, - 0x27), (0x105A3, 0x105B1, 1, - 0x27),
      (0x105B3, 0x105B9, 1, - 0x27), (0x105BB, 0x105BC, 1, - 0x27),
      (0x10CC0, 0x10CF2, 1, - 0x40), (0x118C0, 0x118DF, 1, - 0x20),
      (0x16E60, 0x16E7F, 1, - 0x20), (0x1E922, 0x1E943, 1, - 0x22)]"

definition upper_char :: "uchar \<Rightarrow> utext" where
  "upper_char c =
     (if c < 0x80 then (if is_lower c then [c - 0x20] else [c])
      else case_map UPPER_SPECIAL UPPER_RUNS c)"

definition upper :: "utext \<Rightarrow> utext" where
  "upper s = concat (map upper_char s)"

text \<open>\<open>str.lower()\<close>. One character has a mapping to two, and the capital sigma becomes the
  final sigma where it ends a word: after a cased letter and not before one, characters
  that case ignores (apostrophes, accents and the like) being skipped on both sides. The
  first table lists the characters that case ignores; the second the cased letters among
  the others.\<close>

definition LOWER_SPECIAL :: "(int \<times> int list) list" where
  "LOWER_SPECIAL =
     [(0x130, [0x69, 0x307])]"

definition LOWER_RUNS :: "(int \<times> int \<times> int \<times> int) list" where
  "LOWER_RUNS =
     [(0x41, 0x5A, 1, 0x20), (0xC0, 0xD6, 1, 0x20), (0xD8, 0xDE, 1, 0x20),
      (0x100, 0x12E, 2, 0x1), (0x132, 0x136, 2, 0x1), (0x139, 0x147, 2, 0x1),
      (0x14A, 0x176, 2, 0x1), (0x178, 0x178, 1, - 0x79), (0x179, 0x17D, 2, 0x1),
      (0x181, 0x181, 1, 0xD2), (0x182, 0x184, 2, 0x1), (0x186, 0x186, 1, 0xCE),
      (0x187, 0x187, 1, 0x1), (0x189, 0x18A, 1, 0xCD), (0x18B, 0x18B, 1, 0x1),
      (0x18E, 0x18E, 1, 0x4F), (0x18F, 0x18F, 1, 0xCA), (0x190, 0x190, 1, 0xCB),
      (0x191, 0x191, 1, 0x1), (0x193, 0x193, 1, 0xCD), (0x194, 0x194, 1, 0xCF),
      (0x196, 0x196, 1, 0xD3), (0x197, 0x197, 1, 0xD1), (0x198, 0x198, 1, 0x1),
      (0x19C, 0x19C, 1, 0xD3), (0x19D, 0x19D, 1, 0xD5), (0x19F, 0x19F, 1, 0xD6),
      (0x1A0, 0x1A4, 2, 0x1), (0x1A6, 0x1A6, 1, 0xDA), (0x1A7, 0x1A7, 1, 0x1),
      (0x1A9, 0x1A9, 1, 0xDA), (0x1AC, 0x1AC, 1, 0x1), (0x1AE, 0x1AE, 1, 0xDA),
      (0x1AF, 0x1AF, 1, 0x1), (0x1B1, 0x1B2, 1, 0xD9), (0x1B3, 0x1B5, 2, 0x1),
      (0x1B7, 0x1B7, 1, 0xDB), (0x1B8, 0x1B8, 1, 0x1), (0x1BC, 0x1BC, 1, 0x1),
      (0x1C4, 0x1C4, 1, 0x2), (0x1C5, 0x1C5, 1, 0x1), (0x1C7, 0x1C7, 1, 0x2),
      (0x1C8, 0x1C8, 1, 0x1), (0x1CA, 0x1CA, 1, 0x2), (0x1CB, 0x1DB, 2, 0x1),
      (0x1DE, 0x1EE, 2, 0x1), (0x1F1, 0x1F1, 1, 0x2), (0x1F2, 0x1F4, 2, 0x1),
      (0x1F6, 0x1F6, 1, - 0x61), (0x1F7, 0x1F7, 1, - 0x38), (0x1F8, 0x21E, 2, 0x1),
      (0x220, 0x220, 1, - 0x82), (0x222, 0x232, 2, 0x1), (0x23A, 0x23A, 1, 0x2A2B),
      (0x23B, 0x23B, 1, 0x1), (0x23D, 0x23D, 1, - 0xA3), (0x23E, 0x23E, 1, 0x2A28),
      (0x241, 0x241, 1, 0x1), (0x243, 0x243, 1, - 0xC3), (0x244, 0x244, 1, 0x45),
      (0x245, 0x245, 1, 0x47), (0x246, 0x24E, 2, 0x1), (0x370, 0x372, 2, 0x1),
      (0x376, 0x376, 1, 0x1), (0x37F, 0x37F, 1, 0x74), (0x386, 0x386, 1, 0x26),
      (0x388, 0x38A, 1, 0x25), (0x38C, 0x38C, 1, 0x40), (0x38E, 0x38F, 1, 0x3F),
      (0x391, 0x3A1, 1, 0x20), (0x3A3, 0x3AB, 1, 0x20), (0x3CF, 0x3CF, 1, 0x8),
      (0x3D8, 0x3EE, 2, 0x1), (0x3F4, 0x3F4, 1, - 0x3C), (0x3F7, 0x3F7, 1, 0x1),
      (0x3F9, 0x3F9, 1, - 0x7), (0x3FA, 0x3FA, 1, 0x1), (0x3FD, 0x3FF, 1, - 0x82),
      (0x400, 0x40F, 1, 0x50), (0x410, 0x42F, 1, 0x20), (0x460, 0x480, 2, 0x1),
      (0x48A, 0x4BE, 2, 0x1), (0x4C0, 0x4C0, 1, 0xF), (0x4C1, 0x4CD, 2, 0x1),
      (0x4D0, 0x52E, 2, 0x1), (0x531, 0x556, 1, 0x30), (0x10A0, 0x10C5, 1, 0x1C60),
      (0x10C7, 0x10C7, 1, 0x1C60), (0x10CD, 0x10CD, 1, 0x1C60),
      (0x13A0, 0x13EF, 1, 0x97D0), (0x13F0, 0x13F5, 1, 0x8), (0x1C90, 0x1CBA, 1, - 0xBC0),
      (0x1CBD, 0x1CBF, 1, - 0xBC0), (0x1E00, 0x1E94, 2, 0x1),
      (0x1E9E, 0x1E9E, 1, - 0x1DBF), (0x1EA0, 0x1EFE, 2, 0x1), (0x1F08, 0x1F0F, 1, - 0x8),
      (0x1F18, 0x1F1D, 1, - 0x8), (0x1F28, 0x1F2F, 1, - 0x8), (0x1F38, 0x1F3F, 1, - 0x8),
      (0x1F48, 0x1F4D, 1, - 0x8), (0x1F59, 0x1F5F, 2, - 0x8), (0x1F68, 0x1F6F, 1, - 0x8),
      (0x1F88, 0x1F8F, 1, - 0x8), (0x1F98, 0x1F9F, 1, - 0x8), (0x1FA8, 0x1FAF, 1, - 0x8),
      (0x1FB8, 0x1FB9, 1, - 0x8), (0x1FBA, 0x1FBB, 1, - 0x4A), (0x1FBC, 0x1FBC, 1, - 0x9),
      (0x1FC8, 0x1FCB, 1, - 0x56), (0x1FCC, 0x1FCC, 1, - 0x9), (0x1FD8, 0x1FD9, 1, - 0x8),
      (0x1FDA, 0x1FDB, 1, - 0x64), (0x1FE8, 0x1FE9, 1, - 0x8), (0x1FEA, 0x1FEB, 1, - 0x70),
      (0x1FEC, 0x1FEC, 1, - 0x7), (0x1FF8, 0x1FF9, 1, - 0x80), (0x1FFA, 0x1FFB, 1, - 0x7E),
      (0x1FFC, 0x1FFC, 1, - 0x9), (0x2126, 0x2126, 1, - 0x1D5D),
      (0x212A, 0x212A, 1, - 0x20BF), (0x212B, 0x212B, 1, - 0x2046),
      (0x2132, 0x2132, 1, 0x1C), (0x2160, 0x216F, 1, 0x10), (0x2183, 0x2183, 1, 0x1),
      (0x24B6, 0x24CF, 1, 0x1A), (0x2C00, 0x2C2F, 1, 0x30), (0x2C60, 0x2C60, 1, 0x1),
      (0x2C62, 0x2C62, 1, - 0x29F7), (0x2C63, 0x2C63, 1, - 0xEE6),
      (0x2C64, 0x2C64, 1, - 0x29E7), (0x2C67, 0x2C6B, 2, 0x1),
      (0x2C6D, 0x2C6D, 1, - 0x2A1C), (0x2C6E, 0x2C6E, 1, - 0x29FD),
      (0x2C6F, 0x2C6F, 1, - 0x2A1F), (0x2C70, 0x2C70, 1, - 0x2A1E),
      (0x2C72, 0x2C72, 1, 0x1), (0x2C75, 0x2C75, 1, 0x1), (0x2C7E, 0x2C7F, 1, - 0x2A3F),
      (0x2C80, 0x2CE2, 2, 0x1), (0x2CEB, 0x2CED, 2, 0x1), (0x2CF2, 0x2CF2, 1, 0x1),
      (0xA640, 0xA66C, 2, 0x1), (0xA680, 0xA69A, 2, 0x1), (0xA722, 0xA72E, 2, 0x1),
      (0xA732, 0xA76E, 2, 0x1), (0xA779, 0xA77B, 2, 0x1), (0xA77D, 0xA77D, 1, - 0x8A04),
      (0xA77E, 0xA786, 2, 0x1), (0xA78B, 0xA78B, 1, 0x1), (0xA78D, 0xA78D, 1, - 0xA528),
      (0xA790, 0xA792, 2, 0x1), (0xA796, 0xA7A8, 2, 0x1), (0xA7AA, 0xA7AA, 1, - 0xA544),
      (0xA7AB, 0xA7AB, 1, - 0xA54F), (0xA7AC, 0xA7AC, 1, - 0xA54B),
      (0xA7AD, 0xA7AD, 1, - 0xA541), (0xA7AE, 0xA7AE, 1, - 0xA544),
      (0xA7B0, 0xA7B0, 1, - 0xA512), (0xA7B1, 0xA7B1, 1, - 0xA52A),
      (0xA7B2, 0xA7B2, 1, - 0xA515), (0xA7B3, 0xA7B3, 1, 0x3A0), (0xA7B4, 0xA7C2, 2, 0x1),
      (0xA7C4, 0xA7C4, 1, - 0x30), (0xA7C5, 0xA7C5, 1, - 0xA543),
      (0xA7C6, 0xA7C6, 1, - 0x8A38), (0xA7C7, 0xA7C9, 2, 0x1), (0xA7D0, 0xA7D0, 1, 0x1),
      (0xA7D6, 0xA7D8, 2, 0x1), (0xA7F5, 0xA7F5, 1, 0x1), (0xFF21, 0xFF3A, 1, 0x20),
      (0x10400, 0x10427, 1, 0x28), (0x104B0, 0x104D3, 1, 0x28),
      (0x10570, 0x1057A, 1, 0x27), (0x1057C, 0x1058A, 1, 0x27),
      (0x1058C, 0x10592, 1, 0x27), (0x10594, 0x10595, 1, 0x27),
      (0x10C80, 0x10CB2, 1, 0x40), (0x118A0, 0x118BF, 1, 0x20),
      (0x16E40, 0x16E5F, 1, 0x20), (0x1E900, 0x1E921, 1, 0x22)]"

definition CASE_IGNORABLE_RANGES :: "(int \<times> int) list" where
  "CASE_IGNORABLE_RANGES =
     [(0x27, 0x27), (0x2E, 0x2E), (0x3A, 0x3A), (0x5E, 0x5E), (0x60, 0x60), (0xA8, 0xA8),
      (0xAD, 0xAD), (0xAF, 0xAF), (0xB4, 0xB4), (0xB7, 0xB8), (0x2B0, 0x36F),
      (0x374, 0x375), (0x37A, 0x37A), (0x384, 0x385), (0x387, 0x387), (0x483, 0x489),
      (0x559, 0x559), (0x55F, 0x55F), (0x591, 0x5BD), (0x5BF, 0x5BF), (0x5C1, 0x5C2),
      (0x5C4, 0x5C5), (0x5C7, 0x5C7), (0x5F4, 0x5F4), (0x600, 0x605), (0x610, 0x61A),
      (0x61C, 0x61C), (0x640, 0x640), (0x64B, 0x65F), (0x670, 0x670), (0x6D6, 0x6DD),
      (0x6DF, 0x6E8), (0x6EA, 0x6ED), (0x70F, 0x70F), (0x711, 0x711), (0x730, 0x74A),
      (0x7A6, 0x7B0), (0x7EB, 0x7F5), (0x7FA, 0x7FA), (0x7FD, 0x7FD), (0x816, 0x82D),
      (0x859, 0x85B), (0x888, 0x888), (0x890, 0x891), (0x898, 0x89F), (0x8C9, 0x902),
      (0x93A, 0x93A), (0x93C, 0x93C), (0x941, 0x948), (0x94D, 0x94D), (0x951, 0x957),
      (0x962, 0x963), (0x971, 0x971), (0x981, 0x981), (0x9BC, 0x9BC), (0x9C1, 0x9C4),
      (0x9CD, 0x9CD), (0x9E2, 0x9E3), (0x9FE, 0x9FE), (0xA01, 0xA02), (0xA3C, 0xA3C),
      (0xA41, 0xA42), (0xA47, 0xA48), (0xA4B, 0xA4D), (0xA51, 0xA51), (0xA70, 0xA71),
      (0xA75, 0xA75), (0xA81, 0xA82), (0xABC, 0xABC), (0xAC1, 0xAC5), (0xAC7, 0xAC8),
      (0xACD, 0xACD), (0xAE2, 0xAE3), (0xAFA, 0xAFF), (0xB01, 0xB01), (0xB3C, 0xB3C),
      (0xB3F, 0xB3F), (0xB41, 0xB44), (0xB4D, 0xB4D), (0xB55, 0xB56), (0xB62, 0xB63),
      (0xB82, 0xB82), (0xBC0, 0xBC0), (0xBCD, 0xBCD), (0xC00, 0xC00), (0xC04, 0xC04),
      (0xC3C, 0xC3C), (0xC3E, 0xC40), (0xC46, 0xC48), (0xC4A, 0xC4D), (0xC55, 0xC56),
      (0xC62, 0xC63), (0xC81, 0xC81), (0xCBC, 0xCBC), (0xCBF, 0xCBF), (0xCC6, 0xCC6),
      (0xCCC, 0xCCD), (0xCE2, 0xCE3), (0xD00, 0xD01), (0xD3B, 0xD3C), (0xD41, 0xD44),
      (0xD4D, 0xD4D), (0xD62, 0xD63), (0xD81, 0xD81), (0xDCA, 0xDCA), (0xDD2, 0xDD4),
      (0xDD6, 0xDD6), (0xE31, 0xE31), (0xE34, 0xE3A), (0xE46, 0xE4E), (0xEB1, 0xEB1),
      (0xEB4, 0xEBC), (0xEC6, 0xEC6), (0xEC8, 0xECD), (0xF18, 0xF19), (0xF35, 0xF35),
      (0xF37, 0xF37), (0xF39, 0xF39), (0xF71, 0xF7E), (0xF80, 0xF84), (0xF86, 0xF87),
      (0xF8D, 0xF97), (0xF99, 0xFBC), (0xFC6, 0xFC6), (0x102D, 0x1030), (0x1032, 0x1037),
      (0x1039, 0x103A), (0x103D, 0x103E), (0x1058, 0x1059), (0x105E, 0x1060),
      (0x1071, 0x1074), (0x1082, 0x1082), (0x1085, 0x1086), (0x108D, 0x108D),
      (0x109D, 0x109D), (0x10FC, 0x10FC), (0x135D, 0x135F), (0x1712, 0x1714),
      (0x1732, 0x1733), (0x1752, 0x1753), (0x1772, 0x1773), (0x17B4, 0x17B5),
      (0x17B7, 0x17BD), (0x17C6, 0x17C6), (0x17C9, 0x17D3), (0x17D7, 0x17D7),
      (0x17DD, 0x17DD), (0x180B, 0x180F), (0x1843, 0x1843), (0x1885, 0x1886),
      (0x18A9, 0x18A9), (0x1920, 0x1922), (0x1927, 0x1928), (0x1932, 0x1932),
      (0x1939, 0x193B), (0x1A17, 0x1A18), (0x1A1B, 0x1A1B), (0x1A56, 0x1A56),
      (0x1A58, 0x1A5E), (0x1A60, 0x1A60), (0x1A62, 0x1A62), (0x1A65, 0x1A6C),
      (0x1A73, 0x1A7C), (0x1A7F, 0x1A7F), (0x1AA7, 0x1AA7), (0x1AB0, 0x1ACE),
      (0x1B00, 0x1B03), (0x1B34, 0x1B34), (0x1B36, 0x1B3A), (0x1B3C, 0x1B3C),
      (0x1B42, 0x1B42), (0x1B6B, 0x1B73), (0x1B80, 0x1B81), (0x1BA2, 0x1BA5),
      (0x1BA8, 0x1BA9), (0x1BAB, 0x1BAD), (0x1BE6, 0x1BE6), (0x1BE8, 0x1BE9),
      (0x1BED, 0x1BED), (0x1BEF, 0x1BF1), (0x1C2C, 0x1C33), (0x1C36, 0x1C37),
      (0x1C78, 0x1C7D), (0x1CD0, 0x1CD2), (0x1CD4, 0x1CE0), (0x1CE2, 0x1CE8),
      (0x1CED, 0x1CED), (0x1CF4, 0x1CF4), (0x1CF8, 0x1CF9), (0x1D2C, 0x1D6A),
      (0x1D78, 0x1D78), (0x1D9B, 0x1DFF), (0x1FBD, 0x1FBD), (0x1FBF, 0x1FC1),
      (0x1FCD, 0x1FCF), (0x1FDD, 0x1FDF), (0x1FED, 0x1FEF), (0x1FFD, 0x1FFE),
      (0x200B, 0x200F), (0x2018, 0x2019), (0x2024, 0x2024), (0x2027, 0x2027),
      (0x202A, 0x202E), (0x2060, 0x2064), (0x2066, 0x206F), (0x2071, 0x2071),
      (0x207F, 0x207F), (0x2090, 0x209C), (0x20D0, 0x20F0), (0x2C7C, 0x2C7D),
      (0x2CEF, 0x2CF1), (0x2D6F, 0x2D6F), (0x2D7F, 0x2D7F), (0x2DE0, 0x2DFF),
      (0x2E2F, 0x2E2F), (0x3005, 0x3005), (0x302A, 0x302D), (0x3031, 0x3035),
      (0x303B, 0x303B), (0x3099, 0x309E), (0x30FC, 0x30FE), (0xA015, 0xA015),
      (0xA4F8, 0xA4FD), (0xA60C, 0xA60C), (0xA66F, 0xA672), (0xA674, 0xA67D),
      (0xA67F, 0xA67F), (0xA69C, 0xA69F), (0xA6F0, 0xA6F1), (0xA700, 0xA721),
      (0xA770, 0xA770), (0xA788, 0xA78A), (0xA7F2, 0xA7F4), (0xA7F8, 0xA7F9),
      (0xA802, 0xA802), (0xA806, 0xA806), (0xA80B, 0xA80B), (0xA825, 0xA826),
      (0xA82C, 0xA82C), (0xA8C4, 0xA8C5), (0xA8E0, 0xA8F1), (0xA8FF, 0xA8FF),
      (0xA926, 0xA92D), (0xA947, 0xA951), (0xA980, 0xA982), (0xA9B3, 0xA9B3),
      (0xA9B6, 0xA9B9), (0xA9BC, 0xA9BD), (0xA9CF, 0xA9CF), (0xA9E5, 0xA9E6),
      (0xAA29, 0xAA2E), (0xAA31, 0xAA32), (0xAA35, 0xAA36), (0xAA43, 0xAA43),
      (0xAA4C, 0xAA4C), (0xAA70, 0xAA70), (0xAA7C, 0xAA7C), (0xAAB0, 0xAAB0),
      (0xAAB2, 0xAAB4), (0xAAB7, 0xAAB8), (0xAABE, 0xAABF), (0xAAC1, 0xAAC1),
      (0xAADD, 0xAADD), (0xAAEC, 0xAAED), (0xAAF3, 0xAAF4), (0xAAF6, 0xAAF6),
      (0xAB5B, 0xAB5F), (0xAB69, 0xAB6B), (0xABE5, 0xABE5), (0xABE8, 0xABE8),
      (0xABED, 0xABED), (0xFB1E, 0xFB1E), (0xFBB2, 0xFBC2), (0xFE00, 0xFE0F),
      (0xFE13, 0xFE13), (0xFE20, 0xFE2F), (0xFE52, 0xFE52), (0xFE55, 0xFE55),
      (0xFEFF, 0xFEFF), (0xFF07, 0xFF07), (0xFF0E, 0xFF0E), (0xFF1A, 0xFF1A),
      (0xFF3E, 0xFF3E), (0xFF40, 0xFF40), (0xFF70, 0xFF70), (0xFF9E, 0xFF9F),
      (0xFFE3, 0xFFE3), (0xFFF9, 0xFFFB), (0x101FD, 0x101FD), (0x102E0, 0x102E0),
      (0x10376, 0x1037A), (0x10780, 0x10785), (0x10787, 0x107B0), (0x107B2, 0x107BA),
      (0x10A01, 0x10A03), (0x10A05, 0x10A06), (0x10A0C, 0x10A0F), (0x10A38, 0x10A3A),
      (0x10A3F, 0x10A3F), (0x10AE5, 0x10AE6), (0x10D24, 0x10D27), (0x10EAB, 0x10EAC),
      (0x10F46, 0x10F50), (0x10F82, 0x10F85), (0x11001, 0x11001), (0x11038, 0x11046),
      (0x11070, 0x11070), (0x11073, 0x11074), (0x1107F, 0x11081), (0x110B3, 0x110B6),
      (0x110B9, 0x110BA), (0x110BD, 0x110BD), (0x110C2, 0x110C2), (0x110CD, 0x110CD),
      (0x11100, 0x11102), (0x11127, 0x1112B), (0x1112D, 0x11134), (0x11173, 0x11173),
      (0x11180, 0x11181), (0x111B6, 0x111BE), (0x111C9, 0x111CC), (0x111CF, 0x111CF),
      (0x1122F, 0x11231), (0x11234, 0x11234), (0x11236, 0x11237), (0x1123E, 0x1123E),
      (0x112DF, 0x112DF), (0x112E3, 0x112EA), (0x11300, 0x11301), (0x1133B, 0x1133C),
      (0x11340, 0x11340), (0x11366, 0x1136C), (0x11370, 0x11374), (0x11438, 0x1143F),
      (0x11442, 0x11444), (0x11446, 0x11446), (0x1145E, 0x1145E), (0x114B3, 0x114B8),
      (0x114BA, 0x114BA), (0x114BF, 0x114C0), (0x114C2, 0x114C3), (0x115B2, 0x115B5),
      (0x115BC, 0x115BD), (0x115BF, 0x115C0), (0x115DC, 0x115DD), (0x11633, 0x1163A),
      (0x1163D, 0x1163D), (0x1163F, 0x11640), (0x116AB, 0x116AB), (0x116AD, 0x116AD),
      (0x116B0, 0x116B5), (0x116B7, 0x116B7), (0x1171D, 0x1171F), (0x11722, 0x11725),
      (0x11727, 0x1172B), (0x1182F, 0x11837), (0x11839, 0x1183A), (0x1193B, 0x1193C),
      (0x1193E, 0x1193E), (0x11943, 0x11943), (0x119D4, 0x119D7), (0x119DA, 0x119DB),
      (0x119E0, 0x119E0), (0x11A01, 0x11A0A), (0x11A33, 0x11A38), (0x11A3B, 0x11A3E),
      (0x11A47, 0x11A47), (0x11A51, 0x11A56), (0x11A59, 0x11A5B), (0x11A8A, 0x11A96),
      (0x11A98, 0x11A99), (0x11C30, 0x11C36), (0x11C38, 0x11C3D), (0x11C3F, 0x11C3F),
      (0x11C92, 0x11CA7), (0x11CAA, 0x11CB0), (0x11CB2, 0x11CB3), (0x11CB5, 0x11CB6),
      (0x11D31, 0x11D36), (0x11D3A, 0x11D3A), (0x11D3C, 0x11D3D), (0x11D3F, 0x11D45),
      (0x11D47, 0x11D47), (0x11D90, 0x11D91), (0x11D95, 0x11D95), (0x11D97, 0x11D97),
      (0x11EF3, 0x11EF4), (0x13430, 0x13438), (0x16AF0, 0x16AF4), (0x16B30, 0x16B36),
      (0x16B40, 0x16B43), (0x16F4F, 0x16F4F), (0x16F8F, 0x16F9F), (0x16FE0, 0x16FE1),
      (0x16FE3, 0x16FE4), (0x1AFF0, 0x1AFF3), (0x1AFF5, 0x1AFFB), (0x1AFFD, 0x1AFFE),
      (0x1BC9D, 0x1BC9E), (0x1BCA0, 0x1BCA3), (0x1CF00, 0x1CF2D), (0x1CF30, 0x1CF46),
      (0x1D167, 0x1D169), (0x1D173, 0x1D182), (0x1D185, 0x1D18B), (0x1D1AA, 0x1D1AD),
      (0x1D242, 0x1D244), (0x1DA00, 0x1DA36), (0x1DA3B, 0x1DA6C), (0x1DA75, 0x1DA75),
      (0x1DA84, 0x1DA84), (0x1DA9B, 0x1DA9F), (0x1DAA1, 0x1DAAF), (0x1E000, 0x1E006),
      (0x1E008, 0x1E018), (0x1E01B, 0x1E021), (0x1E023, 0x1E024), (0x1E026, 0x1E02A),
      (0x1E130, 0x1E13D), (0x1E2AE, 0x1E2AE), (0x1E2EC, 0x1E2EF), (0x1E8D0, 0x1E8D6),
      (0x1E944, 0x1E94B), (0x1F3FB, 0x1F3FF), (0xE0001, 0xE0001), (0xE0020, 0xE007F),
      (0xE0100, 0xE01EF)]"

definition CASED_RANGES :: "(int \<times> int) list" where
  "CASED_RANGES =
     [(0x41, 0x5A), (0x61, 0x7A), (0xAA, 0xAA), (0xB5, 0xB5), (0xBA, 0xBA), (0xC0, 0xD6),
      (0xD8, 0xF6), (0xF8, 0x1BA), (0x1BC, 0x1BF), (0x1C4, 0x293), (0x295, 0x2AF),
      (0x370, 0x373), (0x376, 0x377), (0x37B, 0x37D), (0x37F, 0x37F), (0x386, 0x386),
      (0x388, 0x38A), (0x38C, 0x38C), (0x38E, 0x3A1), (0x3A3, 0x3F5), (0x3F7, 0x481),
      (0x48A, 0x52F), (0x531, 0x556), (0x560, 0x588), (0x10A0, 0x10C5), (0x10C7, 0x10C7),
      (0x10CD, 0x10CD), (0x10D0, 0x10FA), (0x10FD, 0x10FF), (0x13A0, 0x13F5),
      (0x13F8, 0x13FD), (0x1C80, 0x1C88), (0x1C90, 0x1CBA), (0x1CBD, 0x1CBF),
      (0x1D00, 0x1D2B), (0x1D6B, 0x1D77), (0x1D79, 0x1D9A), (0x1E00, 0x1F15),
      (0x1F18, 0x1F1D), (0x1F20, 0x1F45), (0x1F48, 0x1F4D), (0x1F50, 0x1F57),
      (0x1F59, 0x1F59), (0x1F5B, 0x1F5B), (0x1F5D, 0x1F5D), (0x1F5F, 0x1F7D),
      (0x1F80, 0x1FB4), (0x1FB6, 0x1FBC), (0x1FBE, 0x1FBE), (0x1FC2, 0x1FC4),
      (0x1FC6, 0x1FCC), (0x1FD0, 0x1FD3), (0x1FD6, 0x1FDB), (0x1FE0, 0x1FEC),
      (0x1FF2, 0x1FF4), (0x1FF6, 0x1FFC), (0x2102, 0x2102), (0x2107, 0x2107),
      (0x210A, 0x2113), (0x2115, 0x2115), (0x2119, 0x211D), (0x2124, 0x2124),
      (0x2126, 0x2126), (0x2128, 0x2128), (0x212A, 0x212D), (0x212F, 0x2134),
      (0x2139, 0x2139), (0x213C, 0x213F), (0x2145, 0x2149), (0x214E, 0x214E),
      (0x2160, 0x217F), (0x2183, 0x2184), (0x24B6, 0x24E9), (0x2C00, 0x2C7B),
      (0x2C7E, 0x2CE4), (0x2CEB, 0x2CEE), (0x2CF2, 0x2CF3), (0x2D00, 0x2D25),
      (0x2D27, 0x2D27), (0x2D2D, 0x2D2D), (0xA640, 0xA66D), (0xA680, 0xA69B),
      (0xA722, 0xA76F), (0xA771, 0xA787), (0xA78B, 0xA78E), (0xA790, 0xA7CA),
      (0xA7D0, 0xA7D1), (0xA7D3, 0xA7D3), (0xA7D5, 0xA7D9), (0xA7F5, 0xA7F6),
      (0xA7FA, 0xA7FA), (0xAB30, 0xAB5A), (0xAB60, 0xAB68), (0xAB70, 0xABBF),
      (0xFB00, 0xFB06), (0xFB13, 0xFB17), (0xFF21, 0xFF3A), (0xFF41, 0xFF5A),
      (0x10400, 0x1044F), (0x104B0, 0x104D3), (0x104D8, 0x104FB), (0x10570, 0x1057A),
      (0x1057C, 0x1058A), (0x1058C, 0x10592), (0x10594, 0x10595), (0x10597, 0x105A1),
      (0x105A3, 0x105B1), (0x105B3, 0x105B9), (0x105BB, 0x105BC), (0x10C80, 0x10CB2),
      (0x10CC0, 0x10CF2), (0x118A0, 0x118DF), (0x16E40, 0x16E7F), (0x1D400, 0x1D454),
      (0x1D456, 0x1D49C), (0x1D49E, 0x1D49F), (0x1D4A2, 0x1D4A2), (0x1D4A5, 0x1D4A6),
      (0x1D4A9, 0x1D4AC), (0x1D4AE, 0x1D4B9), (0x1D4BB, 0x1D4BB), (0x1D4BD, 0x1D4C3),
      (0x1D4C5, 0x1D505), (0x1D507, 0x1D50A), (0x1D50D, 0x1D514), (0x1D516, 0x1D51C),
      (0x1D51E, 0x1D539), (0x1D53B, 0x1D53E), (0x1D540, 0x1D544), (0x1D546, 0x1D546),
      (0x1D54A, 0x1D550), (0x1D552, 0x1D6A5), (0x1D6A8, 0x1D6C0), (0x1D6C2, 0x1D6DA),
      (0x1D6DC, 0x1D6FA), (0x1D6FC, 0x1D714), (0x1D716, 0x1D734), (0x1D736, 0x1D74E),
      (0x1D750, 0x1D76E), (0x1D770, 0x1D788), (0x1D78A, 0x1D7A8), (0x1D7AA, 0x1D7C2),
      (0x1D7C4, 0x1D7CB), (0x1DF00, 0x1DF09), (0x1DF0B, 0x1DF1E), (0x1E900, 0x1E943),
      (0x1F130, 0x1F149), (0x1F150, 0x1F169), (0x1F170, 0x1F189)]"

definition lower_char :: "uchar \<Rightarrow> utext" where
  "lower_char c =
     (if c < 0x80 then (if is_upper c then [c + 0x20] else [c])
      else case_map LOWER_SPECIAL LOWER_RUNS c)"

definition final_sigma :: "utext \<Rightarrow> utext \<Rightarrow> bool" where
  "final_sigma prev rest =
     (case dropWhile (in_ranges CASE_IGNORABLE_RANGES) prev of
        [] \<Rightarrow> False
      | b # _ \<Rightarrow>
          in_ranges CASED_RANGES b \<and>
          (case dropWhile (in_ranges CASE_IGNORABLE_RANGES) rest of
             [] \<Rightarrow> True
           | a # _ \<Rightarrow> \<not> in_ranges CASED_RANGES a))"

text \<open>\<open>prev\<close> is what has been read, last character first.\<close>

fun lower_from :: "utext \<Rightarrow> utext \<Rightarrow> utext" where
  "lower_from prev [] = []"
| "lower_from prev (c # cs) =
     (if c = 0x3A3 then [if final_sigma prev cs then 0x3C2 else 0x3C3] else lower_char c)
     @ lower_from (c # prev) cs"

definition lower :: "utext \<Rightarrow> utext" where
  "lower s = lower_from [] s"

text \<open>A literal character \<open>p\<close> of a pattern compiled with \<open>re.IGNORECASE\<close>, for what the
  patterns of this repository hold, the ASCII characters and characters without case: a
  letter matches itself in both cases, \<open>i\<close> also the dotted capital and the dotless small
  i, \<open>s\<close> also the long s, \<open>k\<close> also the Kelvin sign; any other character matches itself
  only.\<close>

definition ignorecase :: "uchar \<Rightarrow> uchar \<Rightarrow> bool" where
  "ignorecase p x =
     (x = p \<or>
      (is_upper p \<and> x = p + 0x20) \<or> (is_lower p \<and> x = p - 0x20) \<or>
      ((p = 0x49 \<or> p = 0x69) \<and> (x = 0x130 \<or> x = 0x131)) \<or>
      ((p = 0x53 \<or> p = 0x73) \<and> x = 0x17F) \<or>
      ((p = 0x4B \<or> p = 0x6B) \<and> x = 0x212A))"

section \<open>Data model\<close>

text \<open>
  The pipeline passes plain Python dictionaries around. Their keys are fixed by the
  persisted JSON format, so each dictionary is a record with one field per key. A key
  that may be absent is an \<open>option\<close>: \<open>d.get(k, default)\<close> reads \<open>None\<close> as the
  default, \<open>d[k] = v\<close> stores \<open>Some v\<close>. Python's unbounded integers are \<open>int\<close>.
\<close>

text \<open>\<open>d.get(k, default)\<close> on a key that may be absent.\<close>

definition get_default :: "'a option \<Rightarrow> 'a \<Rightarrow> 'a" where
  "get_default v d = (case v of None \<Rightarrow> d | Some x \<Rightarrow> x)"

text \<open>One finding: the dictionary built in \<open>parse_findings_markdown\<close>, with the key
  \<open>"description"\<close> that the validator reads and the three keys it adds.\<close>

record finding =
  f_id :: "utext option"
  title :: "utext option"
  severity :: "utext option"
  f_file :: "utext option"
  f_line :: "int option"
  effort :: "utext option"
  issue :: "utext option"
  evidence :: "utext option"
  recommendation :: "utext option"
  description :: "utext option"
  original_severity :: "utext option"
  validated :: "utext option"
  validation_reason :: "utext option"

text \<open>The summary dictionary. Every writer in the repository stores all five keys and every
  reader uses \<open>summary.get(key, 0)\<close>, so a key that is absent reads as \<open>0\<close> and is
  represented by \<open>0\<close>.\<close>

record summary =
  blockers :: int
  high :: int
  medium :: int
  low :: int
  total :: int

record agent_info =
  agent_id :: utext
  agent_name :: utext
  agent_role :: utext
  agent_tier :: utext

record run_info =
  run_timestamp :: utext
  run_project :: utext
  run_projectPath :: utext
  run_dryRun :: bool

text \<open>One agent's result. \<open>summary_of = None\<close> stands for a result whose \<open>"summary"\<close> key is
  absent or holds an empty (falsy) dictionary; \<open>findings_of = None\<close> for an absent
  \<open>"findings"\<close> key.\<close>

record agent_data =
  version :: "utext option"
  agent :: "agent_info option"
  run :: "run_info option"
  status :: "utext option"
  summary_of :: "summary option"
  findings_of :: "finding list option"
  rawMarkdown :: "utext option"
  tokens :: "(utext \<times> int) list option"

text \<open>\<open>all_findings: dict[str, dict]\<close>, in insertion order.\<close>

type_synonym all_findings = "(utext \<times> agent_data) list"

section \<open>Python's string and regular-expression operations\<close>

text \<open>
  The parsers of this repository are written with \<open>re\<close>. The patterns are modelled as
  terms of a small regular-expression type and matched by a backtracking matcher that
  tries the alternatives in the order Python's does: a greedy repetition first tries one
  more iteration, a lazy one first tries to stop, an alternation tries its branches from
  left to right. \<open>rmatch\<close> lists every way to match from a position, in that order, so the
  head of the list is the match Python finds. A position is the text before it (reversed)
  and the text after it.
\<close>

definition newline :: uchar where
  "newline = 0x0A"


datatype re =
    Eps
  | Sym "uchar \<Rightarrow> bool"
  | Seq re re
  | Alt re re
  | Star re
  | LazyStar re
  | Group nat re
  | Ahead re
  | AtStart
  | AtEnd
  | Dollar
  | WordBoundary

type_synonym cursor = "utext \<times> utext"

type_synonym groups = "(nat \<times> utext) list"

definition at_word_boundary :: "cursor \<Rightarrow> bool" where
  "at_word_boundary c =
     ((case fst c of [] \<Rightarrow> False | x # _ \<Rightarrow> is_word x) \<noteq>
      (case snd c of [] \<Rightarrow> False | x # _ \<Rightarrow> is_word x))"

text \<open>A repetition goes round again only after an iteration that consumed text.\<close>

function rmatch :: "re \<Rightarrow> cursor \<Rightarrow> groups \<Rightarrow> (cursor \<times> groups) list" where
  "rmatch Eps c g = [(c, g)]"
| "rmatch (Sym p) c g =
     (case snd c of [] \<Rightarrow> [] | x # xs \<Rightarrow> if p x then [((x # fst c, xs), g)] else [])"
| "rmatch (Seq a b) c g = concat (map (\<lambda>r. rmatch b (fst r) (snd r)) (rmatch a c g))"
| "rmatch (Alt a b) c g = rmatch a c g @ rmatch b c g"
| "rmatch (Star a) c g =
     concat (map (\<lambda>r. if length (snd (fst r)) < length (snd c)
                        then rmatch (Star a) (fst r) (snd r) else [])
                 (rmatch a c g)) @ [(c, g)]"
| "rmatch (LazyStar a) c g =
     (c, g) # concat (map (\<lambda>r. if length (snd (fst r)) < length (snd c)
                                 then rmatch (LazyStar a) (fst r) (snd r) else [])
                          (rmatch a c g))"
| "rmatch (Group n a) c g =
     map (\<lambda>r. (fst r, (n, take (length (snd c) - length (snd (fst r))) (snd c)) # snd r))
         (rmatch a c g)"
| "rmatch (Ahead a) c g = (if rmatch a c g = [] then [] else [(c, g)])"
| "rmatch AtStart c g = (if fst c = [] then [(c, g)] else [])"
| "rmatch AtEnd c g = (if snd c = [] then [(c, g)] else [])"
| "rmatch Dollar c g = (if snd c = [] \<or> snd c = [newline] then [(c, g)] else [])"
| "rmatch WordBoundary c g = (if at_word_boundary c then [(c, g)] else [])"
  by pat_completeness auto
termination
  by (relation "inv_image (less_than <*lex*> less_than) (\<lambda>(r, c, g). (size r, length (snd c)))")
     auto

declare rmatch.simps [simp del]

text \<open>Pattern syntax: a literal, a literal under \<open>re.IGNORECASE\<close>, a sequence, an
  alternation, \<open>+\<close>, \<open>+?\<close>, \<open>?\<close> and \<open>{n,}\<close>.\<close>

definition seqs :: "re list \<Rightarrow> re" where
  "seqs rs = foldr Seq rs Eps"

definition alts :: "re list \<Rightarrow> re" where
  "alts rs = (case rs of [] \<Rightarrow> Eps | _ \<Rightarrow> foldr Alt (butlast rs) (last rs))"

definition lit :: "utext \<Rightarrow> re" where
  "lit s = seqs (map (\<lambda>c. Sym (\<lambda>x. x = c)) s)"

definition lit_i :: "utext \<Rightarrow> re" where
  "lit_i s = seqs (map (\<lambda>c. Sym (ignorecase c)) s)"

definition plus_re :: "re \<Rightarrow> re" where
  "plus_re a = Seq a (Star a)"

definition lazy_plus :: "re \<Rightarrow> re" where
  "lazy_plus a = Seq a (LazyStar a)"


definition at_least :: "nat \<Rightarrow> re \<Rightarrow> re" where
  "at_least n a = seqs (replicate n a @ [Star a])"

definition any_char :: re where
  "any_char = Sym (\<lambda>_. True)"


definition ws :: re where
  "ws = Sym is_space"

definition non_ws :: re where
  "non_ws = Sym (\<lambda>c. \<not> is_space c)"


text \<open>A match object: \<open>m.start()\<close>, \<open>m.end()\<close> and the captured groups.\<close>

record match_obj =
  m_start :: nat
  m_end :: nat
  m_groups :: groups

definition mk_match :: "cursor \<Rightarrow> cursor \<times> groups \<Rightarrow> match_obj" where
  "mk_match c r =
     \<lparr>m_start = length (fst c), m_end = length (fst (fst r)), m_groups = snd r\<rparr>"

text \<open>\<open>m.group(n)\<close>; every group of the patterns below takes part in every match.\<close>

definition m_group :: "match_obj \<Rightarrow> nat \<Rightarrow> utext" where
  "m_group m n = (case map_of (m_groups m) n of None \<Rightarrow> [] | Some s \<Rightarrow> s)"

text \<open>\<open>re.finditer\<close>: the non-overlapping matches from left to right. After a match the scan
  goes on at its end. No pattern of this repository matches the empty string; after an
  empty match the model moves on by one character.\<close>

function finditer_from :: "re \<Rightarrow> cursor \<Rightarrow> match_obj list" where
  "finditer_from r c =
     (case rmatch r c [] of
        [] \<Rightarrow> (case snd c of [] \<Rightarrow> [] | x # xs \<Rightarrow> finditer_from r (x # fst c, xs))
      | m # _ \<Rightarrow>
          mk_match c m #
          (if length (snd (fst m)) < length (snd c) then finditer_from r (fst m)
           else (case snd c of [] \<Rightarrow> [] | x # xs \<Rightarrow> finditer_from r (x # fst c, xs))))"
  by pat_completeness auto
termination
  by (relation "measure (\<lambda>(r, c). length (snd c))") auto

declare finditer_from.simps [simp del]

definition finditer :: "re \<Rightarrow> utext \<Rightarrow> match_obj list" where
  "finditer r s = finditer_from r ([], s)"

text \<open>\<open>re.search\<close>: the first match, and \<open>re.match\<close>: a match at the start.\<close>

fun search_from :: "re \<Rightarrow> cursor \<Rightarrow> match_obj option" where
  "search_from r (prev, []) =
     (case rmatch r (prev, []) [] of [] \<Rightarrow> None | m # _ \<Rightarrow> Some (mk_match (prev, []) m))"
| "search_from r (prev, x # xs) =
     (case rmatch r (prev, x # xs) [] of
        [] \<Rightarrow> search_from r (x # prev, xs)
      | m # _ \<Rightarrow> Some (mk_match (prev, x # xs) m))"

definition re_search :: "re \<Rightarrow> utext \<Rightarrow> match_obj option" where
  "re_search r s = search_from r ([], s)"


text \<open>\<open>re.sub(pattern, repl, s)\<close> for a replacement without group references.\<close>

function sub_from :: "re \<Rightarrow> utext \<Rightarrow> cursor \<Rightarrow> utext" where
  "sub_from r repl c =
     (case rmatch r c [] of
        [] \<Rightarrow> (case snd c of [] \<Rightarrow> [] | x # xs \<Rightarrow> x # sub_from r repl (x # fst c, xs))
      | m # _ \<Rightarrow>
          repl @
          (if length (snd (fst m)) < length (snd c) then sub_from r repl (fst m)
           else (case snd c of [] \<Rightarrow> [] | x # xs \<Rightarrow> x # sub_from r repl (x # fst c, xs))))"
  by pat_completeness auto
termination
  by (relation "measure (\<lambda>(r, repl, c). length (snd c))") auto

declare sub_from.simps [simp del]

definition re_sub :: "re \<Rightarrow> utext \<Rightarrow> utext \<Rightarrow> utext" where
  "re_sub r repl s = sub_from r repl ([], s)"

text \<open>\<open>s.strip()\<close>, \<open>s.find(sub)\<close> (\<open>None\<close> for \<open>-1\<close>), \<open>s.find(sub, start)\<close> and
  \<open>s.replace(old, new)\<close> for a non-empty \<open>old\<close>.\<close>

definition strip :: "utext \<Rightarrow> utext" where
  "strip s = rev (dropWhile is_space (rev (dropWhile is_space s)))"



function str_replace :: "utext \<Rightarrow> utext \<Rightarrow> utext \<Rightarrow> utext" where
  "str_replace old new s =
     (if old = [] then s
      else if prefix old s then new @ str_replace old new (drop (length old) s)
      else (case s of [] \<Rightarrow> [] | c # cs \<Rightarrow> c # str_replace old new cs))"
  by pat_completeness auto
termination
  by (relation "measure (\<lambda>(old, new, s). length s)") (auto simp: prefix_def)

declare str_replace.simps [simp del]

section \<open>Synthesis: verdict and exit code (core/synthesis.py)\<close>

datatype verdict = SHIP | CONDITIONAL | HOLD

text \<open>The body of the \<open>for agent_data in all_findings.values()\<close> loop, on the pair
  \<open>(total_blockers, total_high)\<close>.\<close>

definition verdict_step :: "utext \<times> agent_data \<Rightarrow> int \<times> int \<Rightarrow> int \<times> int" where
  "verdict_step kv acc =
     (case summary_of (snd kv) of
        None \<Rightarrow> acc
      | Some s \<Rightarrow> (fst acc + blockers s, snd acc + high s))"

definition calculate_verdict :: "all_findings \<Rightarrow> verdict" where
  "calculate_verdict all_findings =
     (let totals = fold verdict_step all_findings (0, 0);
          total_blockers = fst totals;
          total_high = snd totals
      in if total_blockers > 0 then HOLD
         else if total_high > 3 then CONDITIONAL
         else SHIP)"

definition get_exit_code :: "verdict \<Rightarrow> int" where
  "get_exit_code v = (case v of SHIP \<Rightarrow> 0 | CONDITIONAL \<Rightarrow> 2 | HOLD \<Rightarrow> 1)"

text \<open>The claim's words: the counts of one key summed across the agents, an agent without a
  summary counting for nothing.\<close>

definition summed :: "(summary \<Rightarrow> int) \<Rightarrow> all_findings \<Rightarrow> int" where
  "summed key all_findings =
     (\<Sum>kv\<leftarrow>all_findings. case summary_of (snd kv) of None \<Rightarrow> 0 | Some s \<Rightarrow> key s)"

section \<open>Validator: applying adjustments (core/validator.py)\<close>

text \<open>One parsed validator decision, the dictionary appended in
  \<open>_parse_validation_results\<close>.\<close>

record adjustment =
  finding_id :: utext
  a_original_severity :: utext
  adjusted_severity :: utext
  decision :: utext
  reason :: utext

text \<open>The \<open>stats\<close> dictionary: \<open>stats[k] = stats.get(k, 0) + 1\<close> may add a key.\<close>

type_synonym stats = "utext \<rightharpoonup> int"

text \<open>One item of the validation worklist.\<close>

record work_item =
  w_agent :: utext
  w_finding_id :: utext
  w_title :: utext
  w_severity :: utext
  w_file :: utext
  w_line :: "int option"
  w_description :: utext
  w_evidence :: utext
  w_recommendation :: utext

definition collect_finding :: "utext \<Rightarrow> finding \<Rightarrow> work_item list \<Rightarrow> work_item list" where
  "collect_finding agent_key f results =
     (let sev = upper (get_default (severity f) [])
      in if sev = str ''BLOCKER'' \<or> sev = str ''HIGH''
         then results @
           [\<lparr>w_agent = agent_key,
             w_finding_id = get_default (f_id f) [],
             w_title = get_default (title f) [],
             w_severity = sev,
             w_file = get_default (f_file f) [],
             w_line = f_line f,
             w_description = get_default (description f) [],
             w_evidence = get_default (evidence f) [],
             w_recommendation = get_default (recommendation f) []\<rparr>]
         else results)"

definition collect_high_severity_findings :: "all_findings \<Rightarrow> work_item list" where
  "collect_high_severity_findings all_findings =
     fold (\<lambda>kv results.
             fold (collect_finding (fst kv)) (get_default (findings_of (snd kv)) []) results)
          all_findings []"

text \<open>\<open>{a["finding_id"]: a for a in adjustments}\<close>: a later adjustment replaces an earlier
  one with the same id.\<close>

definition adjustment_map :: "adjustment list \<Rightarrow> (utext \<rightharpoonup> adjustment)" where
  "adjustment_map adjustments = fold (\<lambda>a m. m(finding_id a \<mapsto> a)) adjustments Map.empty"

definition initial_stats :: "adjustment list \<Rightarrow> stats" where
  "initial_stats adjustments =
     [(str ''confirmed'') \<mapsto> 0, (str ''downgraded'') \<mapsto> 0, (str ''rejected'') \<mapsto> 0,
      (str ''total'') \<mapsto> int (length adjustments)]"

text \<open>The three branches on \<open>adj["decision"]\<close>. The rejected finding is marked and then
  left out of the list, so no list holds the marked dictionary afterwards.\<close>

definition mark_rejected :: "adjustment \<Rightarrow> finding \<Rightarrow> finding" where
  "mark_rejected adj f =
     f\<lparr>original_severity := Some (get_default (severity f) []),
       severity := Some (str ''REJECTED''),
       validated := Some (str ''rejected''),
       validation_reason := Some (reason adj)\<rparr>"

definition mark_downgraded :: "adjustment \<Rightarrow> finding \<Rightarrow> finding" where
  "mark_downgraded adj f =
     f\<lparr>original_severity := Some (get_default (severity f) []),
       severity := Some (adjusted_severity adj),
       validated := Some (str ''downgraded''),
       validation_reason := Some (reason adj)\<rparr>"

definition mark_confirmed :: "finding \<Rightarrow> finding" where
  "mark_confirmed f = f\<lparr>validated := Some (str ''confirmed'')\<rparr>"

text \<open>The body of \<open>for finding in agent_data.get("findings", [])\<close>, on the pair
  \<open>(adjusted_findings, stats)\<close>.\<close>

definition adjust_step ::
  "(utext \<rightharpoonup> adjustment) \<Rightarrow> finding \<Rightarrow> finding list \<times> stats \<Rightarrow> finding list \<times> stats" where
  "adjust_step amap f st =
     (let adjusted_findings = fst st; stats = snd st;
          fid = get_default (f_id f) []
      in case amap fid of
           None \<Rightarrow> (adjusted_findings @ [f], stats)
         | Some adj \<Rightarrow>
             (let stats' = stats(decision adj \<mapsto> get_default (stats (decision adj)) 0 + 1)
              in if decision adj = str ''rejected'' then (adjusted_findings, stats')
                 else if decision adj = str ''downgraded''
                   then (adjusted_findings @ [mark_downgraded adj f], stats')
                 else (adjusted_findings @ [mark_confirmed f], stats')))"

text \<open>The recount: \<open>for f in adjusted_findings\<close>, starting from the all-zero summary.\<close>

definition zero_summary :: summary where
  "zero_summary = \<lparr>blockers = 0, high = 0, medium = 0, low = 0, total = 0\<rparr>"

definition count_step :: "finding \<Rightarrow> summary \<Rightarrow> summary" where
  "count_step f s =
     (let sev = upper (get_default (severity f) []);
          s1 = (if sev = str ''BLOCKER'' then s\<lparr>blockers := blockers s + 1\<rparr>
                else if sev = str ''HIGH'' then s\<lparr>high := high s + 1\<rparr>
                else if sev = str ''MEDIUM'' then s\<lparr>medium := medium s + 1\<rparr>
                else if sev = str ''LOW'' then s\<lparr>low := low s + 1\<rparr>
                else s)
      in s1\<lparr>total := total s1 + 1\<rparr>)"

text \<open>The body of \<open>for agent_key, agent_data in all_findings.items()\<close>. The dictionary is
  updated in place in the source; the model rebuilds it in the same order.\<close>

definition adjust_agent ::
  "(utext \<rightharpoonup> adjustment) \<Rightarrow> utext \<times> agent_data \<Rightarrow> all_findings \<times> stats
     \<Rightarrow> all_findings \<times> stats" where
  "adjust_agent amap kv st =
     (let agent_data = snd kv;
          r = fold (adjust_step amap) (get_default (findings_of agent_data) []) ([], snd st);
          adjusted_findings = fst r;
          new_summary = fold count_step adjusted_findings zero_summary
      in (fst st @ [(fst kv, agent_data\<lparr>findings_of := Some adjusted_findings,
                                         summary_of := Some new_summary\<rparr>)],
          snd r))"

definition apply_adjustments :: "all_findings \<Rightarrow> adjustment list \<Rightarrow> all_findings \<times> stats" where
  "apply_adjustments all_findings adjustments =
     fold (adjust_agent (adjustment_map adjustments)) all_findings
          ([], initial_stats adjustments)"

section \<open>Scanner: file tiers (core/scanner.py)\<close>

text \<open>A \<open>pathlib.Path\<close> is the list of its parts. \<open>relative_to\<close> raises \<open>ValueError\<close> when the
  other path is not a prefix; the model returns \<open>None\<close> there.\<close>

type_synonym path = "utext list"

definition path_name :: "path \<Rightarrow> utext" where
  "path_name p = (if p = [] then [] else last p)"

definition relative_to :: "path \<Rightarrow> path \<Rightarrow> path option" where
  "relative_to p other = (if prefix other p then Some (drop (length other) p) else None)"

text \<open>\<open>Path.suffix\<close>: the name from its last dot on, when that dot is neither the first nor
  the last character of the name.\<close>

fun rfind_dot :: "utext \<Rightarrow> nat option" where
  "rfind_dot [] = None"
| "rfind_dot (c # cs) =
     (case rfind_dot cs of
        Some i \<Rightarrow> Some (Suc i)
      | None \<Rightarrow> if c = 0x2E then Some 0 else None)"

definition path_suffix :: "path \<Rightarrow> utext" where
  "path_suffix p =
     (let name = path_name p
      in case rfind_dot name of
           None \<Rightarrow> []
         | Some i \<Rightarrow> if 0 < i \<and> i < length name - 1 then drop i name else [])"

text \<open>\<open>Path(name).parts\<close>: one part, none for the empty name.\<close>

definition name_parts :: "utext \<Rightarrow> path" where
  "name_parts name = (if name = [] then [] else [name])"

definition startswith :: "utext \<Rightarrow> utext \<Rightarrow> bool" where
  "startswith s pre = prefix pre s"

text \<open>\<open>sub in s\<close> on strings.\<close>

definition contains :: "utext \<Rightarrow> utext \<Rightarrow> bool" where
  "contains sub s = sublist sub s"

definition TIER1_ALWAYS :: "utext list" where
  "TIER1_ALWAYS =
     [str ''main.py'', str ''app.py'', str ''server.js'', str ''server.ts'',
      (str ''nginx.conf''), str ''dockerfile'', str ''manage.py'', str ''wsgi.py'', str ''asgi.py'',
      (str ''.env.example''), str ''requirements.txt'', str ''package.json'', str ''pyproject.toml'',
      (str ''setup.cfg''), str ''makefile'', str ''rakefile'', str ''gemfile'',
      (str ''go.mod''), str ''cargo.toml'', str ''pom.xml'', str ''build.gradle'']"

definition TIER2_DIRS :: "utext list" where
  "TIER2_DIRS =
     [str ''services'', str ''core'', str ''lib'', str ''utils'', str ''middleware'', str ''api'', str ''hooks'',
      (str ''controllers''), str ''handlers'', str ''routes'', str ''endpoints'']"

definition TIER3_DIRS :: "utext list" where
  "TIER3_DIRS = [str ''models'', str ''schemas'', str ''entities'', str ''types'']"

definition TEST_DIRS :: "utext list" where
  "TEST_DIRS = [str ''tests'', str ''test'', str ''__tests__'', str ''spec'', str ''specs'']"

definition DOC_DIRS :: "utext list" where
  "DOC_DIRS = [str ''docs'', str ''documentation'', str ''doc'']"

definition TIER6_DIRS :: "utext list" where
  "TIER6_DIRS = [str ''components'', str ''pages'', str ''views'', str ''screens'', str ''layouts'', str ''templates'']"

definition API_DIRS :: "utext list" where
  "API_DIRS = [str ''services'', str ''api'', str ''endpoints'', str ''controllers'', str ''handlers'', str ''routes'']"

text \<open>\<open>TIER_FILE_CAPS.get(t, 5)\<close>.\<close>

definition TIER_FILE_CAPS :: "int \<Rightarrow> int" where
  "TIER_FILE_CAPS t =
     (if t = 1 then 15 else if t = 2 then 15 else if t = 3 then 8 else if t = 4 then 10
      else if t = 5 then 8 else if t = 6 then 10 else if t = 7 then 5 else 5)"

definition is_test_file :: "utext \<Rightarrow> bool" where
  "is_test_file name =
     (startswith name (str ''test_'')
      \<or> contains (str ''_test.'') name
      \<or> contains (str ''.test.'') name
      \<or> contains (str ''.Tests.'') name
      \<or> contains (str ''.spec.'') name
      \<or> name = str ''conftest.py'')"

text \<open>\<open>fnmatch.fnmatch(name, pattern)\<close> for the patterns of this module, whose only wildcard
  is \<open>*\<close> (any run of characters); every other pattern character stands for itself.\<close>

fun matches_glob :: "utext \<Rightarrow> utext \<Rightarrow> bool" where
  "matches_glob [] [] = True"
| "matches_glob (c # cs) [] = False"
| "matches_glob [] (p # ps) = (p = 0x2A \<and> matches_glob [] ps)"
| "matches_glob (c # cs) (p # ps) =
     (if p = 0x2A then matches_glob (c # cs) ps \<or> matches_glob cs (p # ps)
      else p = c \<and> matches_glob cs ps)"

definition doc_patterns :: "utext list" where
  "doc_patterns =
     [str ''readme*'', str ''contributing*'', str ''changelog*'', str ''license*'',
      (str ''rollback*''), str ''migration*'', str ''deployment*'', str ''backup*'',
      (str ''operations*''), str ''runbook*'', str ''install*'', str ''architecture*'']"

definition get_file_tier :: "path \<Rightarrow> path \<Rightarrow> int" where
  "get_file_tier file_path project_path =
     (let name = lower (path_name file_path);
          relative = (case relative_to file_path project_path of
                        Some r \<Rightarrow> r
                      | None \<Rightarrow> name_parts (path_name file_path));
          parts = map lower relative;
          in_api_dir = (\<exists>p \<in> set parts. p \<in> set API_DIRS);
          in_tier2_dir = (\<exists>p \<in> set parts. p \<in> set TIER2_DIRS)
      in if name \<in> set TIER1_ALWAYS then 1
         else if startswith name (str ''docker-compose.'') then 1
         else if \<not> in_api_dir \<and>
                 (name = str ''settings.py'' \<or> name = str ''setup.py'' \<or> startswith name (str ''config.''))
           then 1
         else if (name = str ''index.js'' \<or> name = str ''index.ts'') \<and> length parts \<le> 3 then 1
         else if in_tier2_dir \<and> \<not> is_test_file name then 2
         else if (\<exists>p \<in> set parts. p \<in> set TIER3_DIRS) then 3
         else if is_test_file name \<or> (\<exists>p \<in> set parts. p \<in> set TEST_DIRS) then 4
         else if (\<exists>pat \<in> set doc_patterns. matches_glob name pat) then 5
         else if (\<exists>p \<in> set parts. p \<in> set DOC_DIRS) \<and> lower (path_suffix file_path) = str ''.md''
           then 5
         else if (\<exists>p \<in> set parts. p \<in> set TIER6_DIRS) then 6
         else 7)"

section \<open>Scanner: two-pass selection (core/scanner.py)\<close>

text \<open>A file of the walk: its path, what \<open>stat().st_size\<close> returns (a number of bytes,
  never negative), and what \<open>read_text\<close> returns (\<open>None\<close> when it raises).\<close>

record file_entry =
  fpath :: path
  st_size :: nat
  text_of :: "utext option"

type_synonym tiered = "file_entry \<times> int"

text \<open>\<open>not content.strip()\<close>.\<close>

definition is_blank :: "utext \<Rightarrow> bool" where
  "is_blank s = list_all is_space s"

text \<open>\<open>int(max_bytes * 0.30)\<close>. The product is a float: the nearest double to the product of
  \<open>max_bytes\<close> and the double \<open>0.3\<close>. For \<open>max_bytes\<close> below \<open>2^50\<close> that double lies
  within a hundredth of three tenths of \<open>max_bytes\<close> and is that number when it is whole,
  so truncating it (towards zero) gives the integer part of the exact value.\<close>

definition tier_size_cap_of :: "int \<Rightarrow> int" where
  "tier_size_cap_of max_bytes =
     (if 0 \<le> max_bytes then (max_bytes * 3) div 10 else - ((- max_bytes * 3) div 10))"

text \<open>\<open>tier_groups.get(t, [])\<close>: the files of tier \<open>t\<close> in walk order, then sorted by size,
  largest first. Python's sort is stable, also with \<open>reverse=True\<close>, as \<open>sort_key\<close> is.\<close>

definition tier_group :: "tiered list \<Rightarrow> int \<Rightarrow> tiered list" where
  "tier_group tiered t = sort_key (\<lambda>x. - int (st_size (fst x))) (filter (\<lambda>x. snd x = t) tiered)"

record pass_state =
  selected :: "tiered list"
  total_size :: int

text \<open>The inner loop of pass 1 over one tier's group; \<open>break\<close> returns the state,
  \<open>continue\<close> goes on with the rest of the group.\<close>

fun pass1_group ::
  "int \<Rightarrow> int \<Rightarrow> int \<Rightarrow> int \<Rightarrow> tiered list \<Rightarrow> int \<Rightarrow> int \<Rightarrow> pass_state \<Rightarrow> pass_state" where
  "pass1_group max_files max_bytes tier_size_cap file_cap [] tier_count tier_size st = st"
| "pass1_group max_files max_bytes tier_size_cap file_cap (x # grp) tier_count tier_size st =
     (if tier_count \<ge> file_cap then st
      else if int (length (selected st)) \<ge> max_files then st
      else let fsize = int (st_size (fst x))
           in if total_size st + fsize > max_bytes
                then pass1_group max_files max_bytes tier_size_cap file_cap grp
                       tier_count tier_size st
              else if tier_size + fsize > tier_size_cap
                then pass1_group max_files max_bytes tier_size_cap file_cap grp
                       tier_count tier_size st
              else pass1_group max_files max_bytes tier_size_cap file_cap grp
                     (tier_count + 1) (tier_size + fsize)
                     \<lparr>selected = selected st @ [x], total_size = total_size st + fsize\<rparr>)"

text \<open>\<open>for t in range(1, 8)\<close>, from a given state and over a given list of tiers.\<close>

definition pass1_tiers ::
  "int \<Rightarrow> int \<Rightarrow> tiered list \<Rightarrow> int list \<Rightarrow> pass_state \<Rightarrow> pass_state" where
  "pass1_tiers max_files max_bytes tiered ts st =
     fold (\<lambda>t s. pass1_group max_files max_bytes (tier_size_cap_of max_bytes)
                    (TIER_FILE_CAPS t) (tier_group tiered t) 0 0 s)
          ts st"

definition pass1 :: "int \<Rightarrow> int \<Rightarrow> tiered list \<Rightarrow> pass_state" where
  "pass1 max_files max_bytes tiered =
     pass1_tiers max_files max_bytes tiered [1..7] \<lparr>selected = [], total_size = 0\<rparr>"

fun pass2_loop :: "int \<Rightarrow> int \<Rightarrow> tiered list \<Rightarrow> pass_state \<Rightarrow> pass_state" where
  "pass2_loop max_files max_bytes [] st = st"
| "pass2_loop max_files max_bytes (x # remaining) st =
     (if int (length (selected st)) \<ge> max_files then st
      else let fsize = int (st_size (fst x))
           in if total_size st + fsize > max_bytes
                then pass2_loop max_files max_bytes remaining st
              else pass2_loop max_files max_bytes remaining
                     \<lparr>selected = selected st @ [x], total_size = total_size st + fsize\<rparr>)"

text \<open>The sort key \<open>(tier, -size)\<close>; pairs are ordered lexicographically.\<close>

definition emission_key :: "tiered \<Rightarrow> int \<times> int" where
  "emission_key x = (snd x, - int (st_size (fst x)))"

definition pass2 :: "int \<Rightarrow> int \<Rightarrow> tiered list \<Rightarrow> pass_state \<Rightarrow> pass_state" where
  "pass2 max_files max_bytes tiered st =
     (if int (length (selected st)) < max_files \<and> total_size st < max_bytes
      then let selected_paths = set (map (\<lambda>x. fpath (fst x)) (selected st));
               remaining = filter (\<lambda>x. fpath (fst x) \<notin> selected_paths) tiered
           in pass2_loop max_files max_bytes (sort_key emission_key remaining) st
      else st)"

text \<open>The emission loop. \<open>emitted\<close> lists the files whose text was appended to \<open>parts\<close>.\<close>

record emit_state =
  emitted :: "tiered list"
  file_count :: int
  actual_size :: int

fun emit_loop :: "int \<Rightarrow> int \<Rightarrow> tiered list \<Rightarrow> emit_state \<Rightarrow> emit_state" where
  "emit_loop max_files max_bytes [] st = st"
| "emit_loop max_files max_bytes (x # rest) st =
     (if file_count st \<ge> max_files then st
      else let fsize = int (st_size (fst x))
           in if actual_size st + fsize > max_bytes then emit_loop max_files max_bytes rest st
              else case text_of (fst x) of
                     None \<Rightarrow> emit_loop max_files max_bytes rest st
                   | Some content \<Rightarrow>
                       if is_blank content then emit_loop max_files max_bytes rest st
                       else emit_loop max_files max_bytes rest
                              \<lparr>emitted = emitted st @ [x],
                               file_count = file_count st + 1,
                               actual_size = actual_size st + fsize\<rparr>)"

text \<open>What the scan returns, before it is rendered: the emitted files in order with their
  tiers, their number and their bytes (the source reports \<open>round(actual_size / 1024, 1)\<close>
  and the joined text), and the number of eligible files.\<close>

record scan_result =
  sr_files :: "tiered list"
  sr_file_count :: int
  sr_actual_size :: int
  sr_total_eligible :: int

text \<open>\<open>get_source_files_content\<close> from the list \<open>all_files\<close> of the walk on.\<close>

definition get_source_files_content ::
  "path \<Rightarrow> file_entry list \<Rightarrow> int \<Rightarrow> int \<Rightarrow> int \<Rightarrow> int \<Rightarrow> scan_result" where
  "get_source_files_content project_path all_files max_files max_size_kb min_file_bytes
      max_file_kb =
     (let max_bytes = max_size_kb * 1024;
          max_file_bytes = max_file_kb * 1024;
          total_eligible = int (length all_files);
          sized_files =
            filter (\<lambda>f. min_file_bytes \<le> int (st_size f) \<and> int (st_size f) \<le> max_file_bytes) all_files;
          tiered = map (\<lambda>f. (f, get_file_tier (fpath f) project_path)) sized_files;
          st1 = pass1 max_files max_bytes tiered;
          st2 = pass2 max_files max_bytes tiered st1;
          sorted_selected = sort_key emission_key (selected st2);
          e = emit_loop max_files max_bytes sorted_selected
                \<lparr>emitted = [], file_count = 0, actual_size = 0\<rparr>
      in if file_count e = 0
         then \<lparr>sr_files = [], sr_file_count = 0, sr_actual_size = 0,
               sr_total_eligible = total_eligible\<rparr>
         else \<lparr>sr_files = emitted e, sr_file_count = file_count e,
               sr_actual_size = actual_size e, sr_total_eligible = total_eligible\<rparr>)"

section \<open>Findings parser (core/findings.py)\<close>

















text \<open>\<open>int(s)\<close> on a string of decimal digits of any script. The interpreter refuses a string of more
  than \<open>sys.get_int_max_str_digits()\<close> digits, 4300 unless the process is started
  otherwise, with a \<open>ValueError\<close>; that is \<open>None\<close> here.\<close>

definition int_max_str_digits :: nat where
  "int_max_str_digits = 4300"

definition int_of_digits :: "utext \<Rightarrow> int option" where
  "int_of_digits s =
     (if int_max_str_digits < length s then None
      else Some (foldl (\<lambda>n c. 10 * n + digit_value c) 0 s))"








section \<open>Validator: parsing the response and running the step (core/validator.py)\<close>

text \<open>The em dash, the en dash and the arrow of the pattern.\<close>

definition em_dash :: utext where
  "em_dash = [0x2014]"

definition en_dash :: utext where
  "en_dash = [0x2013]"

definition right_arrow :: utext where
  "right_arrow = [0x2192]"

text \<open>The pattern, compiled with \<open>re.IGNORECASE\<close>:
  \<open>###\s+VALIDATE:\s+(\S+)\s*(?:em dash|en dash|-)\s*(BLOCKER|HIGH|MEDIUM|LOW)\s*\<close>
  \<open>(?:arrow|->)\s*(BLOCKER|HIGH|MEDIUM|LOW|REJECTED)\<close>.\<close>

definition validate_re :: re where
  "validate_re =
     seqs [lit_i (str ''###''), plus_re ws, lit_i (str ''VALIDATE:''), plus_re ws,
           Group 1 (plus_re non_ws),
           Star ws, alts [lit_i em_dash, lit_i en_dash, lit_i (str ''-'')], Star ws,
           Group 2 (alts [lit_i (str ''BLOCKER''), lit_i (str ''HIGH''), lit_i (str ''MEDIUM''), lit_i (str ''LOW'')]),
           Star ws, alts [lit_i right_arrow, lit_i (str ''->'')], Star ws,
           Group 3 (alts [lit_i (str ''BLOCKER''), lit_i (str ''HIGH''), lit_i (str ''MEDIUM''), lit_i (str ''LOW''),
                          lit_i (str ''REJECTED'')])]"

text \<open>\<open>\*\*Reason:\*\*\s*(.+?)(?:\n\n|\n###|\Z)\<close>, compiled with \<open>re.DOTALL\<close>.\<close>

definition reason_re :: re where
  "reason_re =
     seqs [lit (str ''**Reason:**''), Star ws, Group 1 (lazy_plus any_char),
           alts [lit [newline, newline], lit (newline # (str ''###'')), AtEnd]]"

definition adjustment_of_match :: "utext \<Rightarrow> match_obj \<Rightarrow> adjustment" where
  "adjustment_of_match content m =
     (let fid = m_group m 1;
          original = upper (m_group m 2);
          adjusted = upper (m_group m 3);
          decision_val = (if adjusted = str ''REJECTED'' then (str ''rejected'')
                          else if adjusted = original then (str ''confirmed'')
                          else (str ''downgraded''));
          reason_val = (case re_search reason_re (drop (m_end m) content) of
                          Some reason_match \<Rightarrow> strip (m_group reason_match 1)
                        | None \<Rightarrow> [])
      in \<lparr>finding_id = fid,
          a_original_severity = original,
          adjusted_severity = (if adjusted \<noteq> str ''REJECTED'' then adjusted else (str ''REJECTED'')),
          decision = decision_val,
          reason = reason_val\<rparr>)"

definition parse_validation_results :: "utext \<Rightarrow> adjustment list" where
  "parse_validation_results content =
     map (adjustment_of_match content) (finditer validate_re content)"

text \<open>The result of a provider call (models/provider.py).\<close>

record completion_result =
  success :: bool
  content_of :: "utext option"
  tokens_used_of :: "(utext \<times> int) list option"
  error_of :: "utext option"

text \<open>The stats dictionary of the early returns.\<close>

definition stats_of :: "int \<Rightarrow> int \<Rightarrow> int \<Rightarrow> int \<Rightarrow> stats" where
  "stats_of c d r t =
     [(str ''confirmed'') \<mapsto> c, (str ''downgraded'') \<mapsto> d, (str ''rejected'') \<mapsto> r, (str ''total'') \<mapsto> t]"

text \<open>\<open>str(n)\<close> for an integer, as an f-string prints it.\<close>

function str_nat :: "nat \<Rightarrow> utext" where
  "str_nat n =
     (if n < 10 then [0x30 + int n] else str_nat (n div 10) @ [0x30 + int (n mod 10)])"
  by pat_completeness auto
termination
  by (relation "measure id") auto

declare str_nat.simps [simp del]

definition str_int :: "int \<Rightarrow> utext" where
  "str_int i = (if i < 0 then (str ''-'') @ str_nat (nat (- i)) else str_nat (nat i))"

text \<open>
  What \<open>run_validator\<close> meets outside the repository, each as the outcome of the call:
  whether \<open>console.print\<close> renders a message (the console reads it as markup and raises
  on a closing tag that matches no open one), what \<open>build_calibration_context\<close> returns
  for an agent and what \<open>load_agent_instructions\<close> returns for the validator from the
  files of the project (\<open>None\<close> when the call raises: a rule without its \<open>rule\<close> key, an
  override file that cannot be read), whether \<open>write_text\<close> to \<open>validator-output.md\<close>
  returns, and the text of the rounded duration.
\<close>

record validator_env =
  console_print :: "utext \<Rightarrow> bool"
  calibration_context :: "utext \<Rightarrow> utext option"
  validator_instructions :: "utext option"
  write_text :: "utext \<Rightarrow> bool"
  elapsed :: utext

datatype run_error = PrintRaised | CalibrationRaised | InstructionsRaised | WriteRaised

text \<open>The agents of the worklist in the order they first occur: the loop over
  \<open>high_severity\<close> with its \<open>seen_agents\<close> set.\<close>

definition seen_agents :: "work_item list \<Rightarrow> utext list" where
  "seen_agents high_severity =
     fold (\<lambda>f seen. if w_agent f \<in> set seen then seen else seen @ [w_agent f]) high_severity []"

text \<open>The messages of \<open>run_validator\<close>.\<close>

definition validating_message :: "int \<Rightarrow> utext" where
  "validating_message n =
     [newline] @ str ''  [cyan]Validating '' @ str_int n @ str '' BLOCKER/HIGH findings...[/cyan]''"

definition failed_message :: "completion_result \<Rightarrow> utext" where
  "failed_message result =
     (str ''  [yellow]WARN[/yellow] Validator failed: '') @
     (case error_of result of None \<Rightarrow> (str ''None'') | Some e \<Rightarrow> e)"

definition no_adjustments_message :: utext where
  "no_adjustments_message =
     (str ''  [yellow]WARN[/yellow] Validator produced output but no parseable adjustments. '') @
     (str ''See validator-output.md'')"

definition report_message :: "stats \<Rightarrow> utext \<Rightarrow> utext" where
  "report_message st duration =
     (str ''  [green]OK[/green] Validator: '') @
     str_int (get_default (st (str ''confirmed'')) 0) @ str '' confirmed, '' @
     str_int (get_default (st (str ''downgraded'')) 0) @ str '' downgraded, '' @
     str_int (get_default (st (str ''rejected'')) 0) @ str '' rejected '' @
     (str ''in '') @ duration @ str ''s''"

text \<open>
  \<open>run_validator\<close>. \<open>result\<close> is what the awaited \<open>provider.complete_with_retry\<close>
  returned; it is only looked at when the call is made. The prompts are built from the
  worklist, the calibration contexts and the instructions and go to the provider only.
  An exception of a call leaves \<open>run_validator\<close>: it is the \<open>Inl\<close> result. The raw output
  is written before it is parsed. The adjustments are applied to the caller's dictionary
  in place, so they have been made when the last messages are printed.
\<close>

definition run_validator ::
  "validator_env \<Rightarrow> all_findings \<Rightarrow> bool \<Rightarrow> completion_result \<Rightarrow>
     run_error + (all_findings \<times> stats)" where
  "run_validator env all_findings dry_run result =
     (let high_severity = collect_high_severity_findings all_findings;
          n = int (length high_severity)
      in if high_severity = []
         then (if console_print env (str ''  [dim]No BLOCKER/HIGH findings to validate[/dim]'')
               then Inr (all_findings, stats_of 0 0 0 0)
               else Inl PrintRaised)
         else if \<not> console_print env (validating_message n) then Inl PrintRaised
         else if dry_run
         then (if console_print env (str ''  [dim]DRY RUN: Skipping AI validation[/dim]'')
               then Inr (all_findings, stats_of n 0 0 n)
               else Inl PrintRaised)
         else case those (map (calibration_context env) (seen_agents high_severity)) of
           None \<Rightarrow> Inl CalibrationRaised
         | Some calibration_parts \<Rightarrow>
         (case validator_instructions env of
           None \<Rightarrow> Inl InstructionsRaised
         | Some instructions \<Rightarrow>
         if \<not> success result
         then (if \<not> console_print env (failed_message result) then Inl PrintRaised
               else if \<not> console_print env (str ''  [dim]Proceeding with original findings[/dim]'')
               then Inl PrintRaised
               else Inr (all_findings, stats_of n 0 0 n))
         else if \<not> write_text env (get_default (content_of result) []) then Inl WriteRaised
         else (let adjustments =
                     parse_validation_results (get_default (content_of result) []);
                   adjusted = apply_adjustments all_findings adjustments
               in if adjustments = [] \<and> get_default (content_of result) [] \<noteq> [] \<and>
                     \<not> console_print env no_adjustments_message
                  then Inl PrintRaised
                  else if \<not> console_print env (report_message (snd adjusted) (elapsed env))
                  then Inl PrintRaised
                  else Inr adjusted)))"
section \<open>Provider: sanitising errors and retrying (utils/sanitize.py, providers/base.py)\<close>

text \<open>\<open>[a-zA-Z0-9_-]\<close>.\<close>

definition key_char :: "uchar \<Rightarrow> bool" where
  "key_char c = (is_lower c \<or> is_upper c \<or> is_ascii_digit c \<or> c = 0x5F \<or> c = 0x2D)"

text \<open>\<open>sanitize_error\<close>. \<open>home\<close> is
  \<open>os.environ.get("USERPROFILE") or os.environ.get("HOME") or ""\<close>.\<close>

definition sanitize_error :: "utext \<Rightarrow> utext \<Rightarrow> utext" where
  "sanitize_error home message =
     (if message = [] then message
      else
        (let s1 = re_sub (seqs [lit (str ''sk-ant-''), plus_re (Sym key_char)]) (str ''[REDACTED_KEY]'') message;
             s2 = re_sub (seqs [lit (str ''sk-''), at_least 20 (Sym key_char)]) (str ''[REDACTED_KEY]'') s1;
             s3 = re_sub (seqs [lit (str ''Bearer''), plus_re ws, plus_re non_ws]) (str ''Bearer [REDACTED]'') s2;
             s4 = re_sub (seqs [lit (str ''api-key:''), Star ws, plus_re non_ws]) (str ''api-key: [REDACTED]'') s3;
             s5 = re_sub (seqs [lit (str ''x-api-key:''), Star ws, plus_re non_ws])
                    (str ''x-api-key: [REDACTED]'') s4;
             s6 = re_sub (seqs [lit (str ''Authorization:''), Star ws, plus_re non_ws])
                    (str ''Authorization: [REDACTED]'') s5
         in if home \<noteq> [] then str_replace home (str ''[USER_HOME]'') s6 else s6))"

text \<open>The three marker tests of \<open>complete_with_retry\<close>.\<close>

definition is_rate_limit :: "utext \<Rightarrow> bool" where
  "is_rate_limit error_msg = contains (str ''429'') error_msg"

definition has_server_marker :: "utext \<Rightarrow> bool" where
  "has_server_marker error_msg =
     (\<exists>code \<in> set [str ''500'', str ''502'', str ''503'', str ''504'', str ''timeout'', str ''timed out''].
        contains code error_msg)"

definition has_client_marker :: "utext \<Rightarrow> bool" where
  "has_client_marker error_msg =
     (\<exists>code \<in> set [str ''400'', str ''401'', str ''403'', str ''404'']. contains code error_msg)"

definition is_retryable :: "utext \<Rightarrow> bool" where
  "is_retryable error_msg =
     ((is_rate_limit error_msg \<or> has_server_marker error_msg) \<and> \<not> has_client_marker error_msg)"

text \<open>What a run of \<open>complete_with_retry\<close> does: the result it returns, the seconds it slept
  before each further attempt, and the number of calls of \<open>complete\<close>.\<close>

record retry_outcome =
  returned :: completion_result
  sleeps :: "int list"
  calls :: nat

text \<open>The loop \<open>for attempt in range(1, rate_limit_max + 1)\<close> over the attempts that remain.
  \<open>complete attempt\<close> is the provider's answer to call number \<open>attempt\<close>.\<close>

fun retry_loop ::
  "utext \<Rightarrow> int \<Rightarrow> int \<Rightarrow> (int \<Rightarrow> completion_result) \<Rightarrow> int list \<Rightarrow> int list \<Rightarrow>
   completion_result option \<Rightarrow> retry_outcome" where
  "retry_loop home max_attempts retry_delay complete [] slept last_result =
     \<lparr>returned = (case last_result of
                    Some r \<Rightarrow> r
                  | None \<Rightarrow> \<lparr>success = False, content_of = None, tokens_used_of = None,
                              error_of = Some (str ''Max retries exceeded'')\<rparr>),
      sleeps = slept, calls = length slept\<rparr>"
| "retry_loop home max_attempts retry_delay complete (attempt # rest) slept last_result =
     (let result = complete attempt
      in if success result
         then \<lparr>returned = result, sleeps = slept, calls = Suc (length slept)\<rparr>
         else
           (let error_msg = get_default (error_of result) [];
                rate_limit_max = max max_attempts 5;
                effective_max = (if is_rate_limit error_msg then rate_limit_max else max_attempts)
            in if \<not> is_retryable error_msg \<or> attempt \<ge> effective_max
               then \<lparr>returned = result\<lparr>error_of := Some (sanitize_error home error_msg)\<rparr>,
                      sleeps = slept, calls = Suc (length slept)\<rparr>
               else
                 (let base_delay = (if is_rate_limit error_msg then 30 else retry_delay);
                      wait_time = base_delay * min attempt 3
                  in retry_loop home max_attempts retry_delay complete rest
                       (slept @ [wait_time]) (Some result))))"

definition complete_with_retry ::
  "utext \<Rightarrow> int \<Rightarrow> int \<Rightarrow> (int \<Rightarrow> completion_result) \<Rightarrow> retry_outcome" where
  "complete_with_retry home max_attempts retry_delay complete =
     retry_loop home max_attempts retry_delay complete [1..max max_attempts 5] [] None"

section \<open>Validator: what one application does, in closed form\<close>

text \<open>The effect of the loop body on one finding: \<open>None\<close> when the finding is left out of
  \<open>adjusted_findings\<close>.\<close>

definition adjust_one :: "(utext \<rightharpoonup> adjustment) \<Rightarrow> finding \<Rightarrow> finding option" where
  "adjust_one amap f =
     (case amap (get_default (f_id f) []) of
        None \<Rightarrow> Some f
      | Some adj \<Rightarrow>
          if decision adj = str ''rejected'' then None
          else if decision adj = str ''downgraded'' then Some (mark_downgraded adj f)
          else Some (mark_confirmed f))"

text \<open>The severity test of the recount, \<open>f.get("severity", "").upper() == sev\<close>, and the
  summary that counts a list of findings with it.\<close>

definition has_severity :: "utext \<Rightarrow> finding \<Rightarrow> bool" where
  "has_severity sev f = (upper (get_default (severity f) []) = sev)"

definition recount :: "finding list \<Rightarrow> summary" where
  "recount fs =
     \<lparr>blockers = int (length (filter (has_severity (str ''BLOCKER'')) fs)),
      high = int (length (filter (has_severity (str ''HIGH'')) fs)),
      medium = int (length (filter (has_severity (str ''MEDIUM'')) fs)),
      low = int (length (filter (has_severity (str ''LOW'')) fs)),
      total = int (length fs)\<rparr>"

text \<open>One agent after the adjustments: the kept findings and their recount.\<close>

definition adjusted_agent :: "(utext \<rightharpoonup> adjustment) \<Rightarrow> utext \<times> agent_data \<Rightarrow> utext \<times> agent_data" where
  "adjusted_agent amap kv =
     (let fs = List.map_filter (adjust_one amap) (get_default (findings_of (snd kv)) [])
      in (fst kv, (snd kv)\<lparr>findings_of := Some fs, summary_of := Some (recount fs)\<rparr>))"

text \<open>A finding whose matching adjustment (the one \<open>adjustment_map\<close> holds for its id) has
  decision \<open>rejected\<close>.\<close>

definition rejected_by :: "(utext \<rightharpoonup> adjustment) \<Rightarrow> finding \<Rightarrow> bool" where
  "rejected_by amap f =
     (case amap (get_default (f_id f) []) of
        None \<Rightarrow> False
      | Some adj \<Rightarrow> decision adj = str ''rejected'')"

section \<open>Regular expressions: what a match has read\<close>

text \<open>From the position \<open>c\<close> the matcher has read the text \<open>w\<close> and stands at \<open>c'\<close>.\<close>

definition consumed :: "cursor \<Rightarrow> cursor \<Rightarrow> utext \<Rightarrow> bool" where
  "consumed c c' w = (snd c = w @ snd c' \<and> fst c' = rev w @ fst c)"


section \<open>Scanner: invariants of the selection\<close>

text \<open>The summed sizes of a list of files, and the two budgets of the scan as an invariant
  of the selection state.\<close>

definition bytes_of :: "tiered list \<Rightarrow> int" where
  "bytes_of xs = sum_list (map (\<lambda>x. int (st_size (fst x))) xs)"

definition within_budget :: "int \<Rightarrow> int \<Rightarrow> pass_state \<Rightarrow> bool" where
  "within_budget max_files max_bytes st =
     (int (length (selected st)) \<le> max_files \<and>
      total_size st = bytes_of (selected st) \<and>
      total_size st \<le> max_bytes)"

text \<open>The invariant of the emission loop.\<close>

definition emit_ok :: "int \<Rightarrow> int \<Rightarrow> emit_state \<Rightarrow> bool" where
  "emit_ok max_files max_bytes st =
     (file_count st = int (length (emitted st)) \<and>
      actual_size st = bytes_of (emitted st) \<and>
      file_count st \<le> max_files \<and>
      actual_size st \<le> max_bytes)"

text \<open>The files of one tier in a selection, and the per-tier caps of pass 1.\<close>

definition of_tier :: "int \<Rightarrow> tiered list \<Rightarrow> tiered list" where
  "of_tier t xs = filter (\<lambda>x. snd x = t) xs"

definition tier_caps_ok :: "int \<Rightarrow> pass_state \<Rightarrow> bool" where
  "tier_caps_ok max_bytes st =
     (\<forall>t. int (length (of_tier t (selected st))) \<le> TIER_FILE_CAPS t \<and>
          bytes_of (of_tier t (selected st)) \<le> tier_size_cap_of max_bytes)"

text \<open>"Tier ascending, then size descending", as a relation between an emitted file and a
  later one.\<close>

definition emission_order :: "tiered \<Rightarrow> tiered \<Rightarrow> bool" where
  "emission_order x y =
     (snd x < snd y \<or> (snd x = snd y \<and> st_size (fst y) \<le> st_size (fst x)))"

text \<open>The list \<open>tiered\<close> of \<open>get_source_files_content\<close>: the files in the size band, each with
  its tier.\<close>

definition sized_tiered :: "path \<Rightarrow> file_entry list \<Rightarrow> int \<Rightarrow> int \<Rightarrow> tiered list" where
  "sized_tiered project_path all_files min_file_bytes max_file_kb =
     map (\<lambda>f. (f, get_file_tier (fpath f) project_path))
       (filter (\<lambda>f. min_file_bytes \<le> int (st_size f) \<and> int (st_size f) \<le> max_file_kb * 1024) all_files)"

text \<open>A selection as the list of its paths, sizes and tiers.\<close>

definition listing :: "tiered list \<Rightarrow> (path \<times> nat \<times> int) list" where
  "listing xs = map (\<lambda>x. (fpath (fst x), st_size (fst x), snd x)) xs"
section \<open>Findings parser: what the claims speak of\<close>












section \<open>Validator: degraded runs and repeated runs\<close>

text \<open>Two agent-result maps with the same keys and, agent by agent, the same findings list
  (an absent list counting as the empty one).\<close>

definition same_findings :: "all_findings \<Rightarrow> all_findings \<Rightarrow> bool" where
  "same_findings S S' =
     (map fst S' = map fst S \<and>
      map (\<lambda>kv. get_default (findings_of (snd kv)) []) S' =
      map (\<lambda>kv. get_default (findings_of (snd kv)) []) S)"

text \<open>The \<open>confirmed\<close> count a run reports, \<open>None\<close> when the run raised.\<close>

definition confirmed_of :: "run_error + (all_findings \<times> stats) \<Rightarrow> int option" where
  "confirmed_of r = (case r of Inl e \<Rightarrow> None | Inr p \<Rightarrow> snd p (str ''confirmed''))"

text \<open>A response without a validation block, and a failed call.\<close>

definition plain_response :: completion_result where
  "plain_response =
     \<lparr>success = True, content_of = Some (str ''All findings look plausible.''),
      tokens_used_of = None, error_of = None\<rparr>"

definition failed_response :: completion_result where
  "failed_response =
     \<lparr>success = False, content_of = None, tokens_used_of = None,
      error_of = Some (str ''401 | invalid x-api-key'')\<rparr>"

text \<open>A project without calibration data, whose console renders every message and whose
  review directory can be written; the same with a console that refuses one message, and
  with a review directory that cannot be written.\<close>

definition quiet_env :: validator_env where
  "quiet_env =
     \<lparr>console_print = (\<lambda>message. True),
      calibration_context = (\<lambda>agent. Some []),
      validator_instructions = Some (str ''# VALIDATOR Agent''),
      write_text = (\<lambda>content. True),
      elapsed = (str ''0.1'')\<rparr>"

definition refusing :: "utext \<Rightarrow> validator_env" where
  "refusing message = quiet_env\<lparr>console_print := (\<lambda>m. m \<noteq> message)\<rparr>"

definition read_only_env :: validator_env where
  "read_only_env = quiet_env\<lparr>write_text := (\<lambda>content. False)\<rparr>"

text \<open>A failed call whose error text holds a closing tag.\<close>

definition tagged_failure :: completion_result where
  "tagged_failure =
     \<lparr>success = False, content_of = None, tokens_used_of = None,
      error_of = Some (str ''400 | unexpected token [/INST]'')\<rparr>"

text \<open>What a further application does to a finding that is still in the list: a downgraded
  finding's \<open>original_severity\<close> is overwritten with the adjusted severity.\<close>

definition restamp :: "(utext \<rightharpoonup> adjustment) \<Rightarrow> finding \<Rightarrow> finding" where
  "restamp amap f =
     (case amap (get_default (f_id f) []) of
        None \<Rightarrow> f
      | Some adj \<Rightarrow>
          if decision adj = str ''downgraded''
          then f\<lparr>original_severity := Some (adjusted_severity adj)\<rparr>
          else f)"

definition restamp_agent :: "(utext \<rightharpoonup> adjustment) \<Rightarrow> utext \<times> agent_data \<Rightarrow> utext \<times> agent_data" where
  "restamp_agent amap kv =
     (fst kv, (snd kv)\<lparr>findings_of := map_option (map (restamp amap)) (findings_of (snd kv))\<rparr>)"

text \<open>A validator response that downgrades GUARDIAN-002.\<close>

definition downgrade_output :: utext where
  "downgrade_output = str ''### VALIDATE: GUARDIAN-002 - BLOCKER -> LOW''"

text \<open>The same decision written with the em dash and the arrow, after a no-break space.\<close>

definition dashed_output :: utext where
  "dashed_output =
     str ''###'' @ [0xA0] @ str ''VALIDATE: GUARDIAN-002 '' @ em_dash @ str '' BLOCKER '' @
     right_arrow @ str '' LOW''"

text \<open>The \<open>original_severity\<close> of each finding of the first agent.\<close>

definition original_severities :: "all_findings \<Rightarrow> utext option list" where
  "original_severities S =
     (case S of [] \<Rightarrow> [] | kv # _ \<Rightarrow> map original_severity (get_default (findings_of (snd kv)) []))"

section \<open>Provider: the retry policy, stated\<close>

text \<open>The outcome of giving up at a failed result: the result with its error message
  sanitised, after the sleeps made so far.\<close>

definition give_up :: "utext \<Rightarrow> completion_result \<Rightarrow> int list \<Rightarrow> retry_outcome" where
  "give_up home result slept =
     \<lparr>returned = result\<lparr>error_of := Some (sanitize_error home (get_default (error_of result) []))\<rparr>,
      sleeps = slept, calls = Suc (length slept)\<rparr>"

text \<open>The error message of the answer to call \<open>k\<close>, and the policy of a whole run: the calls
  made, what is returned after the last one, and why and how long each sleep was.\<close>

definition message_of :: "(int \<Rightarrow> completion_result) \<Rightarrow> int \<Rightarrow> utext" where
  "message_of complete k = get_default (error_of (complete k)) []"

definition slept_after ::
  "int \<Rightarrow> int \<Rightarrow> (int \<Rightarrow> completion_result) \<Rightarrow> int list \<Rightarrow> bool" where
  "slept_after max_attempts retry_delay complete slept =
     (\<forall>j < length slept.
        let k = int j + 1; msg = message_of complete k
        in \<not> success (complete k) \<and> is_retryable msg \<and>
           k < (if is_rate_limit msg then max max_attempts 5 else max_attempts) \<and>
           slept ! j = (if is_rate_limit msg then 30 else retry_delay) * min k 3)"

definition follows_policy ::
  "utext \<Rightarrow> int \<Rightarrow> int \<Rightarrow> (int \<Rightarrow> completion_result) \<Rightarrow> retry_outcome \<Rightarrow> bool" where
  "follows_policy home max_attempts retry_delay complete r =
     (calls r = Suc (length (sleeps r)) \<and>
      int (calls r) \<le> max max_attempts 5 \<and>
      returned r =
        (let res = complete (int (calls r))
         in if success res then res
            else res\<lparr>error_of := Some (sanitize_error home (message_of complete (int (calls r))))\<rparr>) \<and>
      slept_after max_attempts retry_delay complete (sleeps r))"

text \<open>A provider that fails every call with the same message.\<close>

definition always_failing :: "utext \<Rightarrow> int \<Rightarrow> completion_result" where
  "always_failing msg attempt =
     \<lparr>success = False, content_of = None, tokens_used_of = None, error_of = Some msg\<rparr>"

definition unauthorized_message :: utext where
  "unauthorized_message = str ''401 after 429 | Bearer abc123''"

section \<open>Example data\<close>

text \<open>A finding as the parser first builds it, and an agent result holding findings and a
  summary; the data of \<open>tests/unit/test_validator.py\<close>.\<close>

definition mk_finding :: "utext \<Rightarrow> utext \<Rightarrow> utext \<Rightarrow> finding" where
  "mk_finding i t s =
     \<lparr>f_id = Some i, title = Some t, severity = Some s, f_file = None, f_line = None,
      effort = None, issue = None, evidence = None, recommendation = None, description = None,
      original_severity = None, validated = None, validation_reason = None\<rparr>"

definition mk_agent :: "finding list \<Rightarrow> summary \<Rightarrow> agent_data" where
  "mk_agent fs s =
     \<lparr>version = None, agent = None, run = None, status = None,
      summary_of = Some s, findings_of = Some fs, rawMarkdown = None, tokens = None\<rparr>"

definition guardian_example :: all_findings where
  "guardian_example =
     [((str ''guardian''), mk_agent
        [mk_finding (str ''GUARDIAN-001'') (str ''Real issue'') (str ''BLOCKER''),
         mk_finding (str ''GUARDIAN-002'') (str ''ORM wildcard'') (str ''BLOCKER''),
         mk_finding (str ''GUARDIAN-003'') (str ''Fabricated'') (str ''HIGH'')]
        \<lparr>blockers = 2, high = 1, medium = 0, low = 0, total = 3\<rparr>)]"

definition reject_003 :: "adjustment list" where
  "reject_003 =
     [\<lparr>finding_id = str ''GUARDIAN-003'', a_original_severity = str ''HIGH'',
       adjusted_severity = str ''REJECTED'', decision = str ''rejected'', reason = (str ''Fabricated'')\<rparr>]"

definition shared_id_example :: all_findings where
  "shared_id_example =
     [((str ''guardian''), mk_agent [mk_finding (str ''SEC-001'') (str ''Weak hash'') (str ''HIGH'')]
        \<lparr>blockers = 0, high = 1, medium = 0, low = 0, total = 1\<rparr>),
      ((str ''sentinel''), mk_agent [mk_finding (str ''SEC-001'') (str ''Missing CORS'') (str ''MEDIUM'')]
        \<lparr>blockers = 0, high = 0, medium = 1, low = 0, total = 1\<rparr>)]"

definition downgrade_sec_001 :: adjustment where
  "downgrade_sec_001 =
     \<lparr>finding_id = str ''SEC-001'', a_original_severity = str ''HIGH'',
      adjusted_severity = str ''LOW'', decision = str ''downgraded'', reason = (str ''Admin only'')\<rparr>"

definition confirm_sec_001 :: adjustment where
  "confirm_sec_001 =
     \<lparr>finding_id = str ''SEC-001'', a_original_severity = str ''HIGH'',
      adjusted_severity = str ''HIGH'', decision = str ''confirmed'', reason = (str ''Reachable'')\<rparr>"

definition hold_example :: all_findings where
  "hold_example =
     [((str ''guardian''), mk_agent [] \<lparr>blockers = 1, high = 10, medium = 0, low = 0, total = 11\<rparr>)]"

definition conditional_example :: all_findings where
  "conditional_example =
     [((str ''guardian''), mk_agent [] \<lparr>blockers = 0, high = 2, medium = 0, low = 0, total = 2\<rparr>),
      ((str ''sentinel''), mk_agent [] \<lparr>blockers = 0, high = 2, medium = 0, low = 0, total = 2\<rparr>)]"

definition ship_example :: all_findings where
  "ship_example =
     [((str ''guardian''), mk_agent [] \<lparr>blockers = 0, high = 2, medium = 1, low = 0, total = 3\<rparr>)]"

text \<open>Three files under \<open>proj\<close>, in walk order.\<close>

definition scan_example :: "file_entry list" where
  "scan_example =
     [\<lparr>fpath = [str ''proj'', str ''docs'', str ''README.md''], st_size = 300, text_of = Some (str ''# Readme'')\<rparr>,
      \<lparr>fpath = [str ''proj'', str ''src'', str ''services'', str ''x.py''], st_size = 400, text_of = Some (str ''x = 1'')\<rparr>,
      \<lparr>fpath = [str ''proj'', str ''main.py''], st_size = 100, text_of = Some (str ''print(1)'')\<rparr>]"

text \<open>Five files under \<open>proj\<close>, one in each of the tiers 1 to 5; the first four hold 1024
  bytes together and the fifth is empty.\<close>

definition budget_example :: "file_entry list" where
  "budget_example =
     [\<lparr>fpath = [str ''proj'', str ''main.py''], st_size = 307, text_of = Some (str ''print(1)'')\<rparr>,
      \<lparr>fpath = [str ''proj'', str ''src'', str ''services'', str ''x.py''], st_size = 307, text_of = Some (str ''x = 1'')\<rparr>,
      \<lparr>fpath = [str ''proj'', str ''src'', str ''models'', str ''x.py''], st_size = 307, text_of = Some (str ''y = 1'')\<rparr>,
      \<lparr>fpath = [str ''proj'', str ''tests'', str ''test_x.py''], st_size = 103, text_of = Some (str ''z = 1'')\<rparr>,
      \<lparr>fpath = [str ''proj'', str ''docs'', str ''README.md''], st_size = 0, text_of = Some []\<rparr>]"
section \<open>Text: literals\<close>

lemma str_Nil [simp]: "str [] = []"
  by (simp add: str_def)

lemma str_Cons [simp]: "str (c # cs) = of_char c # str cs"
  by (simp add: str_def)

section \<open>Regular expressions: matches are spans of the text\<close>


lemma consumed_trans: "consumed c c1 w1 \<Longrightarrow> consumed c1 c2 w2 \<Longrightarrow> consumed c c2 (w1 @ w2)"
  by (simp add: consumed_def)

lemma consumed_same: "fst r = c \<Longrightarrow> \<exists>w. consumed c (fst r) w"
  by (rule exI [of _ "[]"]) (simp add: consumed_def)

lemma rmatch_consumed:
  "r \<in> set (rmatch p c g) \<Longrightarrow> \<exists>w. consumed c (fst r) w"
proof (induction p c g arbitrary: r rule: rmatch.induct)
  case (1 c g)
  then have "fst r = c" by (simp add: rmatch.simps(1))
  then show ?case by (rule consumed_same)
next
  case (2 p c g)
  show ?case
  proof (cases "snd c")
    case Nil
    then show ?thesis using "2.prems" by (simp add: rmatch.simps(2))
  next
    case (Cons x xs)
    then have "fst r = (x # fst c, xs)"
      using "2.prems" by (simp add: rmatch.simps(2) split: if_splits)
    then have "consumed c (fst r) [x]"
      using Cons by (simp add: consumed_def)
    then show ?thesis ..
  qed
next
  case (3 a b c g)
  from "3.prems" obtain r1 where r1: "r1 \<in> set (rmatch a c g)"
      and r: "r \<in> set (rmatch b (fst r1) (snd r1))"
    by (auto simp: rmatch.simps(3))
  obtain w1 where w1: "consumed c (fst r1) w1" using "3.IH"(1) [OF r1] by blast
  obtain w2 where w2: "consumed (fst r1) (fst r) w2" using "3.IH"(2) [OF r1 r] by blast
  show ?case using consumed_trans [OF w1 w2] by blast
next
  case (4 a b c g)
  from "4.prems" have "r \<in> set (rmatch a c g) \<or> r \<in> set (rmatch b c g)"
    by (simp add: rmatch.simps(4))
  then show ?case using "4.IH"(1) [of r] "4.IH"(2) [of r] by blast
next
  case (5 a c g)
  from "5.prems" consider
      (again) r1 where "r1 \<in> set (rmatch a c g)" "length (snd (fst r1)) < length (snd c)"
        "r \<in> set (rmatch (Star a) (fst r1) (snd r1))"
    | (stop) "fst r = c"
    unfolding rmatch.simps(5) [of a c g] by (auto split: if_splits)
  then show ?case
  proof cases
    case again
    obtain w1 where w1: "consumed c (fst r1) w1" using "5.IH"(1) [OF again(1)] by blast
    obtain w2 where w2: "consumed (fst r1) (fst r) w2"
      using "5.IH"(2) [OF again(1) again(2) again(3)] by blast
    show ?thesis using consumed_trans [OF w1 w2] by blast
  next
    case stop
    then show ?thesis by (rule consumed_same)
  qed
next
  case (6 a c g)
  from "6.prems" consider
      (again) r1 where "r1 \<in> set (rmatch a c g)" "length (snd (fst r1)) < length (snd c)"
        "r \<in> set (rmatch (LazyStar a) (fst r1) (snd r1))"
    | (stop) "fst r = c"
    unfolding rmatch.simps(6) [of a c g] by (auto split: if_splits)
  then show ?case
  proof cases
    case again
    obtain w1 where w1: "consumed c (fst r1) w1" using "6.IH"(1) [OF again(1)] by blast
    obtain w2 where w2: "consumed (fst r1) (fst r) w2"
      using "6.IH"(2) [OF again(1) again(2) again(3)] by blast
    show ?thesis using consumed_trans [OF w1 w2] by blast
  next
    case stop
    then show ?thesis by (rule consumed_same)
  qed
next
  case (7 n a c g)
  from "7.prems" obtain r1 where r1: "r1 \<in> set (rmatch a c g)" and e: "fst r = fst r1"
    by (auto simp: rmatch.simps(7))
  show ?case using "7.IH" [OF r1] by (simp add: e)
next
  case (8 a c g)
  then have "fst r = c" by (simp add: rmatch.simps(8) split: if_splits)
  then show ?case by (rule consumed_same)
next
  case (9 c g)
  then have "fst r = c" by (simp add: rmatch.simps(9) split: if_splits)
  then show ?case by (rule consumed_same)
next
  case (10 c g)
  then have "fst r = c" by (simp add: rmatch.simps(10) split: if_splits)
  then show ?case by (rule consumed_same)
next
  case (11 c g)
  then have "fst r = c" by (simp add: rmatch.simps(11) split: if_splits)
  then show ?case by (rule consumed_same)
next
  case (12 c g)
  then have "fst r = c" by (simp add: rmatch.simps(12) split: if_splits)
  then show ?case by (rule consumed_same)
qed













section \<open>Regular expressions: captured groups are pieces of the text\<close>



lemma rmatch_shorter:
  "r \<in> set (rmatch p c g) \<Longrightarrow> length (snd (fst r)) \<le> length (snd c)"
  using rmatch_consumed [of r p c g] by (auto simp: consumed_def)











section \<open>Verdict: proofs\<close>

lemma fold_verdict_step:
  "fold verdict_step xs (b, h) = (b + summed blockers xs, h + summed high xs)"
proof (induction xs arbitrary: b h)
  case Nil
  show ?case by (simp add: summed_def)
next
  case (Cons kv xs)
  show ?case
  proof (cases "summary_of (snd kv)")
    case None
    then show ?thesis using Cons.IH [of b h]
      by (simp add: verdict_step_def summed_def)
  next
    case (Some s)
    then show ?thesis using Cons.IH [of "b + blockers s" "h + high s"]
      by (simp add: verdict_step_def summed_def add.assoc)
  qed
qed

text \<open>
  Claim C1. For every map of agent results, the verdict is HOLD when the blocker counts
  summed across the agents are positive; otherwise CONDITIONAL when the summed high counts
  exceed 3; otherwise SHIP. The exit codes are SHIP 0, CONDITIONAL 2, HOLD 1.
\<close>

theorem calculate_verdict_priority:
  "(summed blockers af > 0 \<longrightarrow> calculate_verdict af = HOLD) \<and>
   (\<not> summed blockers af > 0 \<and> summed high af > 3 \<longrightarrow> calculate_verdict af = CONDITIONAL) \<and>
   (\<not> summed blockers af > 0 \<and> \<not> summed high af > 3 \<longrightarrow> calculate_verdict af = SHIP) \<and>
   get_exit_code SHIP = 0 \<and> get_exit_code CONDITIONAL = 2 \<and> get_exit_code HOLD = 1"
  by (simp add: calculate_verdict_def fold_verdict_step get_exit_code_def Let_def)

text \<open>The theorem at three inputs of \<open>tests/unit/test_synthesis.py\<close>: a blocker with ten
  highs, two agents with two highs each, and one agent with two highs.\<close>

theorem calculate_verdict_priority_witness:
  "summed blockers hold_example > 0 \<and> calculate_verdict hold_example = HOLD \<and>
   \<not> summed blockers conditional_example > 0 \<and> summed high conditional_example > 3 \<and>
   calculate_verdict conditional_example = CONDITIONAL \<and>
   \<not> summed blockers ship_example > 0 \<and> \<not> summed high ship_example > 3 \<and>
   calculate_verdict ship_example = SHIP"
proof -
  have h: "summed blockers hold_example = 1"
    by (simp add: summed_def hold_example_def mk_agent_def)
  have c: "summed blockers conditional_example = 0" "summed high conditional_example = 4"
    by (simp_all add: summed_def conditional_example_def mk_agent_def)
  have s: "summed blockers ship_example = 0" "summed high ship_example = 2"
    by (simp_all add: summed_def ship_example_def mk_agent_def)
  show ?thesis
    using calculate_verdict_priority [of hold_example]
      calculate_verdict_priority [of conditional_example]
      calculate_verdict_priority [of ship_example]
    by (simp add: h c s)
qed

section \<open>Validator: the loops in closed form\<close>

lemma adjust_step_fst:
  "fst (adjust_step amap f (acc, st)) =
     acc @ (case adjust_one amap f of None \<Rightarrow> [] | Some g \<Rightarrow> [g])"
  by (cases "amap (get_default (f_id f) [])")
     (simp_all add: adjust_step_def adjust_one_def Let_def)

lemma fold_adjust_step_fst:
  "fst (fold (adjust_step amap) fs (acc, st)) = acc @ List.map_filter (adjust_one amap) fs"
proof (induction fs arbitrary: acc st)
  case Nil
  show ?case by simp
next
  case (Cons f fs)
  obtain acc' st' where step: "adjust_step amap f (acc, st) = (acc', st')"
    by (cases "adjust_step amap f (acc, st)")
  have "acc' = acc @ (case adjust_one amap f of None \<Rightarrow> [] | Some g \<Rightarrow> [g])"
    using adjust_step_fst [of amap f acc st] step by simp
  then show ?case
    by (simp add: step Cons.IH split: option.split)
qed

lemma count_step_eq:
  "count_step f s =
     \<lparr>blockers = blockers s + (if has_severity (str ''BLOCKER'') f then 1 else 0),
      high = high s + (if has_severity (str ''HIGH'') f then 1 else 0),
      medium = medium s + (if has_severity (str ''MEDIUM'') f then 1 else 0),
      low = low s + (if has_severity (str ''LOW'') f then 1 else 0),
      total = total s + 1\<rparr>"
  by (simp add: count_step_def has_severity_def Let_def)

lemma fold_count_step:
  "fold count_step fs s =
     \<lparr>blockers = blockers s + int (length (filter (has_severity (str ''BLOCKER'')) fs)),
      high = high s + int (length (filter (has_severity (str ''HIGH'')) fs)),
      medium = medium s + int (length (filter (has_severity (str ''MEDIUM'')) fs)),
      low = low s + int (length (filter (has_severity (str ''LOW'')) fs)),
      total = total s + int (length fs)\<rparr>"
proof (induction fs arbitrary: s)
  case Nil
  show ?case by simp
next
  case (Cons f fs)
  have "fold count_step (f # fs) s = fold count_step fs (count_step f s)"
    by simp
  also have "\<dots> =
     \<lparr>blockers = blockers (count_step f s) + int (length (filter (has_severity (str ''BLOCKER'')) fs)),
      high = high (count_step f s) + int (length (filter (has_severity (str ''HIGH'')) fs)),
      medium = medium (count_step f s) + int (length (filter (has_severity (str ''MEDIUM'')) fs)),
      low = low (count_step f s) + int (length (filter (has_severity (str ''LOW'')) fs)),
      total = total (count_step f s) + int (length fs)\<rparr>"
    by (rule Cons.IH)
  also have "\<dots> =
     \<lparr>blockers = blockers s + int (length (filter (has_severity (str ''BLOCKER'')) (f # fs))),
      high = high s + int (length (filter (has_severity (str ''HIGH'')) (f # fs))),
      medium = medium s + int (length (filter (has_severity (str ''MEDIUM'')) (f # fs))),
      low = low s + int (length (filter (has_severity (str ''LOW'')) (f # fs))),
      total = total s + int (length (f # fs))\<rparr>"
    unfolding count_step_eq by simp
  finally show ?case .
qed

lemma fold_count_step_zero: "fold count_step fs zero_summary = recount fs"
  by (simp add: fold_count_step zero_summary_def recount_def)

lemma fold_adjust_agent_fst:
  "fst (fold (adjust_agent amap) S (acc, st)) = acc @ map (adjusted_agent amap) S"
proof (induction S arbitrary: acc st)
  case Nil
  show ?case by simp
next
  case (Cons kv S)
  obtain fs' st' where r: "fold (adjust_step amap) (get_default (findings_of (snd kv)) []) ([], st) = (fs', st')"
    by (cases "fold (adjust_step amap) (get_default (findings_of (snd kv)) []) ([], st)")
  have fs': "fs' = List.map_filter (adjust_one amap) (get_default (findings_of (snd kv)) [])"
    using fold_adjust_step_fst [of amap "get_default (findings_of (snd kv)) []" "[]" st] r by simp
  have "adjust_agent amap kv (acc, st) = (acc @ [adjusted_agent amap kv], st')"
    by (simp add: adjust_agent_def adjusted_agent_def Let_def r fs' fold_count_step_zero)
  then show ?case by (simp add: Cons.IH)
qed

lemma apply_adjustments_fst:
  "fst (apply_adjustments S adjs) = map (adjusted_agent (adjustment_map adjs)) S"
  by (simp add: apply_adjustments_def fold_adjust_agent_fst)

section \<open>Validator: rejected findings\<close>

lemma adjust_one_None: "adjust_one amap f = None \<longleftrightarrow> rejected_by amap f"
  by (simp add: adjust_one_def rejected_by_def split: option.split)

lemma adjust_one_id: "adjust_one amap f = Some g \<Longrightarrow> f_id g = f_id f"
  by (auto simp: adjust_one_def mark_downgraded_def mark_confirmed_def
           split: option.splits if_splits)

lemma map_filter_adjust_one_ids:
  "map f_id (List.map_filter (adjust_one amap) fs) =
     map f_id (filter (\<lambda>f. \<not> rejected_by amap f) fs)"
proof (induction fs)
  case Nil
  show ?case by simp
next
  case (Cons f fs)
  show ?case
  proof (cases "adjust_one amap f")
    case None
    then show ?thesis using Cons.IH adjust_one_None [of amap f] by simp
  next
    case (Some g)
    then have "\<not> rejected_by amap f" using adjust_one_None [of amap f] by simp
    then show ?thesis using Cons.IH Some adjust_one_id [OF Some] by simp
  qed
qed

lemma length_map_filter_adjust_one:
  "int (length (List.map_filter (adjust_one amap) fs)) =
     int (length fs) - int (length (filter (rejected_by amap) fs))"
proof (induction fs)
  case Nil
  show ?case by simp
next
  case (Cons f fs)
  show ?case using Cons.IH adjust_one_None [of amap f]
    by (cases "adjust_one amap f") auto
qed

lemma rejected_by_cong: "f_id g = f_id f \<Longrightarrow> rejected_by amap g = rejected_by amap f"
  by (simp add: rejected_by_def)

lemma map_filter_adjust_one_kept:
  "g \<in> set (List.map_filter (adjust_one amap) fs) \<Longrightarrow> \<not> rejected_by amap g"
proof (induction fs)
  case Nil
  then show ?case by simp
next
  case (Cons f fs)
  show ?case
  proof (cases "adjust_one amap f")
    case None
    then show ?thesis using Cons by simp
  next
    case (Some h)
    have "\<not> rejected_by amap h"
      using adjust_one_None [of amap f] Some rejected_by_cong [OF adjust_one_id [OF Some]] by simp
    then show ?thesis using Cons Some by auto
  qed
qed

lemma apply_adjustments_nth:
  "i < length S \<Longrightarrow>
     fst (apply_adjustments S adjs) ! i = adjusted_agent (adjustment_map adjs) (S ! i)"
  by (simp add: apply_adjustments_fst)

lemma length_apply_adjustments: "length (fst (apply_adjustments S adjs)) = length S"
  by (simp add: apply_adjustments_fst)

text \<open>
  Claim C4. For every agent-results map and adjustment list, every agent keeps its key and,
  of its findings, exactly those whose matching adjustment is not \<open>rejected\<close> (same ids,
  same order); no finding left in the list has a rejected adjustment, at any severity. The
  new summary is the recount of the remaining findings, so its total is the number of
  findings before minus the number of rejected ones, and where the old total was that
  number the total has decreased by the number of rejected findings.
\<close>

theorem rejected_findings_removed:
  assumes "i < length S"
  shows "let amap = adjustment_map adjs;
             fs = get_default (findings_of (snd (S ! i))) [];
             kv' = fst (apply_adjustments S adjs) ! i;
             fs' = get_default (findings_of (snd kv')) []
         in fst kv' = fst (S ! i) \<and>
            map f_id fs' = map f_id (filter (\<lambda>f. \<not> rejected_by amap f) fs) \<and>
            (\<forall>g \<in> set fs'. \<not> rejected_by amap g) \<and>
            summary_of (snd kv') = Some (recount fs') \<and>
            total (recount fs') = int (length fs) - int (length (filter (rejected_by amap) fs)) \<and>
            (\<forall>s. summary_of (snd (S ! i)) = Some s \<and> total s = int (length fs) \<longrightarrow>
               total (recount fs') = total s - int (length (filter (rejected_by amap) fs)))"
  using assms
  by (simp add: apply_adjustments_nth adjusted_agent_def Let_def get_default_def
        map_filter_adjust_one_ids map_filter_adjust_one_kept recount_def
        length_map_filter_adjust_one)

text \<open>The theorem at \<open>test_rejected_removed\<close>: GUARDIAN-003 is rejected, two findings stay.\<close>

theorem rejected_findings_removed_witness:
  "(0::nat) < length guardian_example \<and>
   (let kv' = fst (apply_adjustments guardian_example reject_003) ! 0;
        fs' = get_default (findings_of (snd kv')) []
    in fst kv' = str ''guardian'' \<and>
       map f_id fs' = [Some (str ''GUARDIAN-001''), Some (str ''GUARDIAN-002'')] \<and>
       summary_of (snd kv') = Some (recount fs') \<and>
       total (recount fs') = 2)"
proof -
  have h: "(0::nat) < length guardian_example"
    by (simp add: guardian_example_def)
  show ?thesis
    using h rejected_findings_removed [OF h, of reject_003]
    by (simp add: Let_def guardian_example_def reject_003_def mk_agent_def mk_finding_def
          rejected_by_def adjustment_map_def get_default_def)
qed

section \<open>Validator: matching by id\<close>

lemma map_filter_adjust_one_mem:
  "f \<in> set fs \<Longrightarrow> adjust_one amap f = Some g \<Longrightarrow>
     g \<in> set (List.map_filter (adjust_one amap) fs)"
  by (induction fs) (auto split: option.split)

lemma rejected_id_absent:
  assumes "amap (get_default (f_id f) []) = Some adj" and "decision adj = str ''rejected''"
    and "g \<in> set (List.map_filter (adjust_one amap) fs)"
  shows "f_id g \<noteq> f_id f"
proof
  assume "f_id g = f_id f"
  then have "rejected_by amap g" using assms(1,2) by (simp add: rejected_by_def)
  then show False using map_filter_adjust_one_kept [OF assms(3)] by simp
qed

text \<open>
  Claim C10. An adjustment is matched to a finding by the finding's id alone: for every
  agent (whatever its key) and every finding in its list (whatever its severity) whose id
  has an adjustment in the adjustment map, that adjustment is applied. A rejected finding's
  id is gone from the agent's list; a downgraded finding is in the list with the adjusted
  severity, its former severity as \<open>original_severity\<close>, \<open>validated = "downgraded"\<close> and the
  adjustment's reason; under any other decision the finding is in the list with
  \<open>validated = "confirmed"\<close> and nothing else changed.
\<close>

theorem adjustment_matched_by_id_alone:
  assumes "i < length S"
    and "f \<in> set (get_default (findings_of (snd (S ! i))) [])"
    and "adjustment_map adjs (get_default (f_id f) []) = Some adj"
  shows "let fs' = get_default (findings_of (snd (fst (apply_adjustments S adjs) ! i))) []
         in (decision adj = (str ''rejected'') \<longrightarrow> (\<forall>g \<in> set fs'. f_id g \<noteq> f_id f)) \<and>
            (decision adj = (str ''downgraded'') \<longrightarrow>
               f\<lparr>original_severity := Some (get_default (severity f) []),
                 severity := Some (adjusted_severity adj),
                 validated := Some (str ''downgraded''),
                 validation_reason := Some (reason adj)\<rparr> \<in> set fs') \<and>
            (decision adj \<noteq> str ''rejected'' \<and> decision adj \<noteq> (str ''downgraded'') \<longrightarrow>
               f\<lparr>validated := Some (str ''confirmed'')\<rparr> \<in> set fs')"
proof -
  let ?amap = "adjustment_map adjs"
  let ?fs = "get_default (findings_of (snd (S ! i))) []"
  have fs': "get_default (findings_of (snd (fst (apply_adjustments S adjs) ! i))) [] =
      List.map_filter (adjust_one ?amap) ?fs"
    using assms(1) by (simp add: apply_adjustments_nth adjusted_agent_def Let_def get_default_def)
  have rej: "decision adj = (str ''rejected'') \<Longrightarrow>
      \<forall>g \<in> set (List.map_filter (adjust_one ?amap) ?fs). f_id g \<noteq> f_id f"
    using rejected_id_absent [of "adjustment_map adjs" f adj] assms(3) by blast
  have down: "decision adj = (str ''downgraded'') \<Longrightarrow>
      mark_downgraded adj f \<in> set (List.map_filter (adjust_one ?amap) ?fs)"
    using assms(3) by (intro map_filter_adjust_one_mem [OF assms(2)]) (simp add: adjust_one_def)
  have conf: "decision adj \<noteq> (str ''rejected'') \<Longrightarrow> decision adj \<noteq> (str ''downgraded'') \<Longrightarrow>
      mark_confirmed f \<in> set (List.map_filter (adjust_one ?amap) ?fs)"
    using assms(3) by (intro map_filter_adjust_one_mem [OF assms(2)]) (simp add: adjust_one_def)
  show ?thesis
    unfolding Let_def fs' using rej down conf
    by (simp add: mark_downgraded_def mark_confirmed_def)
qed


text \<open>Two agents report the id SEC-001. Only guardian's HIGH finding is on the worklist, yet
  one adjustment for SEC-001 also reaches sentinel's MEDIUM finding: a downgrade rewrites
  it, and a confirmation marks it confirmed.\<close>

theorem adjustment_matched_by_id_alone_witness:
  "(1::nat) < length shared_id_example \<and>
   mk_finding (str ''SEC-001'') (str ''Missing CORS'') (str ''MEDIUM'')
     \<in> set (get_default (findings_of (snd (shared_id_example ! 1))) []) \<and>
   adjustment_map [downgrade_sec_001] (str ''SEC-001'') = Some downgrade_sec_001 \<and>
   adjustment_map [confirm_sec_001] (str ''SEC-001'') = Some confirm_sec_001 \<and>
   map w_agent (collect_high_severity_findings shared_id_example) = [str ''guardian''] \<and>
   (mk_finding (str ''SEC-001'') (str ''Missing CORS'') (str ''MEDIUM''))
      \<lparr>original_severity := Some (str ''MEDIUM''), severity := Some (str ''LOW''),
       validated := Some (str ''downgraded''), validation_reason := Some (str ''Admin only'')\<rparr>
     \<in> set (get_default
          (findings_of (snd (fst (apply_adjustments shared_id_example [downgrade_sec_001]) ! 1)))
          []) \<and>
   (mk_finding (str ''SEC-001'') (str ''Missing CORS'') (str ''MEDIUM''))\<lparr>validated := Some (str ''confirmed'')\<rparr>
     \<in> set (get_default
          (findings_of (snd (fst (apply_adjustments shared_id_example [confirm_sec_001]) ! 1)))
          [])"
proof -
  let ?f = "mk_finding (str ''SEC-001'') (str ''Missing CORS'') (str ''MEDIUM'')"
  have h1: "(1::nat) < length shared_id_example"
    by (simp add: shared_id_example_def)
  have h2: "?f \<in> set (get_default (findings_of (snd (shared_id_example ! 1))) [])"
    by (simp add: shared_id_example_def mk_agent_def get_default_def)
  have h3: "adjustment_map [downgrade_sec_001] (get_default (f_id ?f) []) = Some downgrade_sec_001"
    by (simp add: adjustment_map_def downgrade_sec_001_def mk_finding_def get_default_def)
  have h4: "adjustment_map [confirm_sec_001] (get_default (f_id ?f) []) = Some confirm_sec_001"
    by (simp add: adjustment_map_def confirm_sec_001_def mk_finding_def get_default_def)
  have w: "map w_agent (collect_high_severity_findings shared_id_example) = [str ''guardian'']"
    by code_simp
  have d: "decision downgrade_sec_001 = str ''downgraded''"
    by (simp add: downgrade_sec_001_def)
  have c: "decision confirm_sec_001 = str ''confirmed''"
    by (simp add: confirm_sec_001_def)
  show ?thesis
    using h1 h2 h3 h4 w d c adjustment_matched_by_id_alone [OF h1 h2 h3]
      adjustment_matched_by_id_alone [OF h1 h2 h4]
    by (simp add: Let_def mk_finding_def downgrade_sec_001_def confirm_sec_001_def
          get_default_def)
qed
section \<open>Scanner: tiers of the example paths\<close>

lemma path_name_append: "rel \<noteq> [] \<Longrightarrow> path_name (root @ rel) = path_name rel"
  by (simp add: path_name_def)

lemma path_suffix_append: "rel \<noteq> [] \<Longrightarrow> path_suffix (root @ rel) = path_suffix rel"
  by (simp add: path_suffix_def path_name_append)

lemma relative_to_append: "relative_to (root @ rel) root = Some rel"
  by (simp add: relative_to_def)

lemma relative_to_Nil: "relative_to rel [] = Some rel"
  by (simp add: relative_to_def)

text \<open>The tier of a file under the project root depends on its relative path only.\<close>

lemma get_file_tier_under_root:
  assumes "rel \<noteq> []"
  shows "get_file_tier (root @ rel) root = get_file_tier rel []"
proof -
  note a = path_name_append [OF assms, of root] and b = path_suffix_append [OF assms, of root]
    and c = relative_to_append [of root rel] and d = relative_to_Nil [of rel]
  show ?thesis
    unfolding get_file_tier_def a b c d ..
qed

lemma tier_main: "get_file_tier [str ''main.py''] [] = 1"
  by code_simp

lemma tier_service: "get_file_tier [str ''src'', str ''services'', str ''x.py''] [] = 2"
  by code_simp

lemma tier_model: "get_file_tier [str ''src'', str ''models'', str ''x.py''] [] = 3"
  by code_simp

lemma tier_test: "get_file_tier [str ''tests'', str ''test_x.py''] [] = 4"
  by code_simp

lemma tier_readme: "get_file_tier [str ''docs'', str ''README.md''] [] = 5"
  by code_simp

lemma tier_component: "get_file_tier [str ''src'', str ''components'', str ''App.tsx''] [] = 6"
  by code_simp

lemma tier_data: "get_file_tier [str ''data'', str ''data.csv''] [] = 7"
  by code_simp

lemma tier_index: "get_file_tier [str ''index.js''] [] = 1"
  by code_simp

lemma tier_deep_index: "get_file_tier [str ''src'', str ''components'', str ''deep'', str ''index.js''] [] = 6"
  by code_simp

lemma tier_api_settings: "get_file_tier [str ''src'', str ''api'', str ''settings.py''] [] = 2"
  by code_simp

text \<open>
  Claim C7. Under every project root, \<open>main.py\<close> is in tier 1, \<open>src/services/x.py\<close> in
  tier 2, \<open>src/models/x.py\<close> in tier 3, \<open>tests/test_x.py\<close> in tier 4, \<open>docs/README.md\<close> in
  tier 5, \<open>src/components/App.tsx\<close> in tier 6, \<open>data/data.csv\<close> in tier 7 and \<open>index.js\<close>
  in tier 1, while \<open>src/components/deep/index.js\<close> and \<open>src/api/settings.py\<close> are not in
  tier 1.
\<close>

theorem get_file_tier_examples:
  "get_file_tier (root @ [str ''main.py'']) root = 1 \<and>
   get_file_tier (root @ [str ''src'', str ''services'', str ''x.py'']) root = 2 \<and>
   get_file_tier (root @ [str ''src'', str ''models'', str ''x.py'']) root = 3 \<and>
   get_file_tier (root @ [str ''tests'', str ''test_x.py'']) root = 4 \<and>
   get_file_tier (root @ [str ''docs'', str ''README.md'']) root = 5 \<and>
   get_file_tier (root @ [str ''src'', str ''components'', str ''App.tsx'']) root = 6 \<and>
   get_file_tier (root @ [str ''data'', str ''data.csv'']) root = 7 \<and>
   get_file_tier (root @ [str ''index.js'']) root = 1 \<and>
   get_file_tier (root @ [str ''src'', str ''components'', str ''deep'', str ''index.js'']) root \<noteq> 1 \<and>
   get_file_tier (root @ [str ''src'', str ''api'', str ''settings.py'']) root \<noteq> 1"
  by (simp add: get_file_tier_under_root tier_main tier_service tier_model tier_test
        tier_readme tier_component tier_data tier_index tier_deep_index tier_api_settings
        del: str_Nil str_Cons)

text \<open>The theorem under the root \<open>/tmp/proj\<close>.\<close>

theorem get_file_tier_examples_witness:
  "get_file_tier [str ''/'', str ''tmp'', str ''proj'', str ''main.py''] [str ''/'', str ''tmp'', str ''proj''] = 1 \<and>
   get_file_tier [str ''/'', str ''tmp'', str ''proj'', str ''docs'', str ''README.md''] [str ''/'', str ''tmp'', str ''proj''] = 5 \<and>
   get_file_tier [str ''/'', str ''tmp'', str ''proj'', str ''src'', str ''api'', str ''settings.py''] [str ''/'', str ''tmp'', str ''proj'']
     \<noteq> 1"
  using get_file_tier_examples [of "[str ''/'', str ''tmp'', str ''proj'']"]
  by simp

section \<open>Scanner: selection proofs\<close>

lemma bytes_of_append [simp]: "bytes_of (xs @ ys) = bytes_of xs + bytes_of ys"
  by (simp add: bytes_of_def)

lemma bytes_of_Nil [simp]: "bytes_of [] = 0"
  by (simp add: bytes_of_def)

lemma bytes_of_single [simp]: "bytes_of [x] = int (st_size (fst x))"
  by (simp add: bytes_of_def)

lemma pass1_group_within_budget:
  "within_budget max_files max_bytes st \<Longrightarrow>
     within_budget max_files max_bytes
       (pass1_group max_files max_bytes tcap fcap grp tc tsz st)"
proof (induction grp arbitrary: tc tsz st)
  case Nil
  then show ?case by simp
next
  case (Cons x grp)
  let ?st' = "\<lparr>selected = selected st @ [x], total_size = total_size st + int (st_size (fst x))\<rparr>"
  have add: "\<not> max_files \<le> int (length (selected st)) \<Longrightarrow>
             \<not> max_bytes < total_size st + int (st_size (fst x)) \<Longrightarrow>
             within_budget max_files max_bytes ?st'"
    using Cons.prems by (simp add: within_budget_def)
  show ?case
    using Cons.prems Cons.IH [of st tc tsz] Cons.IH [OF add, of "tc + 1" "tsz + int (st_size (fst x))"]
    by (simp add: Let_def)
qed

lemma pass2_loop_within_budget:
  "within_budget max_files max_bytes st \<Longrightarrow>
     within_budget max_files max_bytes (pass2_loop max_files max_bytes xs st)"
proof (induction xs arbitrary: st)
  case Nil
  then show ?case by simp
next
  case (Cons x xs)
  let ?st' = "\<lparr>selected = selected st @ [x], total_size = total_size st + int (st_size (fst x))\<rparr>"
  have add: "\<not> max_files \<le> int (length (selected st)) \<Longrightarrow>
             \<not> max_bytes < total_size st + int (st_size (fst x)) \<Longrightarrow>
             within_budget max_files max_bytes ?st'"
    using Cons.prems by (simp add: within_budget_def)
  show ?case
    using Cons.prems Cons.IH [of st] Cons.IH [OF add]
    by (simp add: Let_def)
qed

lemma pass1_tiers_within_budget:
  "within_budget max_files max_bytes st \<Longrightarrow>
     within_budget max_files max_bytes (pass1_tiers max_files max_bytes tiered ts st)"
  unfolding pass1_tiers_def
  by (induction ts arbitrary: st) (simp_all add: pass1_group_within_budget)

lemma pass1_within_budget:
  "0 \<le> max_files \<Longrightarrow> 0 \<le> max_bytes \<Longrightarrow>
     within_budget max_files max_bytes (pass1 max_files max_bytes tiered)"
  unfolding pass1_def
  by (rule pass1_tiers_within_budget) (simp add: within_budget_def)

lemma pass2_within_budget:
  "within_budget max_files max_bytes st \<Longrightarrow>
     within_budget max_files max_bytes (pass2 max_files max_bytes tiered st)"
  by (simp add: pass2_def Let_def pass2_loop_within_budget)

lemma emit_loop_ok:
  "emit_ok max_files max_bytes st \<Longrightarrow>
     emit_ok max_files max_bytes (emit_loop max_files max_bytes xs st)"
proof (induction xs arbitrary: st)
  case Nil
  then show ?case by simp
next
  case (Cons x xs)
  let ?st' = "\<lparr>emitted = emitted st @ [x], file_count = file_count st + 1,
               actual_size = actual_size st + int (st_size (fst x))\<rparr>"
  have add: "\<not> max_files \<le> file_count st \<Longrightarrow>
             \<not> max_bytes < actual_size st + int (st_size (fst x)) \<Longrightarrow>
             emit_ok max_files max_bytes ?st'"
    using Cons.prems by (simp add: emit_ok_def)
  show ?case
    using Cons.prems Cons.IH [of st] Cons.IH [OF add]
    by (simp add: Let_def split: option.split)
qed

lemma sorted_drop_middle:
  "sorted (map k (xs @ y # ys)) \<Longrightarrow> sorted (map k (xs @ ys))"
  by (auto simp: sorted_append)

lemma sorted_take_front:
  "sorted (map k (xs @ ys)) \<Longrightarrow> sorted (map k xs)"
  by (auto simp: sorted_append)

lemma emit_loop_sorted:
  "sorted (map k (emitted st @ xs)) \<Longrightarrow>
     sorted (map k (emitted (emit_loop max_files max_bytes xs st)))"
proof (induction xs arbitrary: st)
  case Nil
  then show ?case by simp
next
  case (Cons x xs)
  let ?st' = "\<lparr>emitted = emitted st @ [x], file_count = file_count st + 1,
               actual_size = actual_size st + int (st_size (fst x))\<rparr>"
  have skip: "sorted (map k (emitted st @ xs))"
    using Cons.prems by (rule sorted_drop_middle)
  have stop: "sorted (map k (emitted st))"
    using Cons.prems by (rule sorted_take_front)
  have add: "sorted (map k (emitted ?st' @ xs))"
    using Cons.prems by simp
  show ?case
    using stop Cons.IH [OF skip] Cons.IH [OF add]
    by (simp add: Let_def split: option.split)
qed

lemma emit_loop_subset:
  "set (emitted (emit_loop max_files max_bytes xs st)) \<subseteq> set (emitted st) \<union> set xs"
proof (induction xs arbitrary: st)
  case Nil
  show ?case by simp
next
  case (Cons x xs)
  let ?st' = "\<lparr>emitted = emitted st @ [x], file_count = file_count st + 1,
               actual_size = actual_size st + int (st_size (fst x))\<rparr>"
  show ?case
    using Cons.IH [of st] Cons.IH [of ?st']
    by (auto simp: Let_def split: option.split)
qed

lemma pass1_group_subset:
  "set (selected (pass1_group max_files max_bytes tcap fcap grp tc tsz st))
     \<subseteq> set (selected st) \<union> set grp"
proof (induction grp arbitrary: tc tsz st)
  case Nil
  show ?case by simp
next
  case (Cons x grp)
  let ?st' = "\<lparr>selected = selected st @ [x], total_size = total_size st + int (st_size (fst x))\<rparr>"
  show ?case
    using Cons.IH [of tc tsz st] Cons.IH [of "tc + 1" "tsz + int (st_size (fst x))" ?st']
    by (auto simp: Let_def)
qed

lemma pass2_loop_subset:
  "set (selected (pass2_loop max_files max_bytes xs st)) \<subseteq> set (selected st) \<union> set xs"
proof (induction xs arbitrary: st)
  case Nil
  show ?case by simp
next
  case (Cons x xs)
  let ?st' = "\<lparr>selected = selected st @ [x], total_size = total_size st + int (st_size (fst x))\<rparr>"
  show ?case
    using Cons.IH [of st] Cons.IH [of ?st']
    by (auto simp: Let_def)
qed

lemma tier_group_subset: "set (tier_group tiered t) \<subseteq> set tiered"
  by (auto simp: tier_group_def)

lemma pass1_tiers_subset:
  "set (selected (pass1_tiers max_files max_bytes tiered ts st)) \<subseteq> set (selected st) \<union> set tiered"
  unfolding pass1_tiers_def
proof (induction ts arbitrary: st)
  case Nil
  show ?case by simp
next
  case (Cons t ts)
  show ?case
    using Cons.IH [of "pass1_group max_files max_bytes (tier_size_cap_of max_bytes)
                         (TIER_FILE_CAPS t) (tier_group tiered t) 0 0 st"]
      pass1_group_subset [of max_files max_bytes "tier_size_cap_of max_bytes"
                         "TIER_FILE_CAPS t" "tier_group tiered t" 0 0 st]
      tier_group_subset [of tiered t]
    by auto
qed

lemma pass1_subset: "set (selected (pass1 max_files max_bytes tiered)) \<subseteq> set tiered"
  using pass1_tiers_subset [of max_files max_bytes tiered "[1..7]" "\<lparr>selected = [], total_size = 0\<rparr>"]
  by (simp add: pass1_def)

lemma pass2_subset:
  "set (selected (pass2 max_files max_bytes tiered st)) \<subseteq> set (selected st) \<union> set tiered"
  using pass2_loop_subset [of max_files max_bytes
     "sort_key emission_key (filter (\<lambda>x. fpath (fst x) \<notin> set (map (\<lambda>x. fpath (fst x)) (selected st))) tiered)" st]
  by (auto simp: pass2_def Let_def)

lemma of_tier_append [simp]: "of_tier t (xs @ ys) = of_tier t xs @ of_tier t ys"
  by (simp add: of_tier_def)

lemma of_tier_Nil [simp]: "of_tier t [] = []"
  by (simp add: of_tier_def)

lemma of_tier_single: "of_tier t [x] = (if snd x = t then [x] else [])"
  by (simp add: of_tier_def)

text \<open>What the inner loop of pass 1 adds are files of the group.\<close>

lemma pass1_group_extends:
  "\<exists>ys. selected (pass1_group max_files max_bytes tcap fcap grp tc tsz st) = selected st @ ys
        \<and> set ys \<subseteq> set grp"
proof (induction grp arbitrary: tc tsz st)
  case Nil
  show ?case by simp
next
  case (Cons x grp)
  let ?st' = "\<lparr>selected = selected st @ [x], total_size = total_size st + int (st_size (fst x))\<rparr>"
  obtain ys where ys: "selected (pass1_group max_files max_bytes tcap fcap grp tc tsz st)
       = selected st @ ys" "set ys \<subseteq> set grp"
    using Cons.IH [of tc tsz st] by blast
  obtain zs where zs: "selected (pass1_group max_files max_bytes tcap fcap grp (tc + 1)
       (tsz + int (st_size (fst x))) ?st') = selected ?st' @ zs" "set zs \<subseteq> set grp"
    using Cons.IH [of "tc + 1" "tsz + int (st_size (fst x))" ?st'] by blast
  have a: "\<exists>ws. selected st @ ys = selected st @ ws \<and> set ws \<subseteq> set (x # grp)"
    using ys(2) by auto
  have b: "\<exists>ws. selected ?st' @ zs = selected st @ ws \<and> set ws \<subseteq> set (x # grp)"
    using zs(2) by (intro exI [of _ "x # zs"]) auto
  have c: "\<exists>ws. selected st = selected st @ ws \<and> set ws \<subseteq> set (x # grp)"
    by (intro exI [of _ "[]"]) simp
  show ?case
    using a b c ys(1) zs(1) by (simp add: Let_def)
qed

lemma pass1_group_tier_caps:
  assumes "\<forall>x \<in> set grp. snd x = t"
    and "int (length (of_tier t (selected st))) = tc"
    and "bytes_of (of_tier t (selected st)) = tsz"
    and "tc \<le> fcap" and "tsz \<le> tcap"
  shows "int (length (of_tier t (selected (pass1_group max_files max_bytes tcap fcap grp tc tsz st)))) \<le> fcap
       \<and> bytes_of (of_tier t (selected (pass1_group max_files max_bytes tcap fcap grp tc tsz st))) \<le> tcap"
  using assms
proof (induction grp arbitrary: tc tsz st)
  case Nil
  then show ?case by simp
next
  case (Cons x grp)
  let ?st' = "\<lparr>selected = selected st @ [x], total_size = total_size st + int (st_size (fst x))\<rparr>"
  have t: "snd x = t" and rest: "\<forall>x \<in> set grp. snd x = t"
    using Cons.prems(1) by simp_all
  have skip: "int (length (of_tier t (selected (pass1_group max_files max_bytes tcap fcap grp tc tsz st)))) \<le> fcap
       \<and> bytes_of (of_tier t (selected (pass1_group max_files max_bytes tcap fcap grp tc tsz st))) \<le> tcap"
    using Cons.IH [OF rest Cons.prems(2) Cons.prems(3) Cons.prems(4) Cons.prems(5)] .
  have add: "\<not> fcap \<le> tc \<Longrightarrow> \<not> tcap < tsz + int (st_size (fst x)) \<Longrightarrow>
       int (length (of_tier t (selected (pass1_group max_files max_bytes tcap fcap grp (tc + 1) (tsz + int (st_size (fst x))) ?st')))) \<le> fcap
       \<and> bytes_of (of_tier t (selected (pass1_group max_files max_bytes tcap fcap grp (tc + 1) (tsz + int (st_size (fst x))) ?st'))) \<le> tcap"
  proof -
    assume a: "\<not> fcap \<le> tc" "\<not> tcap < tsz + int (st_size (fst x))"
    have 1: "int (length (of_tier t (selected ?st'))) = tc + 1"
      using Cons.prems(2) t by (simp add: of_tier_single)
    have 2: "bytes_of (of_tier t (selected ?st')) = tsz + int (st_size (fst x))"
      using Cons.prems(3) t by (simp add: of_tier_single)
    show ?thesis
      using Cons.IH [OF rest 1 2] a by simp
  qed
  have stop: "int (length (of_tier t (selected st))) \<le> fcap \<and> bytes_of (of_tier t (selected st)) \<le> tcap"
    using Cons.prems by simp
  show ?case
    using skip add stop by (simp add: Let_def)
qed

lemma pass1_group_other_tier:
  assumes "\<forall>x \<in> set grp. snd x = t" and "t' \<noteq> t"
  shows "of_tier t' (selected (pass1_group max_files max_bytes tcap fcap grp tc tsz st))
       = of_tier t' (selected st)"
proof -
  obtain ys where ys: "selected (pass1_group max_files max_bytes tcap fcap grp tc tsz st)
       = selected st @ ys" "set ys \<subseteq> set grp"
    using pass1_group_extends by blast
  have "of_tier t' ys = []"
    using ys(2) assms by (auto simp: of_tier_def filter_empty_conv)
  then show ?thesis by (simp add: ys(1))
qed

lemma tier_group_tier: "\<forall>x \<in> set (tier_group tiered t). snd x = t"
  by (simp add: tier_group_def)

lemma TIER_FILE_CAPS_nonneg: "0 \<le> TIER_FILE_CAPS t"
  by (simp add: TIER_FILE_CAPS_def)

lemma tier_size_cap_nonneg: "0 \<le> max_bytes \<Longrightarrow> 0 \<le> tier_size_cap_of max_bytes"
  by (simp add: tier_size_cap_of_def)

lemma pass1_tiers_tier_caps:
  assumes "0 \<le> max_bytes"
  shows "distinct ts \<Longrightarrow> \<forall>t \<in> set ts. of_tier t (selected st) = [] \<Longrightarrow>
         tier_caps_ok max_bytes st \<Longrightarrow>
         tier_caps_ok max_bytes (pass1_tiers max_files max_bytes tiered ts st)"
  unfolding pass1_tiers_def
proof (induction ts arbitrary: st)
  case Nil
  then show ?case by simp
next
  case (Cons t ts)
  let ?st' = "pass1_group max_files max_bytes (tier_size_cap_of max_bytes)
                (TIER_FILE_CAPS t) (tier_group tiered t) 0 0 st"
  have empty: "of_tier t (selected st) = []" using Cons.prems(2) by simp
  have capt: "int (length (of_tier t (selected ?st'))) \<le> TIER_FILE_CAPS t \<and>
              bytes_of (of_tier t (selected ?st')) \<le> tier_size_cap_of max_bytes"
    by (rule pass1_group_tier_caps [OF tier_group_tier])
       (simp_all add: empty TIER_FILE_CAPS_nonneg tier_size_cap_nonneg [OF assms])
  have other: "\<And>t'. t' \<noteq> t \<Longrightarrow> of_tier t' (selected ?st') = of_tier t' (selected st)"
    by (rule pass1_group_other_tier [OF tier_group_tier])
  have ok: "tier_caps_ok max_bytes ?st'"
    unfolding tier_caps_ok_def
  proof
    fix t'
    show "int (length (of_tier t' (selected ?st'))) \<le> TIER_FILE_CAPS t' \<and>
          bytes_of (of_tier t' (selected ?st')) \<le> tier_size_cap_of max_bytes"
    proof (cases "t' = t")
      case True
      then show ?thesis using capt by simp
    next
      case False
      then show ?thesis using other [OF False] Cons.prems(3) by (simp add: tier_caps_ok_def)
    qed
  qed
  have still: "\<forall>t' \<in> set ts. of_tier t' (selected ?st') = []"
  proof
    fix t' assume m: "t' \<in> set ts"
    then have "t' \<noteq> t" using Cons.prems(1) by auto
    then show "of_tier t' (selected ?st') = []"
      using other Cons.prems(2) m by simp
  qed
  have d: "distinct ts" using Cons.prems(1) by simp
  show ?case
    using Cons.IH [OF d still ok] by simp
qed

lemma pass1_tier_caps:
  "0 \<le> max_bytes \<Longrightarrow> tier_caps_ok max_bytes (pass1 max_files max_bytes tiered)"
  unfolding pass1_def
  by (rule pass1_tiers_tier_caps)
     (simp_all add: tier_caps_ok_def TIER_FILE_CAPS_nonneg tier_size_cap_nonneg upto.simps)

text \<open>Once a budget is used up, the rest of pass 1 changes nothing.\<close>

lemma pass1_group_files_exhausted:
  "max_files \<le> int (length (selected st)) \<Longrightarrow>
     pass1_group max_files max_bytes tcap fcap grp tc tsz st = st"
  by (cases grp) simp_all

lemma pass1_group_bytes_exhausted:
  "max_bytes \<le> total_size st \<Longrightarrow> \<forall>x \<in> set grp. 0 < st_size (fst x) \<Longrightarrow>
     pass1_group max_files max_bytes tcap fcap grp tc tsz st = st"
  by (induction grp) (simp_all add: Let_def)

lemma pass1_tiers_files_exhausted:
  "max_files \<le> int (length (selected st)) \<Longrightarrow>
     pass1_tiers max_files max_bytes tiered ts st = st"
  unfolding pass1_tiers_def
  by (induction ts) (simp_all add: pass1_group_files_exhausted)

lemma pass1_tiers_bytes_exhausted:
  "max_bytes \<le> total_size st \<Longrightarrow> \<forall>x \<in> set tiered. 0 < st_size (fst x) \<Longrightarrow>
     pass1_tiers max_files max_bytes tiered ts st = st"
  unfolding pass1_tiers_def
proof (induction ts)
  case Nil
  show ?case by simp
next
  case (Cons t ts)
  have "\<forall>x \<in> set (tier_group tiered t). 0 < st_size (fst x)"
    using Cons.prems(2) tier_group_subset [of tiered t] by blast
  then show ?case
    using Cons by (simp add: pass1_group_bytes_exhausted)
qed

lemma sorted_map_const: "\<forall>x \<in> set ys. k x = c \<Longrightarrow> sorted (map k ys)"
  by (induction ys) auto

lemma pass1_tiers_ascending:
  "sorted ts \<Longrightarrow> sorted (map snd (selected st)) \<Longrightarrow>
   \<forall>x \<in> set (selected st). \<forall>t \<in> set ts. snd x \<le> t \<Longrightarrow>
   sorted (map snd (selected (pass1_tiers max_files max_bytes tiered ts st)))"
  unfolding pass1_tiers_def
proof (induction ts arbitrary: st)
  case Nil
  then show ?case by simp
next
  case (Cons t ts)
  let ?st' = "pass1_group max_files max_bytes (tier_size_cap_of max_bytes)
                (TIER_FILE_CAPS t) (tier_group tiered t) 0 0 st"
  obtain ys where ys: "selected ?st' = selected st @ ys" "set ys \<subseteq> set (tier_group tiered t)"
    using pass1_group_extends by blast
  have yt: "\<forall>x \<in> set ys. snd x = t"
    using ys(2) tier_group_tier [of tiered t] by blast
  have s1: "sorted (map snd (selected ?st'))"
    using Cons.prems(2,3) yt sorted_map_const [OF yt]
    by (simp add: ys(1) sorted_append)
  have s2: "\<forall>x \<in> set (selected ?st'). \<forall>t' \<in> set ts. snd x \<le> t'"
    using Cons.prems(1,3) yt by (auto simp: ys(1))
  have s0: "sorted ts" using Cons.prems(1) by simp
  show ?case
    using Cons.IH [OF s0 s1 s2] by simp
qed

lemma pass1_ascending: "sorted (map snd (selected (pass1 max_files max_bytes tiered)))"
  unfolding pass1_def
  by (rule pass1_tiers_ascending) simp_all

lemma sorted_emission_key:
  "sorted (map emission_key xs) \<Longrightarrow> sorted_wrt emission_order xs"
  by (induction xs) (auto simp: emission_key_def emission_order_def less_eq_prod_def)

lemma scan_emit:
  fixes project_path :: path and all_files :: "file_entry list"
    and max_files max_size_kb min_file_bytes max_file_kb :: int
  assumes "0 \<le> max_files" and "0 \<le> max_size_kb"
  defines "r \<equiv> get_source_files_content project_path all_files max_files max_size_kb
                  min_file_bytes max_file_kb"
  shows "int (length (sr_files r)) \<le> max_files"
    and "sr_file_count r = int (length (sr_files r))"
    and "bytes_of (sr_files r) \<le> max_size_kb * 1024"
    and "sr_actual_size r = bytes_of (sr_files r)"
    and "sorted_wrt emission_order (sr_files r)"
    and "\<forall>x \<in> set (sr_files r). snd x = get_file_tier (fpath (fst x)) project_path"
proof -
  let ?mb = "max_size_kb * 1024"
  let ?tiered = "sized_tiered project_path all_files min_file_bytes max_file_kb"
  let ?st2 = "pass2 max_files ?mb ?tiered (pass1 max_files ?mb ?tiered)"
  let ?init = "\<lparr>emitted = [], file_count = 0, actual_size = 0\<rparr>"
  let ?e = "emit_loop max_files ?mb (sort_key emission_key (selected ?st2)) ?init"
  have mb: "0 \<le> ?mb" using assms(2) by simp
  have ok: "emit_ok max_files ?mb ?e"
    by (rule emit_loop_ok) (simp add: emit_ok_def assms(1) mb)
  have srt: "sorted (map emission_key (emitted ?e))"
    by (rule emit_loop_sorted) simp
  have sub: "set (emitted ?e) \<subseteq> set ?tiered"
    using emit_loop_subset [of max_files ?mb "sort_key emission_key (selected ?st2)" ?init]
      pass2_subset [of max_files ?mb ?tiered "pass1 max_files ?mb ?tiered"]
      pass1_subset [of max_files ?mb ?tiered]
    by auto
  have tiers: "\<forall>x \<in> set (emitted ?e). snd x = get_file_tier (fpath (fst x)) project_path"
    using sub by (auto simp: sized_tiered_def)
  have r: "r = (if file_count ?e = 0
               then \<lparr>sr_files = [], sr_file_count = 0, sr_actual_size = 0,
                     sr_total_eligible = int (length all_files)\<rparr>
               else \<lparr>sr_files = emitted ?e, sr_file_count = file_count ?e,
                     sr_actual_size = actual_size ?e,
                     sr_total_eligible = int (length all_files)\<rparr>)"
    unfolding r_def get_source_files_content_def sized_tiered_def Let_def ..
  show "int (length (sr_files r)) \<le> max_files"
    using ok assms(1) by (simp add: r emit_ok_def)
  show "sr_file_count r = int (length (sr_files r))"
    using ok by (simp add: r emit_ok_def)
  show "bytes_of (sr_files r) \<le> max_size_kb * 1024"
    using ok mb by (simp add: r emit_ok_def)
  show "sr_actual_size r = bytes_of (sr_files r)"
    using ok by (simp add: r emit_ok_def)
  show "sorted_wrt emission_order (sr_files r)"
    using sorted_emission_key [OF srt] by (simp add: r)
  show "\<forall>x \<in> set (sr_files r). snd x = get_file_tier (fpath (fst x)) project_path"
    using tiers by (simp add: r)
qed

lemma sized_tiered_positive:
  "0 < min_file_bytes \<Longrightarrow>
     \<forall>x \<in> set (sized_tiered project_path all_files min_file_bytes max_file_kb).
        0 < st_size (fst x)"
  by (auto simp: sized_tiered_def)

lemma get_file_tier_range:
  "1 \<le> get_file_tier p root \<and> get_file_tier p root \<le> 7"
  unfolding get_file_tier_def Let_def by simp

lemma bytes_of_nonneg: "0 \<le> bytes_of xs"
  by (induction xs) (simp_all add: bytes_of_def)

text \<open>A file of the group that the inner loop of pass 1 leaves out stays blocked: the
  counts and sums it failed against only grow.\<close>

lemma pass1_group_blocked:
  assumes "\<forall>x \<in> set grp. snd x = t"
    and "int (length (of_tier t (selected st))) = tc"
    and "bytes_of (of_tier t (selected st)) = tsz"
    and "total_size st = bytes_of (selected st)"
  shows "\<forall>x \<in> set grp.
           x \<in> set (selected (pass1_group max_files max_bytes tcap fcap grp tc tsz st)) \<or>
           fcap \<le> int (length (of_tier t
                      (selected (pass1_group max_files max_bytes tcap fcap grp tc tsz st)))) \<or>
           max_files \<le> int (length
                      (selected (pass1_group max_files max_bytes tcap fcap grp tc tsz st))) \<or>
           max_bytes < bytes_of
                      (selected (pass1_group max_files max_bytes tcap fcap grp tc tsz st))
                      + int (st_size (fst x)) \<or>
           tcap < bytes_of (of_tier t
                      (selected (pass1_group max_files max_bytes tcap fcap grp tc tsz st)))
                      + int (st_size (fst x))"
  using assms
proof (induction grp arbitrary: tc tsz st)
  case Nil
  show ?case by simp
next
  case (Cons x grp)
  let ?st' = "\<lparr>selected = selected st @ [x], total_size = total_size st + int (st_size (fst x))\<rparr>"
  let ?skip = "pass1_group max_files max_bytes tcap fcap grp tc tsz st"
  let ?add = "pass1_group max_files max_bytes tcap fcap grp (tc + 1) (tsz + int (st_size (fst x))) ?st'"
  have t: "snd x = t" and rest: "\<forall>x \<in> set grp. snd x = t"
    using Cons.prems(1) by simp_all
  obtain ys where ys: "selected ?skip = selected st @ ys"
    using pass1_group_extends [of max_files max_bytes tcap fcap grp tc tsz st] by blast
  obtain zs where zs: "selected ?add = selected ?st' @ zs"
    using pass1_group_extends [of max_files max_bytes tcap fcap grp "tc + 1"
        "tsz + int (st_size (fst x))" ?st'] by blast
  have ih_skip: "\<forall>y \<in> set grp.
           y \<in> set (selected ?skip) \<or>
           fcap \<le> int (length (of_tier t (selected ?skip))) \<or>
           max_files \<le> int (length (selected ?skip)) \<or>
           max_bytes < bytes_of (selected ?skip) + int (st_size (fst y)) \<or>
           tcap < bytes_of (of_tier t (selected ?skip)) + int (st_size (fst y))"
    using Cons.IH [OF rest Cons.prems(2) Cons.prems(3) Cons.prems(4)] .
  have 1: "int (length (of_tier t (selected ?st'))) = tc + 1"
    using Cons.prems(2) t by (simp add: of_tier_single)
  have 2: "bytes_of (of_tier t (selected ?st')) = tsz + int (st_size (fst x))"
    using Cons.prems(3) t by (simp add: of_tier_single)
  have 3: "total_size ?st' = bytes_of (selected ?st')"
    using Cons.prems(4) by simp
  have ih_add: "\<forall>y \<in> set grp.
           y \<in> set (selected ?add) \<or>
           fcap \<le> int (length (of_tier t (selected ?add))) \<or>
           max_files \<le> int (length (selected ?add)) \<or>
           max_bytes < bytes_of (selected ?add) + int (st_size (fst y)) \<or>
           tcap < bytes_of (of_tier t (selected ?add)) + int (st_size (fst y))"
    using Cons.IH [OF rest 1 2 3] .
  have grow1: "bytes_of (selected st) \<le> bytes_of (selected ?skip)"
    using bytes_of_nonneg [of ys] by (simp add: ys)
  have grow2: "bytes_of (of_tier t (selected st)) \<le> bytes_of (of_tier t (selected ?skip))"
    using bytes_of_nonneg [of "of_tier t ys"] by (simp add: ys)
  have head_add: "x \<in> set (selected ?add)"
    by (simp add: zs)
  show ?case
  proof (cases "fcap \<le> tc")
    case True
    then show ?thesis using Cons.prems(2) by simp
  next
    case c1: False
    show ?thesis
    proof (cases "max_files \<le> int (length (selected st))")
      case True
      then show ?thesis using c1 by simp
    next
      case c2: False
      show ?thesis
      proof (cases "max_bytes < total_size st + int (st_size (fst x))")
        case True
        then have "max_bytes < bytes_of (selected ?skip) + int (st_size (fst x))"
          using grow1 Cons.prems(4) by simp
        then show ?thesis using c1 c2 True ih_skip by (simp add: Let_def)
      next
        case c3: False
        show ?thesis
        proof (cases "tcap < tsz + int (st_size (fst x))")
          case True
          then have "tcap < bytes_of (of_tier t (selected ?skip)) + int (st_size (fst x))"
            using grow2 Cons.prems(3) by simp
          then show ?thesis using c1 c2 c3 True ih_skip by (simp add: Let_def)
        next
          case c4: False
          show ?thesis using c1 c2 c3 c4 ih_add head_add by (simp add: Let_def)
        qed
      qed
    qed
  qed
qed

lemma pass1_group_total:
  "total_size st = bytes_of (selected st) \<Longrightarrow>
     total_size (pass1_group max_files max_bytes tcap fcap grp tc tsz st) =
       bytes_of (selected (pass1_group max_files max_bytes tcap fcap grp tc tsz st))"
proof (induction grp arbitrary: tc tsz st)
  case Nil
  then show ?case by simp
next
  case (Cons x grp)
  let ?st' = "\<lparr>selected = selected st @ [x], total_size = total_size st + int (st_size (fst x))\<rparr>"
  have 3: "total_size ?st' = bytes_of (selected ?st')"
    using Cons.prems by simp
  show ?case
    using Cons.prems Cons.IH [of st tc tsz] Cons.IH [OF 3, of "tc + 1" "tsz + int (st_size (fst x))"]
    by (simp add: Let_def)
qed

lemma pass1_tiers_extends:
  "\<exists>ys. selected (pass1_tiers max_files max_bytes tiered ts st) = selected st @ ys \<and>
        (\<forall>y \<in> set ys. snd y \<in> set ts)"
  unfolding pass1_tiers_def
proof (induction ts arbitrary: st)
  case Nil
  show ?case by simp
next
  case (Cons t ts)
  let ?st' = "pass1_group max_files max_bytes (tier_size_cap_of max_bytes)
                (TIER_FILE_CAPS t) (tier_group tiered t) 0 0 st"
  obtain ys where ys: "selected ?st' = selected st @ ys" "set ys \<subseteq> set (tier_group tiered t)"
    using pass1_group_extends by blast
  have yt: "\<forall>x \<in> set ys. snd x = t"
    using ys(2) tier_group_tier [of tiered t] by blast
  obtain zs where zs: "selected (fold (\<lambda>t s. pass1_group max_files max_bytes
        (tier_size_cap_of max_bytes) (TIER_FILE_CAPS t) (tier_group tiered t) 0 0 s) ts ?st')
        = selected ?st' @ zs" "\<forall>y \<in> set zs. snd y \<in> set ts"
    using Cons.IH [of ?st'] by blast
  show ?case
    using ys(1) zs yt by (intro exI [of _ "ys @ zs"]) auto
qed

text \<open>Pass 1 fills each tier: a file of a walked tier that it leaves out is blocked by a
  cap or a budget in the state it ends in.\<close>

lemma pass1_tiers_blocked:
  assumes "distinct ts"
    and "\<forall>t \<in> set ts. of_tier t (selected st) = []"
    and "total_size st = bytes_of (selected st)"
    and "x \<in> set tiered" and "snd x \<in> set ts"
  shows "x \<in> set (selected (pass1_tiers max_files max_bytes tiered ts st)) \<or>
         TIER_FILE_CAPS (snd x) \<le> int (length (of_tier (snd x)
            (selected (pass1_tiers max_files max_bytes tiered ts st)))) \<or>
         max_files \<le> int (length (selected (pass1_tiers max_files max_bytes tiered ts st))) \<or>
         max_bytes < bytes_of (selected (pass1_tiers max_files max_bytes tiered ts st))
            + int (st_size (fst x)) \<or>
         tier_size_cap_of max_bytes < bytes_of (of_tier (snd x)
            (selected (pass1_tiers max_files max_bytes tiered ts st))) + int (st_size (fst x))"
  using assms(1,2,3,5)
proof (induction ts arbitrary: st)
  case Nil
  then show ?case by simp
next
  case (Cons t ts)
  let ?st' = "pass1_group max_files max_bytes (tier_size_cap_of max_bytes)
                (TIER_FILE_CAPS t) (tier_group tiered t) 0 0 st"
  let ?fin = "pass1_tiers max_files max_bytes tiered ts ?st'"
  have unfold: "pass1_tiers max_files max_bytes tiered (t # ts) st = ?fin"
    by (simp add: pass1_tiers_def)
  have other: "\<And>t'. t' \<noteq> t \<Longrightarrow> of_tier t' (selected ?st') = of_tier t' (selected st)"
    by (rule pass1_group_other_tier [OF tier_group_tier])
  have still: "\<forall>t' \<in> set ts. of_tier t' (selected ?st') = []"
  proof
    fix t' assume m: "t' \<in> set ts"
    then have "t' \<noteq> t" using Cons.prems(1) by auto
    then show "of_tier t' (selected ?st') = []"
      using other Cons.prems(2) m by simp
  qed
  have d: "distinct ts" using Cons.prems(1) by simp
  have tot: "total_size ?st' = bytes_of (selected ?st')"
    by (rule pass1_group_total [OF Cons.prems(3)])
  show ?case
  proof (cases "snd x = t")
    case False
    then have "snd x \<in> set ts" using Cons.prems(4) by simp
    then show ?thesis
      unfolding unfold using Cons.IH [OF d still tot] by blast
  next
    case True
    have xin: "x \<in> set (tier_group tiered t)"
      using assms(4) True by (simp add: tier_group_def)
    have e: "of_tier t (selected st) = []" using Cons.prems(2) by simp
    have b: "x \<in> set (selected ?st') \<or>
           TIER_FILE_CAPS t \<le> int (length (of_tier t (selected ?st'))) \<or>
           max_files \<le> int (length (selected ?st')) \<or>
           max_bytes < bytes_of (selected ?st') + int (st_size (fst x)) \<or>
           tier_size_cap_of max_bytes < bytes_of (of_tier t (selected ?st')) + int (st_size (fst x))"
    proof -
      have h2: "int (length (of_tier t (selected st))) = 0" by (simp add: e)
      have h3: "bytes_of (of_tier t (selected st)) = 0" by (simp add: e)
      show ?thesis
        using pass1_group_blocked [OF tier_group_tier h2 h3 Cons.prems(3)] xin by blast
    qed
    obtain zs where zs: "selected ?fin = selected ?st' @ zs" "\<forall>y \<in> set zs. snd y \<in> set ts"
      using pass1_tiers_extends [of max_files max_bytes tiered ts ?st'] by blast
    have tn: "t \<notin> set ts" using Cons.prems(1) by simp
    have same: "of_tier t (selected ?fin) = of_tier t (selected ?st')"
      using zs(2) tn by (auto simp: zs(1) of_tier_def filter_empty_conv)
    have grow: "bytes_of (selected ?st') \<le> bytes_of (selected ?fin)"
      using bytes_of_nonneg [of zs] by (simp add: zs(1))
    have len: "length (selected ?st') \<le> length (selected ?fin)"
      by (simp add: zs(1))
    have mem: "x \<in> set (selected ?st') \<Longrightarrow> x \<in> set (selected ?fin)"
      by (simp add: zs(1))
    show ?thesis
      unfolding unfold True same using b grow len mem by linarith
  qed
qed

lemma tier_size_cap_of_tenths:
  "0 \<le> max_bytes \<Longrightarrow> (b \<le> tier_size_cap_of max_bytes) = (10 * b \<le> 3 * max_bytes)"
  unfolding tier_size_cap_of_def by auto

lemma pass1_blocked:
  assumes "0 \<le> max_bytes" and "x \<in> set tiered" and "1 \<le> snd x" and "snd x \<le> 7"
  shows "x \<in> set (selected (pass1 max_files max_bytes tiered)) \<or>
         TIER_FILE_CAPS (snd x) \<le> int (length (of_tier (snd x)
            (selected (pass1 max_files max_bytes tiered)))) \<or>
         max_files \<le> int (length (selected (pass1 max_files max_bytes tiered))) \<or>
         max_bytes < bytes_of (selected (pass1 max_files max_bytes tiered))
            + int (st_size (fst x)) \<or>
         3 * max_bytes < 10 * (bytes_of (of_tier (snd x)
            (selected (pass1 max_files max_bytes tiered))) + int (st_size (fst x)))"
proof -
  have m: "snd x \<in> set [1..7]" using assms(3,4) by simp
  have d: "distinct [1..7]" by simp
  show ?thesis
    using pass1_tiers_blocked [OF d _ _ assms(2) m, of "\<lparr>selected = [], total_size = 0\<rparr>"
        max_files max_bytes]
      tier_size_cap_of_tenths [OF assms(1)]
    unfolding pass1_def
    by (simp add: not_le [symmetric] del: not_le)
qed

text \<open>Once the byte budget is used up, pass 1 adds empty files only.\<close>

lemma pass1_group_bytes_used_up:
  "max_bytes \<le> total_size st \<Longrightarrow>
     \<exists>ys. selected (pass1_group max_files max_bytes tcap fcap grp tc tsz st) = selected st @ ys \<and>
          (\<forall>y \<in> set ys. st_size (fst y) = 0) \<and>
          total_size (pass1_group max_files max_bytes tcap fcap grp tc tsz st) = total_size st"
proof (induction grp arbitrary: tc tsz st)
  case Nil
  show ?case by simp
next
  case (Cons x grp)
  let ?st' = "\<lparr>selected = selected st @ [x], total_size = total_size st + int (st_size (fst x))\<rparr>"
  obtain ys where ys: "selected (pass1_group max_files max_bytes tcap fcap grp tc tsz st)
       = selected st @ ys" "\<forall>y \<in> set ys. st_size (fst y) = 0"
       "total_size (pass1_group max_files max_bytes tcap fcap grp tc tsz st) = total_size st"
    using Cons.IH [OF Cons.prems, of tc tsz] by blast
  have a: "\<exists>ws. selected st @ ys = selected st @ ws \<and> (\<forall>y \<in> set ws. st_size (fst y) = 0)"
    using ys(2) by auto
  have c: "\<exists>ws. selected st = selected st @ ws \<and> (\<forall>y \<in> set ws. st_size (fst y) = 0)"
    by (intro exI [of _ "[]"]) simp
  show ?case
  proof (cases "st_size (fst x) = 0")
    case False
    then have "max_bytes < total_size st + int (st_size (fst x))"
      using Cons.prems by simp
    then show ?thesis using a c ys by (simp add: Let_def)
  next
    case True
    have p: "max_bytes \<le> total_size ?st'" using Cons.prems by simp
    obtain zs where zs: "selected (pass1_group max_files max_bytes tcap fcap grp (tc + 1)
         (tsz + int (st_size (fst x))) ?st') = selected ?st' @ zs"
         "\<forall>y \<in> set zs. st_size (fst y) = 0"
         "total_size (pass1_group max_files max_bytes tcap fcap grp (tc + 1)
            (tsz + int (st_size (fst x))) ?st') = total_size ?st'"
      using Cons.IH [OF p, of "tc + 1" "tsz + int (st_size (fst x))"] by blast
    have b: "\<exists>ws. selected ?st' @ zs = selected st @ ws \<and> (\<forall>y \<in> set ws. st_size (fst y) = 0)"
      using zs(2) True by (intro exI [of _ "x # zs"]) auto
    show ?thesis
      using a b c ys zs True by (simp add: Let_def)
  qed
qed

lemma pass1_tiers_bytes_used_up:
  "max_bytes \<le> total_size st \<Longrightarrow>
     \<exists>ys. selected (pass1_tiers max_files max_bytes tiered ts st) = selected st @ ys \<and>
          (\<forall>y \<in> set ys. st_size (fst y) = 0) \<and>
          total_size (pass1_tiers max_files max_bytes tiered ts st) = total_size st"
proof (induction ts arbitrary: st)
  case Nil
  show ?case by (simp add: pass1_tiers_def)
next
  case (Cons t ts)
  let ?st' = "pass1_group max_files max_bytes (tier_size_cap_of max_bytes)
                (TIER_FILE_CAPS t) (tier_group tiered t) 0 0 st"
  have unfold: "pass1_tiers max_files max_bytes tiered (t # ts) st =
      pass1_tiers max_files max_bytes tiered ts ?st'"
    by (simp add: pass1_tiers_def)
  obtain ys where ys: "selected ?st' = selected st @ ys" "\<forall>y \<in> set ys. st_size (fst y) = 0"
      "total_size ?st' = total_size st"
    using pass1_group_bytes_used_up [OF Cons.prems] by blast
  have p: "max_bytes \<le> total_size ?st'" using Cons.prems ys(3) by simp
  obtain zs where zs: "selected (pass1_tiers max_files max_bytes tiered ts ?st') = selected ?st' @ zs"
      "\<forall>y \<in> set zs. st_size (fst y) = 0"
      "total_size (pass1_tiers max_files max_bytes tiered ts ?st') = total_size ?st'"
    using Cons.IH [OF p] by blast
  show ?case
    unfolding unfold using ys zs by (intro exI [of _ "ys @ zs"]) auto
qed

text \<open>
  Claim C8, as amended. For every list of eligible files and non-negative \<open>max_files\<close> and
  \<open>max_size_kb\<close>, the scan emits at most \<open>max_files\<close> files whose summed sizes do not
  exceed \<open>max_size_kb * 1024\<close> bytes, in the order tier ascending, then size descending,
  each with the tier \<open>get_file_tier\<close> gives it. Pass 1 selects files of the size band in
  ascending tier order, in each tier at most the tier's file cap (15, 15, 8, 10, 8, 10 and
  5 for the tiers 1 to 7) and at most 30% of the byte budget, within the two overall
  budgets, and it fills the tiers: a file it leaves out has its tier's file cap reached, or
  the overall file count reached, or would take the selection over the byte budget or its
  tier over 30% of it. From a state whose file count has reached \<open>max_files\<close> pass 1
  selects nothing more, whatever tiers remain. From a state whose bytes have reached the
  budget it selects no further file of positive size; empty files, which the size band
  admits only when \<open>min_file_bytes\<close> is not positive, are still selected.
\<close>

theorem two_pass_selection_within_budget:
  assumes "0 \<le> max_files" and "0 \<le> max_size_kb"
  shows "let r = get_source_files_content project_path all_files max_files max_size_kb
                   min_file_bytes max_file_kb;
             max_bytes = max_size_kb * 1024;
             tiered = sized_tiered project_path all_files min_file_bytes max_file_kb;
             p1 = selected (pass1 max_files max_bytes tiered)
         in int (length (sr_files r)) \<le> max_files \<and>
            sr_file_count r = int (length (sr_files r)) \<and>
            bytes_of (sr_files r) \<le> max_bytes \<and>
            sr_actual_size r = bytes_of (sr_files r) \<and>
            sorted_wrt emission_order (sr_files r) \<and>
            (\<forall>x \<in> set (sr_files r). snd x = get_file_tier (fpath (fst x)) project_path) \<and>
            sorted (map snd p1) \<and>
            map TIER_FILE_CAPS [1, 2, 3, 4, 5, 6, 7] = [15, 15, 8, 10, 8, 10, 5] \<and>
            (\<forall>t. int (length (of_tier t p1)) \<le> TIER_FILE_CAPS t \<and>
                 10 * bytes_of (of_tier t p1) \<le> 3 * max_bytes) \<and>
            int (length p1) \<le> max_files \<and> bytes_of p1 \<le> max_bytes \<and>
            set p1 \<subseteq> set tiered \<and>
            (\<forall>x \<in> set tiered.
               x \<in> set p1 \<or>
               TIER_FILE_CAPS (snd x) \<le> int (length (of_tier (snd x) p1)) \<or>
               max_files \<le> int (length p1) \<or>
               max_bytes < bytes_of p1 + int (st_size (fst x)) \<or>
               3 * max_bytes < 10 * (bytes_of (of_tier (snd x) p1) + int (st_size (fst x)))) \<and>
            (\<forall>ts st. max_files \<le> int (length (selected st)) \<longrightarrow>
                 pass1_tiers max_files max_bytes tiered ts st = st) \<and>
            (\<forall>ts st. max_bytes \<le> total_size st \<longrightarrow>
                 (\<exists>ys. selected (pass1_tiers max_files max_bytes tiered ts st) = selected st @ ys \<and>
                       (\<forall>y \<in> set ys. st_size (fst y) = 0) \<and>
                       total_size (pass1_tiers max_files max_bytes tiered ts st) = total_size st)) \<and>
            (\<forall>ts st. 0 < min_file_bytes \<and> max_bytes \<le> total_size st \<longrightarrow>
                 pass1_tiers max_files max_bytes tiered ts st = st)"
proof -
  let ?mb = "max_size_kb * 1024"
  let ?tiered = "sized_tiered project_path all_files min_file_bytes max_file_kb"
  let ?p1 = "selected (pass1 max_files ?mb ?tiered)"
  have mb: "0 \<le> ?mb" using assms(2) by simp
  have caps: "\<forall>t. int (length (of_tier t ?p1)) \<le> TIER_FILE_CAPS t \<and>
      10 * bytes_of (of_tier t ?p1) \<le> 3 * ?mb"
    using pass1_tier_caps [OF mb, of max_files ?tiered] tier_size_cap_of_tenths [OF mb]
    by (simp add: tier_caps_ok_def)
  have table: "map TIER_FILE_CAPS [1, 2, 3, 4, 5, 6, 7] = [15, 15, 8, 10, 8, 10, 5]"
    by (simp add: TIER_FILE_CAPS_def)
  have budget: "int (length ?p1) \<le> max_files" "bytes_of ?p1 \<le> ?mb"
    using pass1_within_budget [OF assms(1) mb, of ?tiered] by (simp_all add: within_budget_def)
  have sub: "set ?p1 \<subseteq> set ?tiered"
    by (rule pass1_subset)
  have tiers: "\<forall>x \<in> set ?tiered. 1 \<le> snd x \<and> snd x \<le> 7"
    by (simp add: sized_tiered_def get_file_tier_range)
  have filled: "\<forall>x \<in> set ?tiered.
               x \<in> set ?p1 \<or>
               TIER_FILE_CAPS (snd x) \<le> int (length (of_tier (snd x) ?p1)) \<or>
               max_files \<le> int (length ?p1) \<or>
               ?mb < bytes_of ?p1 + int (st_size (fst x)) \<or>
               3 * ?mb < 10 * (bytes_of (of_tier (snd x) ?p1) + int (st_size (fst x)))"
  proof
    fix x assume x: "x \<in> set ?tiered"
    show "x \<in> set ?p1 \<or>
               TIER_FILE_CAPS (snd x) \<le> int (length (of_tier (snd x) ?p1)) \<or>
               max_files \<le> int (length ?p1) \<or>
               ?mb < bytes_of ?p1 + int (st_size (fst x)) \<or>
               3 * ?mb < 10 * (bytes_of (of_tier (snd x) ?p1) + int (st_size (fst x)))"
      using pass1_blocked [OF mb x] tiers x by blast
  qed
  have stop1: "\<forall>ts st. max_files \<le> int (length (selected st)) \<longrightarrow>
      pass1_tiers max_files ?mb ?tiered ts st = st"
    by (simp add: pass1_tiers_files_exhausted)
  have stop2: "\<forall>ts st. ?mb \<le> total_size st \<longrightarrow>
      (\<exists>ys. selected (pass1_tiers max_files ?mb ?tiered ts st) = selected st @ ys \<and>
            (\<forall>y \<in> set ys. st_size (fst y) = 0) \<and>
            total_size (pass1_tiers max_files ?mb ?tiered ts st) = total_size st)"
    using pass1_tiers_bytes_used_up by blast
  have stop3: "\<forall>ts st. 0 < min_file_bytes \<and> ?mb \<le> total_size st \<longrightarrow>
      pass1_tiers max_files ?mb ?tiered ts st = st"
    using pass1_tiers_bytes_exhausted sized_tiered_positive by blast
  have emit: "let r = get_source_files_content project_path all_files max_files max_size_kb
                   min_file_bytes max_file_kb
         in int (length (sr_files r)) \<le> max_files \<and>
            sr_file_count r = int (length (sr_files r)) \<and>
            bytes_of (sr_files r) \<le> ?mb \<and>
            sr_actual_size r = bytes_of (sr_files r) \<and>
            sorted_wrt emission_order (sr_files r) \<and>
            (\<forall>x \<in> set (sr_files r). snd x = get_file_tier (fpath (fst x)) project_path)"
    using scan_emit [OF assms, of project_path all_files min_file_bytes max_file_kb]
    by (simp add: Let_def)
  show ?thesis
    unfolding Let_def
    using emit [unfolded Let_def] pass1_ascending [of max_files ?mb ?tiered] table caps budget
      sub filled stop1 stop2 stop3
    by (intro conjI) blast+
qed

text \<open>The claim as stated fails where the size band admits empty files: the files of
  tiers 1 to 4 use up the byte budget of 1024, and pass 1 still selects the empty file of
  tier 5. It also fails for a negative budget, which the scan cannot stay within: it emits
  no file, and that is more than \<open>max_files = -1\<close> files and more than
  \<open>max_size_kb = -1\<close> allows.\<close>

theorem pass1_selects_after_byte_budget_counterexample:
  "total_size (pass1_tiers 10 (1 * 1024) (sized_tiered [str ''proj''] budget_example 0 50)
      [1, 2, 3, 4] \<lparr>selected = [], total_size = 0\<rparr>) = 1 * 1024 \<and>
   pass1 10 (1 * 1024) (sized_tiered [str ''proj''] budget_example 0 50) =
     pass1_tiers 10 (1 * 1024) (sized_tiered [str ''proj''] budget_example 0 50) [5, 6, 7]
       (pass1_tiers 10 (1 * 1024) (sized_tiered [str ''proj''] budget_example 0 50)
          [1, 2, 3, 4] \<lparr>selected = [], total_size = 0\<rparr>) \<and>
   listing (selected (pass1 10 (1 * 1024) (sized_tiered [str ''proj''] budget_example 0 50))) =
     [([str ''proj'', str ''main.py''], 307, 1),
      ([str ''proj'', str ''src'', str ''services'', str ''x.py''], 307, 2),
      ([str ''proj'', str ''src'', str ''models'', str ''x.py''], 307, 3),
      ([str ''proj'', str ''tests'', str ''test_x.py''], 103, 4),
      ([str ''proj'', str ''docs'', str ''README.md''], 0, 5)] \<and>
   \<not> sr_file_count (get_source_files_content [str ''proj''] budget_example (- 1) 1 50 50)
       \<le> - 1 \<and>
   \<not> sr_actual_size (get_source_files_content [str ''proj''] budget_example 10 (- 1) 50 50)
       \<le> (- 1) * 1024"
  by code_simp

text \<open>With a budget of 3 files and 1 KB, 30% of the budget is 307 bytes: pass 1 takes
  \<open>main.py\<close> and the README and leaves out the 400-byte service file, which alone would
  take tier 2 over 30%; pass 2 adds it.\<close>

lemma scan_example_pass1: "map (\<lambda>x. (fpath (fst x), snd x))
      (selected (pass1 3 (1 * 1024) (sized_tiered [str ''proj''] scan_example 50 50))) =
     [([str ''proj'', str ''main.py''], 1), ([str ''proj'', str ''docs'', str ''README.md''], 5)]"
  by code_simp

lemma scan_example_emitted: "map (\<lambda>x. (fpath (fst x), snd x))
      (sr_files (get_source_files_content [str ''proj''] scan_example 3 1 50 50)) =
     [([str ''proj'', str ''main.py''], 1), ([str ''proj'', str ''src'', str ''services'', str ''x.py''], 2),
      ([str ''proj'', str ''docs'', str ''README.md''], 5)]"
  by code_simp

lemma scan_example_service:
  "(\<lparr>fpath = [str ''proj'', str ''src'', str ''services'', str ''x.py''], st_size = 400, text_of = Some (str ''x = 1'')\<rparr>, 2)
     \<in> set (sized_tiered [str ''proj''] scan_example 50 50)"
  by code_simp

lemma scan_example_pass1_sizes:
  "map (\<lambda>x. st_size (fst x))
      (selected (pass1 3 (1 * 1024) (sized_tiered [str ''proj''] scan_example 50 50))) = [100, 300] \<and>
   of_tier 2 (selected (pass1 3 (1 * 1024) (sized_tiered [str ''proj''] scan_example 50 50))) = []"
  by code_simp

theorem two_pass_selection_within_budget_witness:
  "(0::int) \<le> 3 \<and> (0::int) \<le> 1 \<and>
   (let r = get_source_files_content [str ''proj''] scan_example 3 1 50 50;
        p1 = selected (pass1 3 (1 * 1024) (sized_tiered [str ''proj''] scan_example 50 50));
        service = (\<lparr>fpath = [str ''proj'', str ''src'', str ''services'', str ''x.py''], st_size = 400,
                    text_of = Some (str ''x = 1'')\<rparr>, 2)
    in map (\<lambda>x. (fpath (fst x), snd x)) (sr_files r) =
         [([str ''proj'', str ''main.py''], 1), ([str ''proj'', str ''src'', str ''services'', str ''x.py''], 2),
          ([str ''proj'', str ''docs'', str ''README.md''], 5)] \<and>
       int (length (sr_files r)) \<le> 3 \<and>
       bytes_of (sr_files r) \<le> 1 * 1024 \<and>
       sorted_wrt emission_order (sr_files r) \<and>
       map (\<lambda>x. (fpath (fst x), snd x)) p1 =
         [([str ''proj'', str ''main.py''], 1), ([str ''proj'', str ''docs'', str ''README.md''], 5)] \<and>
       service \<in> set (sized_tiered [str ''proj''] scan_example 50 50) \<and>
       service \<notin> set p1 \<and>
       (\<forall>t. int (length (of_tier t p1)) \<le> TIER_FILE_CAPS t \<and>
            10 * bytes_of (of_tier t p1) \<le> 3 * (1 * 1024)) \<and>
       3 * (1 * 1024) < 10 * (bytes_of (of_tier 2 p1) + 400))"
proof -
  have h1: "(0::int) \<le> 3" and h2: "(0::int) \<le> 1" by simp_all
  let ?p1 = "selected (pass1 3 (1 * 1024) (sized_tiered [str ''proj''] scan_example 50 50))"
  let ?service = "(\<lparr>fpath = [str ''proj'', str ''src'', str ''services'', str ''x.py''], st_size = 400,
                    text_of = Some (str ''x = 1'')\<rparr>, 2::int)"
  have out: "?service \<notin> set ?p1"
  proof
    assume "?service \<in> set ?p1"
    then have "(fpath (fst ?service), snd ?service) \<in> set (map (\<lambda>x. (fpath (fst x), snd x)) ?p1)"
      unfolding set_map by (rule imageI)
    then show False unfolding scan_example_pass1 by simp
  qed
  have far: "3 * (1 * 1024) < 10 * (bytes_of (of_tier 2 ?p1) + 400)"
    using scan_example_pass1_sizes by simp
  show ?thesis
    using scan_example_emitted scan_example_pass1 scan_example_service out far
      two_pass_selection_within_budget [OF h1 h2, of "[str ''proj'']" scan_example 50 50]
    by (simp add: Let_def)
qed
section \<open>Findings parser and summaries: proofs\<close>









text \<open>A line number of 4301 digits is refused.\<close>

lemma int_of_digits_refused: "int_of_digits (replicate 4301 (0x37)) = None"
  by (simp add: int_of_digits_def int_max_str_digits_def)

























section \<open>Validator: degraded runs and repeated runs, proofs\<close>

lemma adjustment_map_Nil: "adjustment_map [] = Map.empty"
  by (simp add: adjustment_map_def)

lemma adjust_one_empty: "adjust_one Map.empty f = Some f"
  by (simp add: adjust_one_def)

lemma map_filter_Some: "List.map_filter Some xs = xs"
  by (induction xs) simp_all

lemma map_filter_adjust_one_empty: "List.map_filter (adjust_one Map.empty) fs = fs"
  using map_filter_Some [of fs] by (simp add: adjust_one_empty [abs_def])

lemma adjust_step_unmatched:
  "amap (get_default (f_id f) []) = None \<Longrightarrow> adjust_step amap f (acc, st) = (acc @ [f], st)"
  by (simp add: adjust_step_def)

lemma fold_adjust_step_empty:
  "fold (adjust_step Map.empty) fs (acc, st) = (acc @ fs, st)"
  by (induction fs arbitrary: acc) (simp_all add: adjust_step_unmatched)

lemma fold_adjust_agent_empty_snd:
  "snd (fold (adjust_agent Map.empty) S (acc, st)) = st"
  by (induction S arbitrary: acc) (simp_all add: adjust_agent_def Let_def fold_adjust_step_empty)

lemma apply_adjustments_Nil:
  "apply_adjustments S [] = (map (adjusted_agent Map.empty) S, stats_of 0 0 0 0)"
proof -
  have "snd (apply_adjustments S []) = stats_of 0 0 0 0"
    by (simp add: apply_adjustments_def adjustment_map_Nil fold_adjust_agent_empty_snd
          initial_stats_def stats_of_def)
  moreover have "fst (apply_adjustments S []) = map (adjusted_agent Map.empty) S"
    by (simp add: apply_adjustments_fst adjustment_map_Nil)
  ultimately show ?thesis
    by (simp add: prod_eq_iff)
qed

lemma same_findings_adjusted_empty: "same_findings S (map (adjusted_agent Map.empty) S)"
  by (simp add: same_findings_def adjusted_agent_def Let_def map_filter_adjust_one_empty
        get_default_def comp_def)

lemma those_map_Some: "those (map (\<lambda>x. Some (f x)) xs) = Some (map f xs)"
  by (induction xs) simp_all

lemma plain_response_parse:
  "parse_validation_results (get_default (content_of plain_response) []) = []"
  by code_simp

lemma guardian_worklist: "int (length (collect_high_severity_findings guardian_example)) = 3"
  by code_simp

text \<open>What \<open>run_validator\<close> does when every call outside the repository returns: the dry
  run and the failed call give the agent results back as they were, every worklist item
  counted as confirmed; the call that succeeds without a parseable block gives the
  findings lists back as they were, the summaries recounted, and counts nothing.\<close>

lemma run_validator_quiet:
  assumes "collect_high_severity_findings S \<noteq> []"
  shows "run_validator quiet_env S True result =
           Inr (S, stats_of (int (length (collect_high_severity_findings S))) 0 0
                      (int (length (collect_high_severity_findings S))))"
    and "\<not> success result \<Longrightarrow>
         run_validator quiet_env S False result =
           Inr (S, stats_of (int (length (collect_high_severity_findings S))) 0 0
                      (int (length (collect_high_severity_findings S))))"
    and "success result \<Longrightarrow>
         parse_validation_results (get_default (content_of result) []) = [] \<Longrightarrow>
         run_validator quiet_env S False result =
           Inr (map (adjusted_agent Map.empty) S, stats_of 0 0 0 0)"
  using assms
  by (simp_all add: run_validator_def Let_def quiet_env_def those_map_Some
        apply_adjustments_Nil)

text \<open>
  Claim C5. The claim holds of the failed call, as long as the console renders the
  messages. It fails where the call succeeds without a parseable block: at the agent
  results of \<open>test_validator.py\<close>, with three findings on the worklist, and the response
  \<open>All findings look plausible.\<close>, \<open>run_validator\<close> returns the findings lists as they
  were and stats that are all zero, where the dry run and the failed call on the same
  agent results report \<open>confirmed = 3\<close>. It also raises where the claim says it never
  does: when the raw output cannot be written, and when the console refuses the message
  that holds the provider's error text.
\<close>

theorem run_validator_no_blocks_stats:
  "success plain_response \<and>
   parse_validation_results (get_default (content_of plain_response) []) = [] \<and>
   int (length (collect_high_severity_findings guardian_example)) = 3 \<and>
   map_sum id snd (run_validator quiet_env guardian_example False plain_response) =
     Inr (stats_of 0 0 0 0) \<and>
   confirmed_of (run_validator quiet_env guardian_example False plain_response) = Some 0 \<and>
   map_sum id (same_findings guardian_example \<circ> fst)
     (run_validator quiet_env guardian_example False plain_response) = Inr True \<and>
   run_validator quiet_env guardian_example True plain_response =
     Inr (guardian_example, stats_of 3 0 0 3) \<and>
   run_validator quiet_env guardian_example False failed_response =
     Inr (guardian_example, stats_of 3 0 0 3) \<and>
   run_validator read_only_env guardian_example False plain_response = Inl WriteRaised \<and>
   run_validator (refusing (failed_message tagged_failure)) guardian_example False
     tagged_failure = Inl PrintRaised"
proof -
  have w: "collect_high_severity_findings guardian_example \<noteq> []"
    using guardian_worklist by auto
  have s: "success plain_response" and f: "\<not> success failed_response"
    and t: "\<not> success tagged_failure"
    by (simp_all add: plain_response_def failed_response_def tagged_failure_def)
  have plain: "run_validator quiet_env guardian_example False plain_response =
      Inr (map (adjusted_agent Map.empty) guardian_example, stats_of 0 0 0 0)"
    by (rule run_validator_quiet(3) [OF w s plain_response_parse])
  have dry: "run_validator quiet_env guardian_example True plain_response =
      Inr (guardian_example, stats_of 3 0 0 3)"
    using run_validator_quiet(1) [OF w, of plain_response] guardian_worklist by simp
  have failed: "run_validator quiet_env guardian_example False failed_response =
      Inr (guardian_example, stats_of 3 0 0 3)"
    using run_validator_quiet(2) [OF w f] guardian_worklist by simp
  have ro: "run_validator read_only_env guardian_example False plain_response = Inl WriteRaised"
    using w s
    by (simp add: run_validator_def Let_def read_only_env_def quiet_env_def those_map_Some)
  have pr: "run_validator (refusing (failed_message tagged_failure)) guardian_example False
      tagged_failure = Inl PrintRaised"
  proof -
    have "validating_message 3 \<noteq> failed_message tagged_failure"
      by code_simp
    then show ?thesis
      using w t guardian_worklist
      by (simp add: run_validator_def Let_def refusing_def quiet_env_def those_map_Some)
  qed
  show ?thesis
    using s plain_response_parse guardian_worklist plain dry failed ro pr
      same_findings_adjusted_empty [of guardian_example]
    by (simp add: confirmed_of_def stats_of_def)
qed

lemma adjust_one_again:
  "adjust_one amap f = Some g \<Longrightarrow> adjust_one amap g = Some (restamp amap g)"
proof (cases "amap (get_default (f_id f) [])")
  case None
  assume "adjust_one amap f = Some g"
  then have "g = f" using None by (simp add: adjust_one_def)
  then show ?thesis using None by (simp add: adjust_one_def restamp_def)
next
  case (Some adj)
  assume a: "adjust_one amap f = Some g"
  show ?thesis
  proof (cases "decision adj = str ''downgraded''")
    case True
    then have g: "g = mark_downgraded adj f"
      using a Some by (simp add: adjust_one_def)
    have "amap (get_default (f_id g) []) = Some adj"
      using Some by (simp add: g mark_downgraded_def)
    then show ?thesis using True
      by (simp add: adjust_one_def restamp_def g mark_downgraded_def get_default_def)
  next
    case False
    then have g: "g = mark_confirmed f" and nr: "decision adj \<noteq> str ''rejected''"
      using a Some by (auto simp: adjust_one_def split: if_splits)
    have "amap (get_default (f_id g) []) = Some adj"
      using Some by (simp add: g mark_confirmed_def)
    then show ?thesis using False nr
      by (simp add: adjust_one_def restamp_def g mark_confirmed_def)
  qed
qed

lemma map_filter_adjust_one_again:
  "List.map_filter (adjust_one amap) (List.map_filter (adjust_one amap) fs) =
     map (restamp amap) (List.map_filter (adjust_one amap) fs)"
proof (induction fs)
  case Nil
  show ?case by simp
next
  case (Cons f fs)
  show ?case
  proof (cases "adjust_one amap f")
    case None
    then show ?thesis using Cons.IH by simp
  next
    case (Some g)
    then show ?thesis using Cons.IH adjust_one_again [OF Some] by simp
  qed
qed

lemma has_severity_restamp: "has_severity sev (restamp amap f) = has_severity sev f"
  by (simp add: has_severity_def restamp_def split: option.split)

lemma recount_restamp: "recount (map (restamp amap) fs) = recount fs"
  by (simp add: recount_def filter_map comp_def has_severity_restamp)

lemma adjusted_agent_again:
  "adjusted_agent amap (adjusted_agent amap kv) = restamp_agent amap (adjusted_agent amap kv)"
  by (simp add: adjusted_agent_def restamp_agent_def Let_def get_default_def
        map_filter_adjust_one_again recount_restamp)

text \<open>The validator's decision is read alike in both spellings.\<close>

lemma dashed_output_parse:
  "parse_validation_results dashed_output = parse_validation_results downgrade_output"
  by code_simp

lemma downgrade_output_parse:
  "parse_validation_results downgrade_output =
     [\<lparr>finding_id = str ''GUARDIAN-002'', a_original_severity = str ''BLOCKER'',
       adjusted_severity = str ''LOW'', decision = str ''downgraded'', reason = []\<rparr>]"
  by code_simp

text \<open>
  Claim C6, as amended. For every agent-results map and every raw validator output,
  applying the parsed adjustments to the already-adjusted state gives that state again,
  keys, findings lists, severities, validation marks and summaries alike, except that the
  \<open>original_severity\<close> of every finding with a downgraded adjustment now holds the adjusted
  severity.
\<close>

theorem second_validation_restamps:
  "(let adjs = parse_validation_results raw;
        once = fst (apply_adjustments S adjs);
        twice = fst (apply_adjustments once adjs)
    in twice = map (restamp_agent (adjustment_map adjs)) once)"
  by (simp add: Let_def apply_adjustments_fst adjusted_agent_again)

lemma downgrade_output_once:
  "original_severities (fst (apply_adjustments guardian_example
       (parse_validation_results downgrade_output))) = [None, Some (str ''BLOCKER''), None]"
  by code_simp

lemma downgrade_output_twice:
  "original_severities (fst (apply_adjustments
       (fst (apply_adjustments guardian_example (parse_validation_results downgrade_output)))
       (parse_validation_results downgrade_output))) = [None, Some (str ''LOW''), None]"
  by code_simp

text \<open>The claim as stated fails: after one application GUARDIAN-002 records the original
  severity BLOCKER, after two it records LOW.\<close>

theorem second_validation_counterexample:
  "fst (apply_adjustments
       (fst (apply_adjustments guardian_example (parse_validation_results downgrade_output)))
       (parse_validation_results downgrade_output))
   \<noteq> fst (apply_adjustments guardian_example (parse_validation_results downgrade_output))"
proof
  assume "fst (apply_adjustments
       (fst (apply_adjustments guardian_example (parse_validation_results downgrade_output)))
       (parse_validation_results downgrade_output))
   = fst (apply_adjustments guardian_example (parse_validation_results downgrade_output))"
  then have "[None, Some (str ''LOW''), None] = [None, Some (str ''BLOCKER''), None]"
    using downgrade_output_once downgrade_output_twice by simp
  then show False by simp
qed

lemma downgrade_output_restamped:
  "original_severities (map (restamp_agent (adjustment_map (parse_validation_results downgrade_output)))
       (fst (apply_adjustments guardian_example (parse_validation_results downgrade_output))))
     = [None, Some (str ''LOW''), None]"
  by code_simp

text \<open>The theorem at the same input.\<close>

theorem second_validation_restamps_witness:
  "original_severities (fst (apply_adjustments
       (fst (apply_adjustments guardian_example (parse_validation_results downgrade_output)))
       (parse_validation_results downgrade_output))) = [None, Some (str ''LOW''), None]"
  using second_validation_restamps [of downgrade_output guardian_example]
    downgrade_output_restamped
  by (simp add: Let_def)

section \<open>Provider: the retry policy, proofs\<close>

text \<open>One turn of the loop, in the three ways it can go.\<close>

lemma retry_loop_turn:
  "retry_loop home max_attempts retry_delay complete (a # rest) slept prev =
     (if success (complete a)
      then \<lparr>returned = complete a, sleeps = slept, calls = Suc (length slept)\<rparr>
      else if \<not> is_retryable (message_of complete a) \<or>
              (if is_rate_limit (message_of complete a) then max max_attempts 5 else max_attempts) \<le> a
      then give_up home (complete a) slept
      else retry_loop home max_attempts retry_delay complete rest
             (slept @ [(if is_rate_limit (message_of complete a) then 30 else retry_delay) * min a 3])
             (Some (complete a)))"
  by (simp add: Let_def give_up_def message_of_def)

lemma retry_loop_client:
  "\<not> success (complete attempt) \<Longrightarrow> has_client_marker (message_of complete attempt) \<Longrightarrow>
     retry_loop home max_attempts retry_delay complete (attempt # rest) slept prev
       = give_up home (complete attempt) slept"
  by (simp add: retry_loop_turn is_retryable_def del: retry_loop.simps)

lemma retry_loop_rate_limit:
  "\<not> success (complete attempt) \<Longrightarrow> is_rate_limit (message_of complete attempt) \<Longrightarrow>
   \<not> has_client_marker (message_of complete attempt) \<Longrightarrow>
     retry_loop home max_attempts retry_delay complete (attempt # rest) slept prev
       = (if attempt < max max_attempts 5
          then retry_loop home max_attempts retry_delay complete rest
                 (slept @ [30 * min attempt 3]) (Some (complete attempt))
          else give_up home (complete attempt) slept)"
  by (auto simp add: retry_loop_turn is_retryable_def simp del: retry_loop.simps)

lemma retry_loop_server:
  "\<not> success (complete attempt) \<Longrightarrow> has_server_marker (message_of complete attempt) \<Longrightarrow>
   \<not> is_rate_limit (message_of complete attempt) \<Longrightarrow>
   \<not> has_client_marker (message_of complete attempt) \<Longrightarrow>
     retry_loop home max_attempts retry_delay complete (attempt # rest) slept prev
       = (if attempt < max_attempts
          then retry_loop home max_attempts retry_delay complete rest
                 (slept @ [retry_delay * min attempt 3]) (Some (complete attempt))
          else give_up home (complete attempt) slept)"
  by (auto simp add: retry_loop_turn is_retryable_def simp del: retry_loop.simps)

lemma slept_after_snoc:
  assumes "slept_after max_attempts retry_delay complete slept"
    and "int (length slept) + 1 = k"
    and "\<not> success (complete k)" and "is_retryable (message_of complete k)"
    and "k < (if is_rate_limit (message_of complete k) then max max_attempts 5 else max_attempts)"
  shows "slept_after max_attempts retry_delay complete
           (slept @ [(if is_rate_limit (message_of complete k) then 30 else retry_delay) * min k 3])"
  unfolding slept_after_def
proof (intro allI impI)
  fix j
  assume j: "j < length (slept @ [(if is_rate_limit (message_of complete k) then 30 else retry_delay) * min k 3])"
  show "let k' = int j + 1; msg = message_of complete k'
        in \<not> success (complete k') \<and> is_retryable msg \<and>
           k' < (if is_rate_limit msg then max max_attempts 5 else max_attempts) \<and>
           (slept @ [(if is_rate_limit (message_of complete k) then 30 else retry_delay) * min k 3]) ! j
             = (if is_rate_limit msg then 30 else retry_delay) * min k' 3"
  proof (cases "j < length slept")
    case True
    then show ?thesis
      using assms(1) by (simp add: slept_after_def Let_def nth_append)
  next
    case False
    then have "j = length slept" using j by simp
    then show ?thesis
      using assms(2-5) by (simp add: Let_def nth_append)
  qed
qed

lemma retry_loop_follows_policy:
  "1 \<le> a \<Longrightarrow> a \<le> b \<Longrightarrow> b = max max_attempts 5 \<Longrightarrow> int (length slept) + 1 = a \<Longrightarrow>
     slept_after max_attempts retry_delay complete slept \<Longrightarrow>
     follows_policy home max_attempts retry_delay complete
       (retry_loop home max_attempts retry_delay complete [a..b] slept prev)"
proof (induction a b arbitrary: slept prev rule: upto.induct)
  case (1 a b)
  let ?msg = "message_of complete a"
  let ?emax = "if is_rate_limit ?msg then max max_attempts 5 else max_attempts"
  let ?wait = "(if is_rate_limit ?msg then 30 else retry_delay) * min a 3"
  have unfold: "[a..b] = a # [a + 1..b]"
    using "1.prems"(2) by (simp add: upto_rec1)
  have len: "int (Suc (length slept)) = a"
    using "1.prems"(4) by simp
  show ?case
  proof (cases "success (complete a)")
    case True
    then have "retry_loop home max_attempts retry_delay complete [a..b] slept prev
        = \<lparr>returned = complete a, sleeps = slept, calls = Suc (length slept)\<rparr>"
      by (simp add: unfold retry_loop_turn del: retry_loop.simps)
    then show ?thesis
      using "1.prems" len True
      by (simp add: follows_policy_def Let_def)
  next
    case False
    show ?thesis
    proof (cases "\<not> is_retryable ?msg \<or> ?emax \<le> a")
      case True
      then have "retry_loop home max_attempts retry_delay complete [a..b] slept prev
          = give_up home (complete a) slept"
        using False by (simp add: unfold retry_loop_turn del: retry_loop.simps)
      then show ?thesis
        using "1.prems" len False
        by (simp add: follows_policy_def give_up_def Let_def message_of_def)
    next
      case retry: False
      then have r: "is_retryable ?msg" and lt: "a < ?emax" by auto
      have emax: "?emax \<le> b" using "1.prems"(3) by simp
      have next_le: "a + 1 \<le> b" using lt emax by linarith
      have slept': "slept_after max_attempts retry_delay complete (slept @ [?wait])"
        using slept_after_snoc [OF "1.prems"(5) "1.prems"(4) False r lt] .
      have ih: "follows_policy home max_attempts retry_delay complete
          (retry_loop home max_attempts retry_delay complete [a + 1..b] (slept @ [?wait])
             (Some (complete a)))"
        using "1.IH" [OF "1.prems"(2) _ next_le "1.prems"(3) _ slept'] "1.prems"(1,4)
        by simp
      have "retry_loop home max_attempts retry_delay complete [a..b] slept prev
          = retry_loop home max_attempts retry_delay complete [a + 1..b] (slept @ [?wait])
              (Some (complete a))"
        using False retry by (simp add: unfold retry_loop_turn del: retry_loop.simps)
      then show ?thesis using ih by simp
    qed
  qed
qed

lemma complete_with_retry_follows_policy:
  "follows_policy home max_attempts retry_delay complete
     (complete_with_retry home max_attempts retry_delay complete)"
  unfolding complete_with_retry_def
  by (rule retry_loop_follows_policy) (simp_all add: slept_after_def)

text \<open>
  Claim C9. At any failed attempt of \<open>complete_with_retry\<close>: a message that carries a 400,
  401, 403 or 404 marker ends the run at once, whatever else it carries, with the failure
  returned and its message sanitised; a message that carries 429 (and no such marker) is
  followed by a sleep of \<open>30 * min(attempt, 3)\<close> seconds and a further attempt while the
  attempt number is below \<open>max(max_attempts, 5)\<close>, and ends the run otherwise; a message
  that carries a 500, 502, 503, 504 or timeout marker (and neither 429 nor a 4xx marker)
  is followed by a sleep of \<open>retry_delay * min(attempt, 3)\<close> seconds and a further attempt
  while the attempt number is below \<open>max_attempts\<close>, and ends the run otherwise. A whole
  run makes at most \<open>max(max_attempts, 5)\<close> calls, each sleep follows a retryable failure
  of its class, and the run returns the answer to its last call, a failure with its
  message passed through \<open>sanitize_error\<close>.
\<close>

theorem retry_policy_by_class:
  "(let msg = message_of complete attempt;
        go = retry_loop home max_attempts retry_delay complete;
        stop = give_up home (complete attempt) slept
    in \<not> success (complete attempt) \<longrightarrow>
       (has_client_marker msg \<longrightarrow> go (attempt # rest) slept prev = stop) \<and>
       (is_rate_limit msg \<and> \<not> has_client_marker msg \<longrightarrow>
          go (attempt # rest) slept prev =
            (if attempt < max max_attempts 5
             then go rest (slept @ [30 * min attempt 3]) (Some (complete attempt))
             else stop)) \<and>
       (has_server_marker msg \<and> \<not> is_rate_limit msg \<and> \<not> has_client_marker msg \<longrightarrow>
          go (attempt # rest) slept prev =
            (if attempt < max_attempts
             then go rest (slept @ [retry_delay * min attempt 3]) (Some (complete attempt))
             else stop))) \<and>
   follows_policy home max_attempts retry_delay complete
     (complete_with_retry home max_attempts retry_delay complete)"
  unfolding Let_def
  using retry_loop_client [of complete attempt home max_attempts retry_delay rest slept prev]
    retry_loop_rate_limit [of complete attempt home max_attempts retry_delay rest slept prev]
    retry_loop_server [of complete attempt home max_attempts retry_delay rest slept prev]
    complete_with_retry_follows_policy [of home max_attempts retry_delay complete]
  by blast

text \<open>A bearer token is redacted after any whitespace, a no-break space included.\<close>

lemma bearer_redacted:
  "sanitize_error (str ''/home/dev'') (str ''Bearer'' @ [0xA0] @ str ''abc.def'') =
     str ''Bearer [REDACTED]''"
  by code_simp

text \<open>A message with a 401 and a 429 marker is not retried and comes back redacted; a
  rate-limited provider is called five times, an unavailable one three times.\<close>

lemma unauthorized_markers:
  "has_client_marker unauthorized_message" "is_rate_limit unauthorized_message"
  by code_simp+

lemma unauthorized_sanitized:
  "sanitize_error (str ''/home/dev'') unauthorized_message = str ''401 after 429 | Bearer [REDACTED]''"
  by code_simp

lemma rate_limited_run:
  "complete_with_retry (str ''/home/dev'') 3 5 (always_failing (str ''429 Too Many Requests'')) =
     \<lparr>returned = \<lparr>success = False, content_of = None, tokens_used_of = None,
                   error_of = Some (str ''429 Too Many Requests'')\<rparr>,
      sleeps = [30, 60, 90, 90], calls = 5\<rparr>"
  by code_simp

lemma unavailable_run:
  "complete_with_retry (str ''/home/dev'') 3 5 (always_failing (str ''503 Service Unavailable'')) =
     \<lparr>returned = \<lparr>success = False, content_of = None, tokens_used_of = None,
                   error_of = Some (str ''503 Service Unavailable'')\<rparr>,
      sleeps = [5, 10], calls = 3\<rparr>"
  by code_simp

theorem retry_policy_by_class_witness:
  "\<not> success (always_failing unauthorized_message 1) \<and>
   has_client_marker (message_of (always_failing unauthorized_message) 1) \<and>
   is_rate_limit (message_of (always_failing unauthorized_message) 1) \<and>
   complete_with_retry (str ''/home/dev'') 3 5 (always_failing unauthorized_message) =
     \<lparr>returned = \<lparr>success = False, content_of = None, tokens_used_of = None,
                   error_of = Some (str ''401 after 429 | Bearer [REDACTED]'')\<rparr>,
      sleeps = [], calls = 1\<rparr> \<and>
   sleeps (complete_with_retry (str ''/home/dev'') 3 5 (always_failing (str ''429 Too Many Requests'')))
     = [30, 60, 90, 90] \<and>
   sleeps (complete_with_retry (str ''/home/dev'') 3 5 (always_failing (str ''503 Service Unavailable'')))
     = [5, 10]"
proof -
  let ?c = "always_failing unauthorized_message"
  have f: "\<not> success (?c 1)"
    by (simp add: always_failing_def)
  have m: "message_of ?c 1 = unauthorized_message"
    by (simp add: message_of_def always_failing_def get_default_def)
  have u: "[1..max 3 5] = [1, 2, 3, 4, 5::int]"
    by code_simp
  have "retry_loop (str ''/home/dev'') 3 5 ?c [1, 2, 3, 4, 5] [] None = give_up (str ''/home/dev'') (?c 1) []"
    using retry_policy_by_class [of ?c 1 "(str ''/home/dev'')" 3 5 "[]" "[2, 3, 4, 5]" None] f m
      unauthorized_markers
    by (simp add: Let_def del: retry_loop.simps)
  then have "complete_with_retry (str ''/home/dev'') 3 5 ?c =
      \<lparr>returned = \<lparr>success = False, content_of = None, tokens_used_of = None,
                   error_of = Some (str ''401 after 429 | Bearer [REDACTED]'')\<rparr>,
       sleeps = [], calls = 1\<rparr>"
    unfolding complete_with_retry_def u
    using unauthorized_sanitized
    by (simp add: give_up_def always_failing_def get_default_def del: retry_loop.simps)
  then show ?thesis
    using f m unauthorized_markers rate_limited_run unavailable_run by simp
qed

end
